theory Spec2Isabelle
  imports Main "HOL-Library.Char_ord" "HOL-Library.List_Lexorder"
begin

section \<open>The feature schema\<close>

text \<open>
  \<^verbatim>\<open>image_features()\<close> builds a fresh list on every call: the ten base names prefixed with
  \<^verbatim>\<open>mean_\<close>, then with \<^verbatim>\<open>se_\<close>, then with \<^verbatim>\<open>worst_\<close>. The function takes no argument
  and reads no state, so it is a constant of the model; \<^verbatim>\<open>"mean_{}".format(v)\<close> is the
  concatenation of the prefix and \<open>v\<close>, and \<^verbatim>\<open>columns.extend(l)\<close> appends \<open>l\<close>.
\<close>

definition image_features :: "string list" where
  "image_features =
     (let names = [''radius'', ''texture'', ''perimeter'', ''area'', ''smoothness'',
                   ''compactness'', ''concavity'', ''concave points'', ''symmetry'',
                   ''fractal dimension''];
          columns = map (\<lambda>v. ''mean_'' @ v) names;
          columns = columns @ map (\<lambda>v. ''se_'' @ v) names;
          columns = columns @ map (\<lambda>v. ''worst_'' @ v) names
      in columns)"

section \<open>Tables, columns and errors\<close>

text \<open>
  The loaders are four calls into the table library: \<^verbatim>\<open>read_csv\<close>,
  \<^verbatim>\<open>cat.rename_categories\<close>, \<^verbatim>\<open>drop\<close> / \<^verbatim>\<open>loc\<close> and \<^verbatim>\<open>astype(float)\<close>. The model
  gives each of them the behaviour the library has for the arguments the loaders pass
  (the list of missing-value tokens, and \<^verbatim>\<open>rename_categories(..., inplace=True)\<close> renaming
  in place, are those of the release the notebook was run with: its recorded outputs show
  both loaders returning).

  \<^item> A file is the list of its records, each record the list of its fields as text: splitting
    the text into records and fields (delimiters, quoting, blank lines) is the tokenizer's
    work and is not modelled. A file system maps a path to a file, or to nothing.
  \<^item> Floating-point values are not modelled: the reading of a text as a number is a
    parameter \<open>to_float\<close> of the parser and of the loaders (\<open>None\<close> where the text is no
    number), and a numeric cell holds whatever value \<open>to_float\<close> gives. Integer and float
    columns are not told apart: both are \<open>Float64\<close>.
  \<^item> A missing cell (\<^verbatim>\<open>NaN\<close>) is \<open>None\<close>.
  \<^item> Every exception is an \<open>error\<close> value; a loader returns \<open>Inl e\<close> or \<open>Inr (X, y)\<close>.
\<close>

datatype error =
    FileNotFoundError
  | ParserError
  | KeyError string
  | AttributeError
  | CategoriesValueError
  | FloatValueError string

text \<open>
  \<open>FileNotFoundError\<close>: the path names no file. \<open>ParserError\<close>: the parser refuses the file
  for the number of fields of a record. \<open>CategoriesValueError\<close>: the \<^verbatim>\<open>ValueError\<close> of
  \<^verbatim>\<open>rename_categories\<close> when the new names are not as many as the categories.
  \<open>FloatValueError s\<close>: the \<^verbatim>\<open>ValueError\<close> of \<^verbatim>\<open>astype(float)\<close> on the text \<open>s\<close>.
  \<open>KeyError\<close>, \<open>AttributeError\<close>: a column label that does not exist, the \<^verbatim>\<open>.cat\<close> accessor on
  a column that is not categorical.
\<close>

text \<open>
  A column is typed when it is read: numbers, truth values (with gaps, the library's
  object column of \<^verbatim>\<open>True\<close>, \<^verbatim>\<open>False\<close> and \<^verbatim>\<open>NaN\<close>), categories with codes, or plain texts.
  An entry of a row index is a number, a truth value or a text.
\<close>

datatype 'v column =
    Object "string option list"
  | Categorical "string list" "nat option list"
  | Float64 "'v option list"
  | Bool "bool option list"

datatype 'v scalar = Number 'v | Boolean bool | Text string

record 'v dataframe =
  df_index :: "'v scalar option list"
  df_columns :: "(string \<times> 'v column) list"

record 'v series =
  sr_index :: "'v scalar option list"
  sr_values :: "'v column"

type_synonym filesystem = "string \<Rightarrow> string list list option"

section \<open>Reading the file\<close>

text \<open>
  The tokens \<^verbatim>\<open>read_csv\<close> reads as missing when \<^verbatim>\<open>na_values\<close> is not given; a list passed as
  \<^verbatim>\<open>na_values\<close> is added to them and holds for every column.
\<close>

definition default_na_values :: "string list" where
  "default_na_values =
     ['''', ''#N/A'', ''#N/A N/A'', ''#NA'', ''-1.#IND'', ''-1.#QNAN'', ''-NaN'', ''-nan'',
      ''1.#IND'', ''1.#QNAN'', ''N/A'', ''NA'', ''NULL'', ''NaN'', ''nan'']"

text \<open>
  Field \<open>j\<close> of a record: missing when the record is too short to have it (the parser pads
  short records) or when its text is a missing-value token.
\<close>

definition parse_field :: "string list \<Rightarrow> string list \<Rightarrow> nat \<Rightarrow> string option" where
  "parse_field na r j = (if j < length r \<and> r ! j \<notin> set na then Some (r ! j) else None)"

definition file_column :: "string list \<Rightarrow> string list list \<Rightarrow> nat \<Rightarrow> string option list" where
  "file_column na records j = map (\<lambda>r. parse_field na r j) records"

text \<open>
  The type of a column without a declared \<^verbatim>\<open>dtype\<close> is inferred from all its cells: numbers
  when every cell that is not missing is a number; else truth values when every such cell
  is one of the tokens for true and false; else the texts as they are.
\<close>

definition true_values :: "string list" where
  "true_values = [''True'', ''TRUE'', ''true'']"

definition false_values :: "string list" where
  "false_values = [''False'', ''FALSE'', ''false'']"

fun cell_ok :: "(string \<Rightarrow> 'v option) \<Rightarrow> string option \<Rightarrow> bool" where
  "cell_ok to_float None = True"
| "cell_ok to_float (Some s) = (to_float s \<noteq> None)"

definition cells_ok :: "(string \<Rightarrow> 'v option) \<Rightarrow> string option list \<Rightarrow> bool" where
  "cells_ok to_float cells = list_all (cell_ok to_float) cells"

fun bool_cell :: "string option \<Rightarrow> bool" where
  "bool_cell None = True"
| "bool_cell (Some s) = (s \<in> set (true_values @ false_values))"

definition bool_cells :: "string option list \<Rightarrow> bool" where
  "bool_cells cells = list_all bool_cell cells"

definition float_cells :: "(string \<Rightarrow> 'v option) \<Rightarrow> string option list \<Rightarrow> 'v option list" where
  "float_cells to_float cells = map (\<lambda>c. Option.bind c to_float) cells"

definition truth_cells :: "string option list \<Rightarrow> bool option list" where
  "truth_cells cells = map (map_option (\<lambda>s. s \<in> set true_values)) cells"

definition infer_column :: "(string \<Rightarrow> 'v option) \<Rightarrow> string option list \<Rightarrow> 'v column" where
  "infer_column to_float cells =
     (if cells_ok to_float cells then Float64 (float_cells to_float cells)
      else if bool_cells cells then Bool (truth_cells cells)
      else Object cells)"

fun index_of :: "'a list \<Rightarrow> 'a \<Rightarrow> nat" where
  "index_of [] x = 0"
| "index_of (y # ys) x = (if x = y then 0 else Suc (index_of ys x))"

text \<open>
  A column read with \<^verbatim>\<open>dtype='category'\<close>: its categories are the distinct texts of the
  column, sorted (the categories are kept as texts, and strings compare by code point, as
  \<open>char list\<close> does here); a cell holds the position of its text among the categories, a
  missing cell holds no code.
\<close>

definition categories_of :: "string option list \<Rightarrow> string list" where
  "categories_of cells = sort (remdups (List.map_filter id cells))"

definition categorical :: "string option list \<Rightarrow> 'v column" where
  "categorical cells =
     (let cats = categories_of cells
      in Categorical cats (map (map_option (index_of cats)) cells))"

definition category_of :: "string list \<Rightarrow> nat \<Rightarrow> string option" where
  "category_of cats i = (if i < length cats then Some (cats ! i) else None)"

definition category_labels :: "string list \<Rightarrow> nat option list \<Rightarrow> string option list" where
  "category_labels cats codes = map (\<lambda>c. Option.bind c (category_of cats)) codes"

text \<open>The entries of a row index made from a column.\<close>

fun column_scalars :: "'v column \<Rightarrow> 'v scalar option list" where
  "column_scalars (Object cells) = map (map_option Text) cells"
| "column_scalars (Categorical cats codes) = map (map_option Text) (category_labels cats codes)"
| "column_scalars (Float64 vs) = map (map_option Number) vs"
| "column_scalars (Bool bs) = map (map_option Boolean) bs"

text \<open>
  The number of fields the parser expects in every record when it is given \<open>n\<close> names and no
  header: the width of the first record, and at least \<open>n\<close>. The fields beyond \<open>n\<close> are the
  leading fields: the parser takes them for the row index.
\<close>

definition expected_fields :: "nat \<Rightarrow> string list list \<Rightarrow> nat" where
  "expected_fields n records = max n (case records of [] \<Rightarrow> 0 | r # _ \<Rightarrow> length r)"

definition leading_fields :: "nat \<Rightarrow> string list list \<Rightarrow> nat" where
  "leading_fields n records = expected_fields n records - n"

text \<open>
  \<^verbatim>\<open>read_csv(local_file, index_col=0, header=None, names=names, dtype={c: 'category'},
  na_values=na_values)\<close>. A record with more fields than expected is a parse error; a
  shorter one is padded with missing cells. With no leading field the first name goes to
  the first field, which becomes the row index, and the other names to the fields after
  it. With one leading field, that field is the row index and all the names go to the
  fields after it: the column named first stays in the table. With more than one the index
  cannot be built from the one index column asked for.
\<close>

definition read_csv ::
  "(string \<Rightarrow> 'v option) \<Rightarrow> filesystem \<Rightarrow> string \<Rightarrow> string list \<Rightarrow> string list \<Rightarrow> string list
     \<Rightarrow> error + 'v dataframe"
where
  "read_csv to_float fs local_file names category na_values =
     (case fs local_file of
        None \<Rightarrow> Inl FileNotFoundError
      | Some records \<Rightarrow>
          if list_ex (\<lambda>r. expected_fields (length names) records < length r) records
          then Inl ParserError
          else if 1 < leading_fields (length names) records then Inl ParserError
          else
            let na = default_na_values @ na_values;
                named = (if leading_fields (length names) records = 1 then names else tl names)
            in Inr \<lparr> df_index = column_scalars (infer_column to_float (file_column na records 0)),
                     df_columns =
                       map (\<lambda>(j, name).
                              (name, if name \<in> set category then categorical (file_column na records j)
                                     else infer_column to_float (file_column na records j)))
                           (enumerate 1 named) \<rparr>)"

section \<open>Operations on tables\<close>

definition get_column :: "'v dataframe \<Rightarrow> string \<Rightarrow> error + 'v column" where
  "get_column df name =
     (case map_of (df_columns df) name of None \<Rightarrow> Inl (KeyError name) | Some c \<Rightarrow> Inr c)"

definition set_column :: "'v dataframe \<Rightarrow> string \<Rightarrow> 'v column \<Rightarrow> 'v dataframe" where
  "set_column df name c =
     df\<lparr>df_columns := map (\<lambda>(n, old). (n, if n = name then c else old)) (df_columns df)\<rparr>"

text \<open>\<^verbatim>\<open>c.cat.rename_categories(new)\<close>: the categories are replaced position by position.\<close>

definition rename_categories :: "'v column \<Rightarrow> string list \<Rightarrow> error + 'v column" where
  "rename_categories c new_categories =
     (case c of
        Categorical cats codes \<Rightarrow>
          if length new_categories = length cats then Inr (Categorical new_categories codes)
          else Inl CategoriesValueError
      | _ \<Rightarrow> Inl AttributeError)"

fun missing_labels :: "string list \<Rightarrow> (string \<times> 'c) list \<Rightarrow> string list" where
  "missing_labels labels cols = filter (\<lambda>l. map_of cols l = None) labels"

text \<open>\<^verbatim>\<open>df.drop(labels, axis=1)\<close> and \<^verbatim>\<open>df.loc[:, labels]\<close>.\<close>

definition drop_columns :: "'v dataframe \<Rightarrow> string list \<Rightarrow> error + 'v dataframe" where
  "drop_columns df labels =
     (case missing_labels labels (df_columns df) of
        l # _ \<Rightarrow> Inl (KeyError l)
      | [] \<Rightarrow> Inr (df\<lparr>df_columns := filter (\<lambda>(n, c). n \<notin> set labels) (df_columns df)\<rparr>))"

definition loc_columns :: "'v dataframe \<Rightarrow> string list \<Rightarrow> error + 'v dataframe" where
  "loc_columns df labels =
     (case missing_labels labels (df_columns df) of
        l # _ \<Rightarrow> Inl (KeyError l)
      | [] \<Rightarrow>
          Inr (df\<lparr>df_columns :=
                    List.map_filter (\<lambda>l. map_option (Pair l) (map_of (df_columns df) l)) labels\<rparr>))"

text \<open>The cells of a column as label texts: a categorical cell shows its category.\<close>

fun get_labels :: "'v column \<Rightarrow> string option list" where
  "get_labels (Categorical cats codes) = category_labels cats codes"
| "get_labels (Object cells) = cells"
| "get_labels (Float64 vs) = map (\<lambda>v. None) vs"
| "get_labels (Bool bs) = map (map_option (\<lambda>b. if b then ''True'' else ''False'')) bs"

text \<open>The number of rows a column holds, and where its cells are missing.\<close>

fun column_length :: "'v column \<Rightarrow> nat" where
  "column_length (Object cells) = length cells"
| "column_length (Categorical cats codes) = length codes"
| "column_length (Float64 vs) = length vs"
| "column_length (Bool bs) = length bs"

fun column_isna :: "'v column \<Rightarrow> bool list" where
  "column_isna (Object cells) = map (\<lambda>c. c = None) cells"
| "column_isna (Categorical cats codes) = map (\<lambda>c. c = None) codes"
| "column_isna (Float64 vs) = map (\<lambda>c. c = None) vs"
| "column_isna (Bool bs) = map (\<lambda>c. c = None) bs"

section \<open>Conversion to float\<close>

text \<open>Apply a fallible step to every element; the first failure is the result.\<close>

fun traverse :: "('a \<Rightarrow> error + 'b) \<Rightarrow> 'a list \<Rightarrow> error + 'b list" where
  "traverse f [] = Inr []"
| "traverse f (x # xs) =
     (case f x of
        Inl e \<Rightarrow> Inl e
      | Inr y \<Rightarrow> (case traverse f xs of Inl e \<Rightarrow> Inl e | Inr ys \<Rightarrow> Inr (y # ys)))"

fun cell_to_float :: "(string \<Rightarrow> 'v option) \<Rightarrow> string option \<Rightarrow> error + 'v option" where
  "cell_to_float to_float None = Inr None"
| "cell_to_float to_float (Some s) =
     (case to_float s of None \<Rightarrow> Inl (FloatValueError s) | Some v \<Rightarrow> Inr (Some v))"

text \<open>
  \<^verbatim>\<open>astype(float)\<close> on a column: the numbers stay, a truth value becomes the number 1 or 0
  (the float of the text \<^verbatim>\<open>1\<close> or \<^verbatim>\<open>0\<close>), and a text is read with \<^verbatim>\<open>float\<close>, which raises on
  the first text that is no number.
\<close>

definition truth_to_float :: "(string \<Rightarrow> 'v option) \<Rightarrow> bool \<Rightarrow> 'v option" where
  "truth_to_float to_float b = to_float (if b then ''1'' else ''0'')"

fun column_to_float :: "(string \<Rightarrow> 'v option) \<Rightarrow> 'v column \<Rightarrow> error + 'v column" where
  "column_to_float to_float (Object cells) =
     (case traverse (cell_to_float to_float) cells of
        Inl e \<Rightarrow> Inl e | Inr vs \<Rightarrow> Inr (Float64 vs))"
| "column_to_float to_float (Categorical cats codes) =
     (case traverse (cell_to_float to_float) (category_labels cats codes) of
        Inl e \<Rightarrow> Inl e | Inr vs \<Rightarrow> Inr (Float64 vs))"
| "column_to_float to_float (Float64 vs) = Inr (Float64 vs)"
| "column_to_float to_float (Bool bs) =
     Inr (Float64 (map (\<lambda>b. Option.bind b (truth_to_float to_float)) bs))"

text \<open>\<^verbatim>\<open>df.astype(float)\<close>: every column is converted; the index is kept.\<close>

definition astype_float :: "(string \<Rightarrow> 'v option) \<Rightarrow> 'v dataframe \<Rightarrow> error + 'v dataframe" where
  "astype_float to_float df =
     (case traverse (\<lambda>(n, c). case column_to_float to_float c of
                                 Inl e \<Rightarrow> Inl e | Inr c' \<Rightarrow> Inr (n, c'))
                    (df_columns df) of
        Inl e \<Rightarrow> Inl e
      | Inr cols \<Rightarrow> Inr (df\<lparr>df_columns := cols\<rparr>))"

section \<open>The loaders\<close>

definition load_wisconsin_breast_cancer_diagnosis ::
  "(string \<Rightarrow> 'v option) \<Rightarrow> filesystem \<Rightarrow> string \<Rightarrow> error + ('v dataframe \<times> 'v series)"
where
  "load_wisconsin_breast_cancer_diagnosis to_float fs local_file =
     (let columns = [''ID'', ''diagnosis''];
          columns = columns @ image_features
      in case read_csv to_float fs local_file columns [''diagnosis''] [] of
           Inl e \<Rightarrow> Inl e
         | Inr data \<Rightarrow>
        (case get_column data ''diagnosis'' of
           Inl e \<Rightarrow> Inl e
         | Inr diagnosis \<Rightarrow>
        (case rename_categories diagnosis [''benign'', ''malignant''] of
           Inl e \<Rightarrow> Inl e
         | Inr renamed \<Rightarrow>
        (let y = \<lparr> sr_index = df_index data, sr_values = renamed \<rparr>
         in case drop_columns data [''diagnosis''] of
           Inl e \<Rightarrow> Inl e
         | Inr dropped \<Rightarrow>
        (case astype_float to_float dropped of
           Inl e \<Rightarrow> Inl e
         | Inr X \<Rightarrow> Inr (X, y))))))"

definition load_wisconsin_breast_cancer_prognosis ::
  "(string \<Rightarrow> 'v option) \<Rightarrow> filesystem \<Rightarrow> string \<Rightarrow> error + ('v dataframe \<times> 'v dataframe)"
where
  "load_wisconsin_breast_cancer_prognosis to_float fs local_file =
     (let columns = [''ID'', ''outcome'', ''time''];
          outcomes = drop 1 columns;
          extra_vars = [''tumor_size'', ''lymph_node_status''];
          columns = columns @ image_features;
          columns = columns @ extra_vars
      in case read_csv to_float fs local_file columns [''outcome''] [''?''] of
           Inl e \<Rightarrow> Inl e
         | Inr data \<Rightarrow>
        (case loc_columns data outcomes of
           Inl e \<Rightarrow> Inl e
         | Inr y \<Rightarrow>
        (case get_column y ''outcome'' of
           Inl e \<Rightarrow> Inl e
         | Inr outcome \<Rightarrow>
        (case rename_categories outcome [''nonrecurring'', ''recurring''] of
           Inl e \<Rightarrow> Inl e
         | Inr renamed \<Rightarrow>
        (let y = set_column y ''outcome'' renamed
         in case drop_columns data outcomes of
           Inl e \<Rightarrow> Inl e
         | Inr dropped \<Rightarrow>
        (case astype_float to_float dropped of
           Inl e \<Rightarrow> Inl e
         | Inr X \<Rightarrow> Inr (X, y)))))))"

section \<open>Notions used in the statements\<close>

text \<open>
  The cells of the columns named \<open>names\<close> that start at field \<open>k\<close> of the records. A column
  that \<^verbatim>\<open>astype(float)\<close> converts once it is read: its cells are numbers, or truth values;
  the converted cells; and the same for lists of named columns.
\<close>

definition named_cells ::
  "string list \<Rightarrow> string list list \<Rightarrow> nat \<Rightarrow> string list \<Rightarrow> (string \<times> string option list) list"
where
  "named_cells na records k names =
     map (\<lambda>(j, name). (name, file_column na records j)) (enumerate k names)"

definition convertible :: "(string \<Rightarrow> 'v option) \<Rightarrow> string option list \<Rightarrow> bool" where
  "convertible to_float cells = (cells_ok to_float cells \<or> bool_cells cells)"

definition convert_cells :: "(string \<Rightarrow> 'v option) \<Rightarrow> string option list \<Rightarrow> 'v option list" where
  "convert_cells to_float cells =
     (if cells_ok to_float cells then float_cells to_float cells
      else map (\<lambda>b. Option.bind b (truth_to_float to_float)) (truth_cells cells))"

definition all_convertible ::
  "(string \<Rightarrow> 'v option) \<Rightarrow> (string \<times> string option list) list \<Rightarrow> bool" where
  "all_convertible to_float ncs = list_all (\<lambda>(n, cells). convertible to_float cells) ncs"

definition float_columns ::
  "(string \<Rightarrow> 'v option) \<Rightarrow> (string \<times> string option list) list \<Rightarrow> (string \<times> 'v column) list"
where
  "float_columns to_float ncs = map (\<lambda>(n, cells). (n, Float64 (convert_cells to_float cells))) ncs"

definition inferred_columns ::
  "(string \<Rightarrow> 'v option) \<Rightarrow> (string \<times> string option list) list \<Rightarrow> (string \<times> 'v column) list"
where
  "inferred_columns to_float ncs = map (\<lambda>(n, cells). (n, infer_column to_float cells)) ncs"

text \<open>
  A file the parser reads when it is given \<open>n\<close> names: no record has more fields than
  expected, and there is at most one leading field. The row index it reads, and the
  column that stays in the table under the first name when there is a leading field.
\<close>

definition readable :: "nat \<Rightarrow> string list list \<Rightarrow> bool" where
  "readable n records =
     (list_all (\<lambda>r. length r \<le> expected_fields n records) records
      \<and> leading_fields n records \<le> 1)"

definition read_index ::
  "(string \<Rightarrow> 'v option) \<Rightarrow> string list \<Rightarrow> string list list \<Rightarrow> 'v scalar option list" where
  "read_index to_float na records = column_scalars (infer_column to_float (file_column na records 0))"

definition leading_cells ::
  "string list \<Rightarrow> nat \<Rightarrow> string list list \<Rightarrow> (string \<times> string option list) list" where
  "leading_cells na n records =
     (if leading_fields n records = 1 then [(''ID'', file_column na records 1)] else [])"

text \<open>
  The missing-value tokens of the prognosis loader and the names of its 32 feature columns.
  For either loader: the cells of the label column, their codes, the cells of the columns
  of the features table, and the two tables the loader returns when it returns.
\<close>

definition prognosis_na_values :: "string list" where
  "prognosis_na_values = default_na_values @ [''?'']"

definition prognosis_features :: "string list" where
  "prognosis_features = image_features @ [''tumor_size'', ''lymph_node_status'']"

definition diagnosis_label_cells :: "string list list \<Rightarrow> string option list" where
  "diagnosis_label_cells records =
     file_column default_na_values records (1 + leading_fields 32 records)"

definition diagnosis_codes :: "string list list \<Rightarrow> nat option list" where
  "diagnosis_codes records =
     (let lab = diagnosis_label_cells records
      in map (map_option (index_of (categories_of lab))) lab)"

definition diagnosis_cells :: "string list list \<Rightarrow> (string \<times> string option list) list" where
  "diagnosis_cells records =
     leading_cells default_na_values 32 records
     @ named_cells default_na_values records (2 + leading_fields 32 records) image_features"

definition diagnosis_X :: "(string \<Rightarrow> 'v option) \<Rightarrow> string list list \<Rightarrow> 'v dataframe" where
  "diagnosis_X to_float records =
     \<lparr>df_index = read_index to_float default_na_values records,
      df_columns = float_columns to_float (diagnosis_cells records)\<rparr>"

definition diagnosis_y :: "(string \<Rightarrow> 'v option) \<Rightarrow> string list list \<Rightarrow> 'v series" where
  "diagnosis_y to_float records =
     \<lparr>sr_index = read_index to_float default_na_values records,
      sr_values = Categorical [''benign'', ''malignant''] (diagnosis_codes records)\<rparr>"

definition prognosis_label_cells :: "string list list \<Rightarrow> string option list" where
  "prognosis_label_cells records =
     file_column prognosis_na_values records (1 + leading_fields 35 records)"

definition prognosis_time_cells :: "string list list \<Rightarrow> string option list" where
  "prognosis_time_cells records =
     file_column prognosis_na_values records (2 + leading_fields 35 records)"

definition outcome_codes :: "string list list \<Rightarrow> nat option list" where
  "outcome_codes records =
     (let lab = prognosis_label_cells records
      in map (map_option (index_of (categories_of lab))) lab)"

definition prognosis_cells :: "string list list \<Rightarrow> (string \<times> string option list) list" where
  "prognosis_cells records =
     leading_cells prognosis_na_values 35 records
     @ named_cells prognosis_na_values records (3 + leading_fields 35 records) prognosis_features"

definition prognosis_X :: "(string \<Rightarrow> 'v option) \<Rightarrow> string list list \<Rightarrow> 'v dataframe" where
  "prognosis_X to_float records =
     \<lparr>df_index = read_index to_float prognosis_na_values records,
      df_columns = float_columns to_float (prognosis_cells records)\<rparr>"

definition prognosis_y :: "(string \<Rightarrow> 'v option) \<Rightarrow> string list list \<Rightarrow> 'v dataframe" where
  "prognosis_y to_float records =
     \<lparr>df_index = read_index to_float prognosis_na_values records,
      df_columns =
        [(''outcome'', Categorical [''nonrecurring'', ''recurring''] (outcome_codes records)),
         (''time'', infer_column to_float (prognosis_time_cells records))]\<rparr>"

text \<open>The default arguments of the two loaders.\<close>

definition default_diagnosis_file :: string where
  "default_diagnosis_file = ''datasets/wdbc.data''"

definition default_prognosis_file :: string where
  "default_prognosis_file = ''datasets/wpbc.data''"

text \<open>
  A reader for plain decimal literals (digits, optionally a point and more digits), which
  \<^verbatim>\<open>float\<close> reads too, and sample files: they are used to run the loaders on concrete
  inputs. The reader gives the literal itself as the value of the cell.
\<close>

definition is_digit :: "char \<Rightarrow> bool" where
  "is_digit c = (c \<in> set ''0123456789'')"

definition decimal :: "string \<Rightarrow> string option" where
  "decimal s =
     (let whole = takeWhile is_digit s; rest = dropWhile is_digit s
      in if whole \<noteq> [] \<and> (rest = [] \<or> (hd rest = CHR ''.'' \<and> list_all is_digit (tl rest)))
         then Some s else None)"

definition one_file :: "string \<Rightarrow> string list list \<Rightarrow> filesystem" where
  "one_file path records = (\<lambda>p. if p = path then Some records else None)"

definition diagnosis_sample :: "string list list" where
  "diagnosis_sample =
     [''842302'' # ''M'' # replicate 30 ''17.99'',
      ''8510426'' # ''B'' # replicate 30 ''13.54'',
      ''8510653'' # ''B'' # replicate 30 ''13.08'',
      ''842517'' # ''M'' # replicate 30 ''20.57'',
      ''8510824'' # ''B'' # replicate 30 ''9.504'']"

definition prognosis_sample :: "string list list" where
  "prognosis_sample =
     [''119513'' # ''N'' # ''31'' # replicate 30 ''18.02'' @ [''5'', ''5''],
      ''8423'' # ''R'' # ''61'' # replicate 30 ''17.99'' @ [''3'', ''?''],
      ''842517'' # ''N'' # ''116'' # replicate 30 ''21.37'' @ [''2.5'', ''0'']]"

text \<open>
  Records that follow the schema of a file. A numeric field is a text that is not a
  missing-value token and that \<open>to_float\<close> reads. A diagnosis record has 32 fields: the
  identifier, a label that is not a missing-value token, and 30 numeric fields. A prognosis
  record has 35 fields: the identifier, such a label, the time, 31 numeric fields (the image
  features and \<^verbatim>\<open>tumor_size\<close>) and \<^verbatim>\<open>lymph_node_status\<close>, which is numeric or the token \<^verbatim>\<open>?\<close>.
\<close>

definition numeric_field :: "(string \<Rightarrow> 'v option) \<Rightarrow> string list \<Rightarrow> string \<Rightarrow> bool" where
  "numeric_field to_float na s = (s \<notin> set na \<and> to_float s \<noteq> None)"

definition diagnosis_record :: "(string \<Rightarrow> 'v option) \<Rightarrow> string list \<Rightarrow> bool" where
  "diagnosis_record to_float r =
     (length r = 32 \<and> r ! 1 \<notin> set default_na_values
      \<and> list_all (numeric_field to_float default_na_values) (drop 2 r))"

definition prognosis_record :: "(string \<Rightarrow> 'v option) \<Rightarrow> string list \<Rightarrow> bool" where
  "prognosis_record to_float r =
     (length r = 35 \<and> r ! 1 \<notin> set prognosis_na_values
      \<and> list_all (numeric_field to_float prognosis_na_values) (take 31 (drop 3 r))
      \<and> (r ! 34 = ''?'' \<or> numeric_field to_float prognosis_na_values (r ! 34)))"

text \<open>The labels shown by the column \<open>name\<close> of a table.\<close>

definition frame_labels :: "'v dataframe \<Rightarrow> string \<Rightarrow> string option list" where
  "frame_labels df name =
     (case map_of (df_columns df) name of None \<Rightarrow> [] | Some c \<Rightarrow> get_labels c)"

text \<open>A list of named columns whose cells are all numbers or missing.\<close>

definition all_cells_ok ::
  "(string \<Rightarrow> 'v option) \<Rightarrow> (string \<times> string option list) list \<Rightarrow> bool" where
  "all_cells_ok to_float ncs = list_all (\<lambda>(n, cells). cells_ok to_float cells) ncs"







text \<open>
  Sample files that stray from the schema: a third label code; the token \<^verbatim>\<open>?\<close> as an
  outcome; and a diagnosis file whose records carry a row label before the identifier,
  33 fields instead of 32.
\<close>

definition diagnosis_three_codes :: "string list list" where
  "diagnosis_three_codes =
     [''842302'' # ''M'' # replicate 30 ''17.99'',
      ''8510426'' # ''B'' # replicate 30 ''13.54'',
      ''8510653'' # ''X'' # replicate 30 ''13.08'']"

definition prognosis_unknown_outcome :: "string list list" where
  "prognosis_unknown_outcome =
     [''119513'' # ''N'' # ''31'' # replicate 30 ''18.02'' @ [''5'', ''5''],
      ''8423'' # ''R'' # ''61'' # replicate 30 ''17.99'' @ [''3'', ''2''],
      ''842517'' # ''?'' # ''116'' # replicate 30 ''21.37'' @ [''2.5'', ''0'']]"

definition diagnosis_indexed :: "string list list" where
  "diagnosis_indexed =
     [''r1'' # ''842302'' # ''M'' # replicate 30 ''17.99'',
      ''r2'' # ''8510426'' # ''B'' # replicate 30 ''13.54'']"

text \<open>
  More sample files: the token \<^verbatim>\<open>?\<close> in a feature field of a diagnosis file; the token in
  the \<^verbatim>\<open>tumor_size\<close>, \<^verbatim>\<open>time\<close> and \<^verbatim>\<open>mean_radius\<close> fields of a prognosis file; and a
  prognosis file whose records carry a row label before the identifier (36 fields), with
  the token in the \<^verbatim>\<open>time\<close> and \<^verbatim>\<open>lymph_node_status\<close> fields of its second record. A file
  with every field \<^verbatim>\<open>?\<close> emptied.
\<close>

definition diagnosis_question_mark :: "string list list" where
  "diagnosis_question_mark =
     [''842302'' # ''M'' # replicate 30 ''17.99'',
      ''8510426'' # ''B'' # ''13.54'' # ''?'' # replicate 28 ''13.54'']"

definition prognosis_missing_elsewhere :: "string list list" where
  "prognosis_missing_elsewhere =
     [''119513'' # ''N'' # ''31'' # replicate 30 ''18.02'' @ [''?'', ''5''],
      ''8423'' # ''R'' # ''?'' # ''?'' # replicate 29 ''17.99'' @ [''3'', ''2'']]"

definition prognosis_indexed :: "string list list" where
  "prognosis_indexed =
     [''r1'' # ''119513'' # ''N'' # ''31'' # replicate 30 ''18.02'' @ [''5'', ''5''],
      ''r2'' # ''8423'' # ''R'' # ''?'' # replicate 30 ''17.99'' @ [''3'', ''?'']]"

definition blank_question_marks :: "string list list \<Rightarrow> string list list" where
  "blank_question_marks records = map (map (\<lambda>s. if s = ''?'' then '''' else s)) records"

text \<open>
  A reader for unsigned integer literals, which gives the number: it reads \<^verbatim>\<open>007\<close> and \<^verbatim>\<open>7\<close>
  as the same value. Sample files: a diagnosis file whose identifiers are the
  missing-value tokens \<^verbatim>\<open>NA\<close>, \<^verbatim>\<open>NULL\<close> and the empty field, and one whose identifiers are
  \<^verbatim>\<open>007\<close> and \<^verbatim>\<open>7\<close>.
\<close>

definition natural :: "string \<Rightarrow> nat option" where
  "natural s =
     (if s \<noteq> [] \<and> list_all is_digit s
      then Some (foldl (\<lambda>n c. 10 * n + (of_char c - 48)) 0 s) else None)"

definition diagnosis_missing_ids :: "string list list" where
  "diagnosis_missing_ids =
     [''NA'' # ''M'' # replicate 30 ''17.99'',
      ''NULL'' # ''B'' # replicate 30 ''13.54'',
      '''' # ''B'' # replicate 30 ''13.08'']"

definition diagnosis_zero_ids :: "string list list" where
  "diagnosis_zero_ids =
     [''007'' # ''M'' # replicate 30 ''17'',
      ''7'' # ''B'' # replicate 30 ''13'']"

text \<open>
  A record padded with empty fields to \<open>n\<close> fields. More sample files: a diagnosis file
  whose records lack their last field; one whose \<^verbatim>\<open>mean_radius\<close> column holds the tokens
  \<^verbatim>\<open>True\<close> and \<^verbatim>\<open>false\<close>; one whose second record has a field more than the first; one whose
  records carry two fields before the identifier; and a prognosis file with a
  \<^verbatim>\<open>tumor_size\<close> that is no number.
\<close>

definition pad_record :: "nat \<Rightarrow> string list \<Rightarrow> string list" where
  "pad_record n r = r @ replicate (n - length r) ''''"

definition diagnosis_short :: "string list list" where
  "diagnosis_short =
     [''842302'' # ''M'' # replicate 29 ''17.99'',
      ''8510426'' # ''B'' # replicate 29 ''13.54'']"

definition diagnosis_truth :: "string list list" where
  "diagnosis_truth =
     [''842302'' # ''M'' # ''True'' # replicate 29 ''17.99'',
      ''8510426'' # ''B'' # ''false'' # replicate 29 ''13.54'']"

definition diagnosis_ragged :: "string list list" where
  "diagnosis_ragged =
     [''842302'' # ''M'' # replicate 30 ''17.99'',
      ''8510426'' # ''B'' # replicate 31 ''13.54'']"

definition diagnosis_two_leading :: "string list list" where
  "diagnosis_two_leading =
     [''r1'' # ''s1'' # ''842302'' # ''M'' # replicate 30 ''17.99'',
      ''r2'' # ''s2'' # ''8510426'' # ''B'' # replicate 30 ''13.54'']"

definition prognosis_bad_number :: "string list list" where
  "prognosis_bad_number =
     [''119513'' # ''N'' # ''31'' # replicate 30 ''18.02'' @ [''5'', ''5''],
      ''8423'' # ''R'' # ''61'' # replicate 30 ''17.99'' @ [''3cm'', ''2'']]"

section \<open>The loaders as programs on a store\<close>

text \<open>
  The loaders once more, statement by statement, with what they read and write made
  explicit. The world is the file system and the heap of Python objects. A list that is
  bound to a name (a literal, a comprehension, a slice) and every table the library
  returns is a new object; a list built only to be passed on, as the argument of
  \<^verbatim>\<open>extend\<close> or of a library call, is taken as its value. \<^verbatim>\<open>columns.extend(l)\<close> and
  \<^verbatim>\<open>rename_categories(..., inplace=True)\<close> change an object in place. The loaders assign no
  module-level name and call nothing that writes a file, so the world has no other part.
  A call returns references into the heap, or an error, and the world it leaves.
\<close>

datatype 'v object =
    ListObject "string list"
  | FrameObject "'v dataframe"
  | SeriesObject "'v series"

record 'v world =
  files :: filesystem
  heap :: "'v object list"

type_synonym ref = nat

definition allocate :: "'v object \<Rightarrow> 'v world \<Rightarrow> ref \<times> 'v world" where
  "allocate ob w = (length (heap w), w\<lparr>heap := heap w @ [ob]\<rparr>)"

definition object_at :: "'v world \<Rightarrow> ref \<Rightarrow> 'v object option" where
  "object_at w a = (if a < length (heap w) then Some (heap w ! a) else None)"

definition list_at :: "'v world \<Rightarrow> ref \<Rightarrow> string list" where
  "list_at w a = (case object_at w a of Some (ListObject xs) \<Rightarrow> xs | _ \<Rightarrow> [])"

text \<open>\<^verbatim>\<open>a.extend(xs)\<close>: the list object at \<open>a\<close> is changed in place.\<close>

definition list_extend :: "ref \<Rightarrow> string list \<Rightarrow> 'v world \<Rightarrow> 'v world" where
  "list_extend a xs w = w\<lparr>heap := (heap w)[a := ListObject (list_at w a @ xs)]\<rparr>"

definition image_features_on :: "'v world \<Rightarrow> ref \<times> 'v world" where
  "image_features_on w =
     (let (names, w) =
            allocate (ListObject [''radius'', ''texture'', ''perimeter'', ''area'', ''smoothness'',
                                  ''compactness'', ''concavity'', ''concave points'', ''symmetry'',
                                  ''fractal dimension'']) w;
          (columns, w) = allocate (ListObject (map (\<lambda>v. ''mean_'' @ v) (list_at w names))) w;
          w = list_extend columns (map (\<lambda>v. ''se_'' @ v) (list_at w names)) w;
          w = list_extend columns (map (\<lambda>v. ''worst_'' @ v) (list_at w names)) w
      in (columns, w))"

definition load_wisconsin_breast_cancer_diagnosis_on ::
  "(string \<Rightarrow> 'v option) \<Rightarrow> string \<Rightarrow> 'v world \<Rightarrow> (error + ref \<times> ref) \<times> 'v world"
where
  "load_wisconsin_breast_cancer_diagnosis_on to_float local_file w =
     (let (columns, w) = allocate (ListObject [''ID'', ''diagnosis'']) w;
          (features, w) = image_features_on w;
          w = list_extend columns (list_at w features) w
      in case read_csv to_float (files w) local_file (list_at w columns) [''diagnosis''] [] of
           Inl e \<Rightarrow> (Inl e, w)
         | Inr data_table \<Rightarrow>
        (let (data, w) = allocate (FrameObject data_table) w
         in case get_column data_table ''diagnosis'' of
           Inl e \<Rightarrow> (Inl e, w)
         | Inr diagnosis \<Rightarrow>
        (case rename_categories diagnosis [''benign'', ''malignant''] of
           Inl e \<Rightarrow> (Inl e, w)
         | Inr renamed \<Rightarrow>
        (let (y, w) = allocate (SeriesObject \<lparr> sr_index = df_index data_table,
                                               sr_values = renamed \<rparr>) w
         in case drop_columns data_table [''diagnosis''] of
           Inl e \<Rightarrow> (Inl e, w)
         | Inr dropped_table \<Rightarrow>
        (let (dropped, w) = allocate (FrameObject dropped_table) w
         in case astype_float to_float dropped_table of
           Inl e \<Rightarrow> (Inl e, w)
         | Inr X_table \<Rightarrow>
        (let (X, w) = allocate (FrameObject X_table) w
         in (Inr (X, y), w)))))))"

definition load_wisconsin_breast_cancer_prognosis_on ::
  "(string \<Rightarrow> 'v option) \<Rightarrow> string \<Rightarrow> 'v world \<Rightarrow> (error + ref \<times> ref) \<times> 'v world"
where
  "load_wisconsin_breast_cancer_prognosis_on to_float local_file w =
     (let (columns, w) = allocate (ListObject [''ID'', ''outcome'', ''time'']) w;
          (outcomes, w) = allocate (ListObject (drop 1 (list_at w columns))) w;
          (extra_vars, w) = allocate (ListObject [''tumor_size'', ''lymph_node_status'']) w;
          (features, w) = image_features_on w;
          w = list_extend columns (list_at w features) w;
          w = list_extend columns (list_at w extra_vars) w
      in case read_csv to_float (files w) local_file (list_at w columns) [''outcome''] [''?''] of
           Inl e \<Rightarrow> (Inl e, w)
         | Inr data_table \<Rightarrow>
        (let (data, w) = allocate (FrameObject data_table) w
         in case loc_columns data_table (list_at w outcomes) of
           Inl e \<Rightarrow> (Inl e, w)
         | Inr y_table \<Rightarrow>
        (let (y, w) = allocate (FrameObject y_table) w
         in case get_column y_table ''outcome'' of
           Inl e \<Rightarrow> (Inl e, w)
         | Inr outcome \<Rightarrow>
        (case rename_categories outcome [''nonrecurring'', ''recurring''] of
           Inl e \<Rightarrow> (Inl e, w)
         | Inr renamed \<Rightarrow>
        (let w = w\<lparr>heap := (heap w)[y := FrameObject (set_column y_table ''outcome'' renamed)]\<rparr>
         in case drop_columns data_table (list_at w outcomes) of
           Inl e \<Rightarrow> (Inl e, w)
         | Inr dropped_table \<Rightarrow>
        (let (dropped, w) = allocate (FrameObject dropped_table) w
         in case astype_float to_float dropped_table of
           Inl e \<Rightarrow> (Inl e, w)
         | Inr X_table \<Rightarrow>
        (let (X, w) = allocate (FrameObject X_table) w
         in (Inr (X, y), w))))))))"

text \<open>
  What a call returns, with the references followed in the world it leaves: the error, or
  the two tables; nothing when a reference is not to a table.
\<close>

definition diagnosis_outputs ::
  "(error + ref \<times> ref) \<times> 'v world \<Rightarrow> (error + 'v dataframe \<times> 'v series) option" where
  "diagnosis_outputs rw =
     (case fst rw of
        Inl e \<Rightarrow> Some (Inl e)
      | Inr (X, y) \<Rightarrow>
          (case (object_at (snd rw) X, object_at (snd rw) y) of
             (Some (FrameObject X_table), Some (SeriesObject y_series)) \<Rightarrow>
               Some (Inr (X_table, y_series))
           | _ \<Rightarrow> None))"

definition prognosis_outputs ::
  "(error + ref \<times> ref) \<times> 'v world \<Rightarrow> (error + 'v dataframe \<times> 'v dataframe) option" where
  "prognosis_outputs rw =
     (case fst rw of
        Inl e \<Rightarrow> Some (Inl e)
      | Inr (X, y) \<Rightarrow>
          (case (object_at (snd rw) X, object_at (snd rw) y) of
             (Some (FrameObject X_table), Some (FrameObject y_table)) \<Rightarrow>
               Some (Inr (X_table, y_table))
           | _ \<Rightarrow> None))"

text \<open>
  Sample worlds: a file system that holds both sample files and an empty file at every
  other path, with a heap that already holds a list object; and a file system that holds
  the diagnosis sample alone, with an empty heap.
\<close>

definition other_files :: filesystem where
  "other_files =
     (\<lambda>p. if p = default_diagnosis_file then Some diagnosis_sample
          else if p = default_prognosis_file then Some prognosis_sample
          else Some [])"

definition busy_world :: "string world" where
  "busy_world = \<lparr>files = other_files, heap = [ListObject [''kept'']]\<rparr>"

definition bare_world :: "string world" where
  "bare_world = \<lparr>files = one_file default_diagnosis_file diagnosis_sample, heap = []\<rparr>"

section \<open>What the loaders compute: auxiliary lemmas\<close>

lemma length_image_features: "length image_features = 30"
  by (simp add: image_features_def)

lemma image_features_labels:
  "''diagnosis'' \<notin> set image_features" "''outcome'' \<notin> set image_features"
  "''time'' \<notin> set image_features" "''ID'' \<notin> set image_features"
  "''tumor_size'' \<notin> set image_features" "''lymph_node_status'' \<notin> set image_features"
  by (simp_all add: image_features_def)

lemma prognosis_features_labels:
  "''outcome'' \<notin> set prognosis_features" "''time'' \<notin> set prognosis_features"
  "''ID'' \<notin> set prognosis_features"
  by (simp_all add: prognosis_features_def image_features_labels)

lemma length_prognosis_features: "length prognosis_features = 32"
  by (simp add: prognosis_features_def length_image_features)

lemma enumerate_snd_mem: "(j, x) \<in> set (enumerate k xs) \<Longrightarrow> x \<in> set xs"
  by (auto simp: enumerate_eq_zip dest: set_zip_rightD)

lemma cell_to_float_ok: "cell_ok f c \<Longrightarrow> cell_to_float f c = Inr (Option.bind c f)"
  by (cases c) auto

lemma cell_to_float_bad: "\<not> cell_ok f c \<Longrightarrow> \<exists>s. cell_to_float f c = Inl (FloatValueError s)"
  by (cases c) auto

lemma traverse_cells_ok:
  "cells_ok f cells \<Longrightarrow> traverse (cell_to_float f) cells = Inr (float_cells f cells)"
  by (induction cells) (simp_all add: cells_ok_def float_cells_def cell_to_float_ok)

lemma traverse_cells_bad:
  "\<not> cells_ok f cells \<Longrightarrow> \<exists>s. traverse (cell_to_float f) cells = Inl (FloatValueError s)"
proof (induction cells)
  case Nil
  then show ?case by (simp add: cells_ok_def)
next
  case (Cons c cells)
  show ?case
  proof (cases "cell_ok f c")
    case False
    then obtain s where "cell_to_float f c = Inl (FloatValueError s)"
      using cell_to_float_bad by blast
    then show ?thesis by simp
  next
    case True
    then have "\<not> cells_ok f cells"
      using Cons.prems by (simp add: cells_ok_def)
    then obtain s where "traverse (cell_to_float f) cells = Inl (FloatValueError s)"
      using Cons.IH by blast
    then show ?thesis using True by (simp add: cell_to_float_ok)
  qed
qed

lemma infer_to_float_ok:
  "convertible f cells \<Longrightarrow>
   column_to_float f (infer_column f cells) = Inr (Float64 (convert_cells f cells))"
  by (auto simp: convertible_def infer_column_def convert_cells_def)

lemma infer_to_float_bad:
  assumes "\<not> convertible f cells"
  shows "\<exists>s. column_to_float f (infer_column f cells) = Inl (FloatValueError s)"
proof -
  obtain s where "traverse (cell_to_float f) cells = Inl (FloatValueError s)"
    using traverse_cells_bad assms by (auto simp: convertible_def)
  then show ?thesis using assms by (simp add: convertible_def infer_column_def)
qed

lemma astype_inferred_ok:
  assumes "all_convertible f ncs"
  shows "astype_float f \<lparr>df_index = ix, df_columns = inferred_columns f ncs\<rparr>
     = Inr \<lparr>df_index = ix, df_columns = float_columns f ncs\<rparr>"
proof -
  have "traverse (\<lambda>(n, c). case column_to_float f c of Inl e \<Rightarrow> Inl e | Inr c' \<Rightarrow> Inr (n, c'))
          (inferred_columns f ncs) = Inr (float_columns f ncs)"
    using assms
    by (induction ncs)
      (auto simp: all_convertible_def inferred_columns_def float_columns_def infer_to_float_ok)
  then show ?thesis by (simp add: astype_float_def)
qed

lemma astype_inferred_bad:
  assumes "\<not> all_convertible f ncs"
  shows "\<exists>s. astype_float f \<lparr>df_index = ix, df_columns = inferred_columns f ncs\<rparr>
           = Inl (FloatValueError s)"
proof -
  have "\<exists>s. traverse (\<lambda>(n, c). case column_to_float f c of Inl e \<Rightarrow> Inl e | Inr c' \<Rightarrow> Inr (n, c'))
          (inferred_columns f ncs) = Inl (FloatValueError s)"
    using assms
  proof (induction ncs)
    case Nil
    then show ?case by (simp add: all_convertible_def)
  next
    case (Cons nc ncs)
    obtain n cells where nc: "nc = (n, cells)" by (cases nc)
    show ?case
    proof (cases "convertible f cells")
      case True
      then have "\<not> all_convertible f ncs"
        using Cons.prems nc by (simp add: all_convertible_def)
      then obtain s where "traverse (\<lambda>(n, c). case column_to_float f c of Inl e \<Rightarrow> Inl e | Inr c' \<Rightarrow> Inr (n, c'))
          (inferred_columns f ncs) = Inl (FloatValueError s)"
        using Cons.IH by blast
      then show ?thesis
        using True nc by (simp add: inferred_columns_def infer_to_float_ok)
    next
      case False
      then obtain s where "column_to_float f (infer_column f cells) = Inl (FloatValueError s)"
        using infer_to_float_bad by blast
      then show ?thesis using nc by (simp add: inferred_columns_def)
    qed
  qed
  then show ?thesis by (auto simp: astype_float_def)
qed

lemma map_fst_named_cells [simp]: "map fst (named_cells na records k names) = names"
proof -
  have "map fst (named_cells na records k names) = map snd (enumerate k names)"
    by (simp add: named_cells_def case_prod_unfold comp_def)
  then show ?thesis by simp
qed

lemma map_fst_inferred_columns [simp]: "map fst (inferred_columns f ncs) = map fst ncs"
  by (simp add: inferred_columns_def case_prod_unfold comp_def)

lemma map_fst_float_columns [simp]: "map fst (float_columns f ncs) = map fst ncs"
  by (simp add: float_columns_def case_prod_unfold comp_def)

lemma inferred_columns_append:
  "inferred_columns f (xs @ ys) = inferred_columns f xs @ inferred_columns f ys"
  by (simp add: inferred_columns_def)

lemma filter_fst_notin:
  assumes "set (map fst cols) \<inter> set labels = {}"
  shows "filter (\<lambda>(n, c). n \<notin> set labels) cols = cols"
  using assms by (induction cols) auto

lemma categorical_rename:
  "rename_categories (categorical cells) new =
     (if length new = length (categories_of cells)
      then Inr (Categorical new (map (map_option (index_of (categories_of cells))) cells))
      else Inl CategoriesValueError)"
  by (simp add: rename_categories_def categorical_def Let_def)

lemma leading_cases:
  assumes "readable n records"
  shows "leading_fields n records = 0 \<or> leading_fields n records = 1"
  using assms by (auto simp: readable_def)

lemma map_fst_leading_cells:
  "set (map fst (leading_cells na n records)) \<subseteq> {''ID''}"
  by (auto simp: leading_cells_def)

lemma readable_iff:
  "readable n records \<longleftrightarrow>
     \<not> list_ex (\<lambda>r. expected_fields n records < length r) records
     \<and> \<not> 1 < leading_fields n records"
  by (auto simp: readable_def list_all_iff list_ex_iff not_less)

lemma narrow_records:
  assumes "list_all (\<lambda>r. length r \<le> n) records"
  shows "expected_fields n records = n" "leading_fields n records = 0" "readable n records"
proof -
  show e: "expected_fields n records = n"
    using assms by (cases records) (simp_all add: expected_fields_def)
  then show "leading_fields n records = 0" by (simp add: leading_fields_def)
  then show "readable n records" using assms e by (simp add: readable_def)
qed

lemma read_columns_plain:
  assumes "set names \<inter> set category = {}"
  shows "map (\<lambda>(j, name). (name, if name \<in> set category then categorical (file_column na records j)
                                   else infer_column f (file_column na records j)))
             (enumerate k names)
         = inferred_columns f (named_cells na records k names)"
  unfolding inferred_columns_def named_cells_def map_map
  by (rule map_cong) (use assms in \<open>auto dest!: enumerate_snd_mem\<close>)

lemma read_csv_diagnosis:
  assumes "fs p = Some records" "readable 32 records"
  shows "read_csv f fs p ([''ID'', ''diagnosis''] @ image_features) [''diagnosis''] []
           = Inr \<lparr>df_index = read_index f default_na_values records,
                  df_columns = inferred_columns f (leading_cells default_na_values 32 records)
                     @ (''diagnosis'', categorical (diagnosis_label_cells records))
                     # inferred_columns f (named_cells default_na_values records
                          (2 + leading_fields 32 records) image_features)\<rparr>"
proof -
  have len: "length ([''ID'', ''diagnosis''] @ image_features) = 32"
    by (simp add: length_image_features)
  have w: "\<not> list_ex (\<lambda>r. expected_fields 32 records < length r) records"
    "\<not> 1 < leading_fields 32 records"
    using assms(2) by (simp_all add: readable_iff)
  have m: "map (\<lambda>(j, name). (name, if name \<in> set [''diagnosis'']
                                     then categorical (file_column default_na_values records j)
                                     else infer_column f (file_column default_na_values records j)))
              (enumerate k image_features)
           = inferred_columns f (named_cells default_na_values records k image_features)" for k
    by (rule read_columns_plain) (simp add: image_features_labels)
  consider "leading_fields 32 records = 0" | "leading_fields 32 records = 1"
    using leading_cases [OF assms(2)] by auto
  then show ?thesis
  proof cases
    case 1
    have e: "enumerate 1 (tl ([''ID'', ''diagnosis''] @ image_features))
               = (1, ''diagnosis'') # enumerate 2 image_features"
      by (simp add: numeral_2_eq_2)
    have named: "(if leading_fields 32 records = 1 then [''ID'', ''diagnosis''] @ image_features
                  else tl ([''ID'', ''diagnosis''] @ image_features))
                 = tl ([''ID'', ''diagnosis''] @ image_features)"
      using 1 by simp
    show ?thesis
      unfolding read_csv_def len using assms(1) w m [of 2]
      by (simp only: named e option.case if_False Let_def append_Nil2 list.map prod.case)
        (simp add: 1 read_index_def leading_cells_def diagnosis_label_cells_def inferred_columns_def)
  next
    case 2
    have e: "enumerate 1 ([''ID'', ''diagnosis''] @ image_features)
               = (1, ''ID'') # (2, ''diagnosis'') # enumerate 3 image_features"
      by (simp add: numeral_2_eq_2 numeral_3_eq_3)
    have named: "(if leading_fields 32 records = 1 then [''ID'', ''diagnosis''] @ image_features
                  else tl ([''ID'', ''diagnosis''] @ image_features))
                 = [''ID'', ''diagnosis''] @ image_features"
      using 2 by simp
    have lc: "leading_cells default_na_values 32 records
                = [(''ID'', file_column default_na_values records 1)]"
      using 2 by (simp add: leading_cells_def)
    have "1 + leading_fields 32 records = 2"
      using 2 by simp
    then have lab: "diagnosis_label_cells records = file_column default_na_values records 2"
      by (simp only: diagnosis_label_cells_def)
    have b: "2 + leading_fields 32 records = 3" "Suc (Suc (leading_fields 32 records)) = 3"
      using 2 by simp_all
    show ?thesis
      unfolding read_csv_def len using assms(1) w m [of 3]
      by (simp only: named e option.case if_False Let_def append_Nil2 list.map prod.case)
        (simp add: lc lab b read_index_def inferred_columns_def)
  qed
qed

lemma map_of_leading:
  assumes "name \<noteq> ''ID''"
  shows "(m ++ map_of (inferred_columns f (leading_cells na n records))) name = m name"
  using assms by (simp add: leading_cells_def inferred_columns_def map_add_def)

lemma filter_leading:
  assumes "''ID'' \<notin> set labels"
  shows "filter (\<lambda>(n, c). n \<notin> set labels) (inferred_columns f (leading_cells na n records))
           = inferred_columns f (leading_cells na n records)"
  using assms by (simp add: leading_cells_def inferred_columns_def)

lemma drop_diagnosis:
  "drop_columns \<lparr>df_index = ix, df_columns = inferred_columns f (leading_cells na n records)
        @ (''diagnosis'', c) # inferred_columns f (named_cells na records k image_features)\<rparr>
     [''diagnosis'']
   = Inr \<lparr>df_index = ix, df_columns = inferred_columns f (leading_cells na n records)
        @ inferred_columns f (named_cells na records k image_features)\<rparr>"
proof -
  have "filter (\<lambda>(n, c). n \<notin> set [''diagnosis''])
          (inferred_columns f (named_cells na records k image_features))
        = inferred_columns f (named_cells na records k image_features)"
    by (rule filter_fst_notin) (simp add: image_features_labels)
  moreover have "filter (\<lambda>(n, c). n \<notin> set [''diagnosis''])
          (inferred_columns f (leading_cells na n records))
        = inferred_columns f (leading_cells na n records)"
    by (rule filter_leading) simp
  ultimately show ?thesis by (simp add: drop_columns_def map_of_leading)
qed

lemma load_diagnosis_read:
  assumes "fs p = Some records" "readable 32 records"
  shows "load_wisconsin_breast_cancer_diagnosis to_float fs p =
     (if length (categories_of (diagnosis_label_cells records)) \<noteq> 2
      then Inl CategoriesValueError
      else case astype_float to_float
                  \<lparr>df_index = read_index to_float default_na_values records,
                   df_columns = inferred_columns to_float (diagnosis_cells records)\<rparr> of
             Inl e \<Rightarrow> Inl e
           | Inr X \<Rightarrow> Inr (X, diagnosis_y to_float records))"
proof -
  note rd = read_csv_diagnosis [of fs p records, OF assms, simplified]
  show ?thesis
    unfolding load_wisconsin_breast_cancer_diagnosis_def Let_def
    by (simp add: rd get_column_def map_of_leading categorical_rename drop_diagnosis
        diagnosis_codes_def diagnosis_y_def diagnosis_cells_def inferred_columns_append Let_def
        split: sum.splits)
qed

lemma read_csv_prognosis:
  assumes "fs p = Some records" "readable 35 records"
  shows "read_csv f fs p (''ID'' # ''outcome'' # ''time'' # image_features @ [''tumor_size'', ''lymph_node_status''])
            [''outcome''] [''?'']
           = Inr \<lparr>df_index = read_index f prognosis_na_values records,
                  df_columns = inferred_columns f (leading_cells prognosis_na_values 35 records)
                     @ (''outcome'', categorical (prognosis_label_cells records))
                     # (''time'', infer_column f (prognosis_time_cells records))
                     # inferred_columns f (named_cells prognosis_na_values records
                          (3 + leading_fields 35 records) prognosis_features)\<rparr>"
proof -
  have len: "length (''ID'' # ''outcome'' # ''time'' # image_features @ [''tumor_size'', ''lymph_node_status'']) = 35"
    by (simp add: length_image_features)
  have w: "\<not> list_ex (\<lambda>r. expected_fields 35 records < length r) records"
    "\<not> 1 < leading_fields 35 records"
    using assms(2) by (simp_all add: readable_iff)
  have m: "map (\<lambda>(j, name). (name, if name \<in> set [''outcome'']
                                     then categorical (file_column prognosis_na_values records j)
                                     else infer_column f (file_column prognosis_na_values records j)))
              (enumerate k prognosis_features)
           = inferred_columns f (named_cells prognosis_na_values records k prognosis_features)" for k
    by (rule read_columns_plain) (simp add: prognosis_features_labels)
  consider "leading_fields 35 records = 0" | "leading_fields 35 records = 1"
    using leading_cases [OF assms(2)] by auto
  then show ?thesis
  proof cases
    case 1
    have e: "enumerate 1 (tl (''ID'' # ''outcome'' # ''time'' # image_features @ [''tumor_size'', ''lymph_node_status'']))
       = (1, ''outcome'') # (2, ''time'') # enumerate 3 prognosis_features"
      by (simp add: numeral_2_eq_2 numeral_3_eq_3 prognosis_features_def)
    have named: "(if leading_fields 35 records = 1
                  then ''ID'' # ''outcome'' # ''time'' # image_features @ [''tumor_size'', ''lymph_node_status'']
                  else tl (''ID'' # ''outcome'' # ''time'' # image_features @ [''tumor_size'', ''lymph_node_status'']))
                 = tl (''ID'' # ''outcome'' # ''time'' # image_features @ [''tumor_size'', ''lymph_node_status''])"
      using 1 by simp
    show ?thesis
      unfolding read_csv_def len using assms(1) w m [of 3]
      by (simp only: named e option.case if_False Let_def list.map prod.case flip: prognosis_na_values_def)
        (simp add: 1 read_index_def leading_cells_def prognosis_label_cells_def
          prognosis_time_cells_def inferred_columns_def)
  next
    case 2
    have e: "enumerate 1 (''ID'' # ''outcome'' # ''time'' # image_features @ [''tumor_size'', ''lymph_node_status''])
       = (1, ''ID'') # (2, ''outcome'') # (3, ''time'') # enumerate 4 prognosis_features"
      by (simp add: numeral_2_eq_2 numeral_3_eq_3 prognosis_features_def eval_nat_numeral)
    have named: "(if leading_fields 35 records = 1
                  then ''ID'' # ''outcome'' # ''time'' # image_features @ [''tumor_size'', ''lymph_node_status'']
                  else tl (''ID'' # ''outcome'' # ''time'' # image_features @ [''tumor_size'', ''lymph_node_status'']))
                 = ''ID'' # ''outcome'' # ''time'' # image_features @ [''tumor_size'', ''lymph_node_status'']"
      using 2 by simp
    have lc: "leading_cells prognosis_na_values 35 records
                = [(''ID'', file_column prognosis_na_values records 1)]"
      using 2 by (simp add: leading_cells_def)
    have "1 + leading_fields 35 records = 2"
      using 2 by simp
    then have lab: "prognosis_label_cells records = file_column prognosis_na_values records 2"
      by (simp only: prognosis_label_cells_def)
    have "2 + leading_fields 35 records = 3"
      using 2 by simp
    then have tm: "prognosis_time_cells records = file_column prognosis_na_values records 3"
      by (simp only: prognosis_time_cells_def)
    have b: "3 + leading_fields 35 records = 4"
      using 2 by simp
    show ?thesis
      unfolding read_csv_def len using assms(1) w m [of 4]
      by (simp only: named e option.case if_False Let_def list.map prod.case flip: prognosis_na_values_def)
        (simp add: lc lab tm b read_index_def inferred_columns_def)
  qed
qed

lemma drop_outcomes:
  "drop_columns \<lparr>df_index = ix, df_columns = inferred_columns f (leading_cells na n records)
        @ (''outcome'', c) # (''time'', c')
        # inferred_columns f (named_cells na records k prognosis_features)\<rparr> [''outcome'', ''time'']
   = Inr \<lparr>df_index = ix, df_columns = inferred_columns f (leading_cells na n records)
        @ inferred_columns f (named_cells na records k prognosis_features)\<rparr>"
proof -
  have "filter (\<lambda>(n, c). n \<notin> set [''outcome'', ''time''])
          (inferred_columns f (named_cells na records k prognosis_features))
        = inferred_columns f (named_cells na records k prognosis_features)"
    by (rule filter_fst_notin) (simp add: prognosis_features_labels)
  moreover have "filter (\<lambda>(n, c). n \<notin> set [''outcome'', ''time''])
          (inferred_columns f (leading_cells na n records))
        = inferred_columns f (leading_cells na n records)"
    by (rule filter_leading) simp
  ultimately show ?thesis by (simp add: drop_columns_def map_of_leading)
qed

lemma loc_outcomes:
  "loc_columns \<lparr>df_index = ix, df_columns = inferred_columns f (leading_cells na n records)
        @ (''outcome'', c) # (''time'', c') # rest\<rparr> [''outcome'', ''time'']
   = Inr \<lparr>df_index = ix, df_columns = [(''outcome'', c), (''time'', c')]\<rparr>"
  by (simp add: loc_columns_def map_of_leading)

lemma load_prognosis_read:
  assumes "fs p = Some records" "readable 35 records"
  shows "load_wisconsin_breast_cancer_prognosis to_float fs p =
     (if length (categories_of (prognosis_label_cells records)) \<noteq> 2
      then Inl CategoriesValueError
      else case astype_float to_float
                  \<lparr>df_index = read_index to_float prognosis_na_values records,
                   df_columns = inferred_columns to_float (prognosis_cells records)\<rparr> of
             Inl e \<Rightarrow> Inl e
           | Inr X \<Rightarrow> Inr (X, prognosis_y to_float records))"
proof -
  note rd = read_csv_prognosis [of fs p records, OF assms]
  show ?thesis
    unfolding load_wisconsin_breast_cancer_prognosis_def Let_def
    by (simp add: rd get_column_def set_column_def categorical_rename drop_outcomes loc_outcomes
        outcome_codes_def prognosis_y_def prognosis_cells_def inferred_columns_append Let_def
        split: sum.splits)
qed

lemma load_diagnosis_absent:
  "fs p = None \<Longrightarrow> load_wisconsin_breast_cancer_diagnosis to_float fs p = Inl FileNotFoundError"
  by (simp add: load_wisconsin_breast_cancer_diagnosis_def read_csv_def)

lemma load_prognosis_absent:
  "fs p = None \<Longrightarrow> load_wisconsin_breast_cancer_prognosis to_float fs p = Inl FileNotFoundError"
  by (simp add: load_wisconsin_breast_cancer_prognosis_def read_csv_def)

lemma load_diagnosis_unreadable:
  assumes "fs p = Some records" "\<not> readable 32 records"
  shows "load_wisconsin_breast_cancer_diagnosis to_float fs p = Inl ParserError"
  using assms
  by (auto simp: readable_iff load_wisconsin_breast_cancer_diagnosis_def read_csv_def
      length_image_features Let_def)

lemma load_prognosis_unreadable:
  assumes "fs p = Some records" "\<not> readable 35 records"
  shows "load_wisconsin_breast_cancer_prognosis to_float fs p = Inl ParserError"
  using assms
  by (auto simp: readable_iff load_wisconsin_breast_cancer_prognosis_def read_csv_def
      length_image_features Let_def)

lemma load_diagnosis_categories:
  assumes "fs p = Some records" "readable 32 records"
    and "length (categories_of (diagnosis_label_cells records)) \<noteq> 2"
  shows "load_wisconsin_breast_cancer_diagnosis to_float fs p = Inl CategoriesValueError"
  using assms(3) by (simp add: load_diagnosis_read [where fs=fs and p=p, OF assms(1,2)])

lemma load_diagnosis_float:
  assumes "fs p = Some records" "readable 32 records"
    and "length (categories_of (diagnosis_label_cells records)) = 2"
    and "\<not> all_convertible to_float (diagnosis_cells records)"
  shows "\<exists>s. load_wisconsin_breast_cancer_diagnosis to_float fs p = Inl (FloatValueError s)"
proof -
  obtain s where "astype_float to_float
      \<lparr>df_index = read_index to_float default_na_values records,
       df_columns = inferred_columns to_float (diagnosis_cells records)\<rparr>
      = Inl (FloatValueError s)"
    using astype_inferred_bad assms(4) by blast
  then show ?thesis
    using assms(3) by (simp add: load_diagnosis_read [where fs=fs and p=p, OF assms(1,2)])
qed

lemma load_diagnosis_ok:
  assumes "fs p = Some records" "readable 32 records"
    and "length (categories_of (diagnosis_label_cells records)) = 2"
    and "all_convertible to_float (diagnosis_cells records)"
  shows "load_wisconsin_breast_cancer_diagnosis to_float fs p
           = Inr (diagnosis_X to_float records, diagnosis_y to_float records)"
proof -
  have "astype_float to_float
      \<lparr>df_index = read_index to_float default_na_values records,
       df_columns = inferred_columns to_float (diagnosis_cells records)\<rparr>
      = Inr (diagnosis_X to_float records)"
    using astype_inferred_ok assms(4) unfolding diagnosis_X_def by blast
  then show ?thesis
    using assms(3) by (simp add: load_diagnosis_read [where fs=fs and p=p, OF assms(1,2)])
qed

lemma load_diagnosis_InrD:
  assumes "load_wisconsin_breast_cancer_diagnosis to_float fs p = Inr (X, y)"
  shows "\<exists>records. fs p = Some records \<and> readable 32 records
           \<and> length (categories_of (diagnosis_label_cells records)) = 2
           \<and> all_convertible to_float (diagnosis_cells records)
           \<and> X = diagnosis_X to_float records \<and> y = diagnosis_y to_float records"
proof (cases "fs p")
  case None
  then show ?thesis using assms load_diagnosis_absent [where fs=fs and p=p and to_float=to_float] by simp
next
  case (Some records)
  have w: "readable 32 records"
    using assms load_diagnosis_unreadable [where fs=fs and p=p and to_float=to_float, OF Some] by auto
  have c: "length (categories_of (diagnosis_label_cells records)) = 2"
    using assms load_diagnosis_categories [where fs=fs and p=p and to_float=to_float, OF Some w] by auto
  have k: "all_convertible to_float (diagnosis_cells records)"
    using assms load_diagnosis_float [where fs=fs and p=p and to_float=to_float, OF Some w c] by auto
  show ?thesis
    using assms load_diagnosis_ok [where fs=fs and p=p and to_float=to_float, OF Some w c k] Some w c k by simp
qed

lemma load_prognosis_categories:
  assumes "fs p = Some records" "readable 35 records"
    and "length (categories_of (prognosis_label_cells records)) \<noteq> 2"
  shows "load_wisconsin_breast_cancer_prognosis to_float fs p = Inl CategoriesValueError"
  using assms(3) by (simp add: load_prognosis_read [where fs=fs and p=p, OF assms(1,2)])

lemma load_prognosis_float:
  assumes "fs p = Some records" "readable 35 records"
    and "length (categories_of (prognosis_label_cells records)) = 2"
    and "\<not> all_convertible to_float (prognosis_cells records)"
  shows "\<exists>s. load_wisconsin_breast_cancer_prognosis to_float fs p = Inl (FloatValueError s)"
proof -
  obtain s where "astype_float to_float
      \<lparr>df_index = read_index to_float prognosis_na_values records,
       df_columns = inferred_columns to_float (prognosis_cells records)\<rparr>
      = Inl (FloatValueError s)"
    using astype_inferred_bad assms(4) by blast
  then show ?thesis
    using assms(3) by (simp add: load_prognosis_read [where fs=fs and p=p, OF assms(1,2)])
qed

lemma load_prognosis_ok:
  assumes "fs p = Some records" "readable 35 records"
    and "length (categories_of (prognosis_label_cells records)) = 2"
    and "all_convertible to_float (prognosis_cells records)"
  shows "load_wisconsin_breast_cancer_prognosis to_float fs p
           = Inr (prognosis_X to_float records, prognosis_y to_float records)"
proof -
  have "astype_float to_float
      \<lparr>df_index = read_index to_float prognosis_na_values records,
       df_columns = inferred_columns to_float (prognosis_cells records)\<rparr>
      = Inr (prognosis_X to_float records)"
    using astype_inferred_ok assms(4) unfolding prognosis_X_def by blast
  then show ?thesis
    using assms(3) by (simp add: load_prognosis_read [where fs=fs and p=p, OF assms(1,2)])
qed

lemma load_prognosis_InrD:
  assumes "load_wisconsin_breast_cancer_prognosis to_float fs p = Inr (X, y)"
  shows "\<exists>records. fs p = Some records \<and> readable 35 records
           \<and> length (categories_of (prognosis_label_cells records)) = 2
           \<and> all_convertible to_float (prognosis_cells records)
           \<and> X = prognosis_X to_float records \<and> y = prognosis_y to_float records"
proof (cases "fs p")
  case None
  then show ?thesis using assms load_prognosis_absent [where fs=fs and p=p and to_float=to_float] by simp
next
  case (Some records)
  have w: "readable 35 records"
    using assms load_prognosis_unreadable [where fs=fs and p=p and to_float=to_float, OF Some] by auto
  have c: "length (categories_of (prognosis_label_cells records)) = 2"
    using assms load_prognosis_categories [where fs=fs and p=p and to_float=to_float, OF Some w] by auto
  have k: "all_convertible to_float (prognosis_cells records)"
    using assms load_prognosis_float [where fs=fs and p=p and to_float=to_float, OF Some w c] by auto
  show ?thesis
    using assms load_prognosis_ok [where fs=fs and p=p and to_float=to_float, OF Some w c k] Some w c k by simp
qed

lemma length_file_column [simp]: "length (file_column na records j) = length records"
  by (simp add: file_column_def)

lemma named_cells_lengths:
  "list_all (\<lambda>(n, cells). length cells = length records) (named_cells na records k names)"
  by (auto simp: named_cells_def list_all_iff)

lemma float_columns_lengths:
  assumes "list_all (\<lambda>(n, cells). length cells = m) ncs"
  shows "list_all (\<lambda>(n, c). column_length c = m) (float_columns f ncs)"
  using assms
  by (auto simp: float_columns_def convert_cells_def float_cells_def truth_cells_def list_all_iff)

lemma length_diagnosis_codes [simp]: "length (diagnosis_codes records) = length records"
  by (simp add: diagnosis_codes_def diagnosis_label_cells_def Let_def)

lemma length_outcome_codes [simp]: "length (outcome_codes records) = length records"
  by (simp add: outcome_codes_def prognosis_label_cells_def Let_def)

lemma categories_of_sorted_list:
  "categories_of cells = sorted_list_of_set (set (List.map_filter id cells))"
  by (simp add: categories_of_def sorted_list_of_set_sort_remdups)

lemma categories_two:
  assumes "set (List.map_filter id cells) = {c1, c2}" "c1 < c2"
  shows "categories_of cells = [c1, c2]"
proof -
  have "c1 \<le> c2" "c1 \<noteq> c2" using assms(2) by auto
  then show ?thesis using assms(1) by (simp add: categories_of_sorted_list)
qed

lemma length_categories_of:
  "length (categories_of cells) = card (set (List.map_filter id cells))"
  by (simp add: categories_of_sorted_list)

lemma categories_of_length2D:
  assumes "length (categories_of cells) = 2"
  shows "\<exists>c1 c2. c1 < c2 \<and> categories_of cells = [c1, c2]
           \<and> set (List.map_filter id cells) = {c1, c2}"
proof -
  obtain c1 c2 where cs: "categories_of cells = [c1, c2]"
    using assms by (auto simp: length_Suc_conv numeral_2_eq_2)
  have "sorted (categories_of cells)" "distinct (categories_of cells)"
    by (simp_all add: categories_of_def)
  then have "c1 < c2" using cs by auto
  moreover have "set (categories_of cells) = set (List.map_filter id cells)"
    by (simp add: categories_of_def)
  ultimately show ?thesis using cs by auto
qed

lemma relabel_two:
  assumes "set (List.map_filter id cells) = {c1, c2}"
  shows "category_labels [a, b] (map (map_option (index_of [c1, c2])) cells)
           = map (map_option (\<lambda>c. if c = c1 then a else b)) cells"
proof -
  have "Option.bind (map_option (index_of [c1, c2]) cell) (category_of [a, b])
          = map_option (\<lambda>c. if c = c1 then a else b) cell" if "cell \<in> set cells" for cell
  proof (cases cell)
    case None
    then show ?thesis by simp
  next
    case (Some c)
    then have "c \<in> set (List.map_filter id cells)"
      using that by (force simp: List.map_filter_def)
    then have "c = c1 \<or> c = c2" using assms by auto
    then show ?thesis using Some by (auto simp: category_of_def)
  qed
  then show ?thesis by (simp add: category_labels_def)
qed

lemma named_cells_nth:
  "i < length names \<Longrightarrow>
   named_cells na records k names ! i = (names ! i, file_column na records (k + i))"
  by (simp add: named_cells_def nth_enumerate_eq)

lemma length_named_cells [simp]: "length (named_cells na records k names) = length names"
  by (simp add: named_cells_def)

lemma all_cells_ok_iff:
  "all_cells_ok f (named_cells na records k names)
     \<longleftrightarrow> (\<forall>i < length names. \<forall>r \<in> set records. cell_ok f (parse_field na r (k + i)))"
proof -
  have "all_cells_ok f (named_cells na records k names)
     \<longleftrightarrow> (\<forall>i < length names. cells_ok f (snd (named_cells na records k names ! i)))"
    by (simp add: all_cells_ok_def list_all_length case_prod_unfold)
  also have "\<dots> \<longleftrightarrow> (\<forall>i < length names. cells_ok f (file_column na records (k + i)))"
    by (simp add: named_cells_nth)
  also have "\<dots> \<longleftrightarrow> (\<forall>i < length names. \<forall>r \<in> set records. cell_ok f (parse_field na r (k + i)))"
    by (simp add: cells_ok_def file_column_def list_all_iff)
  finally show ?thesis .
qed

lemma diagnosis_record_fields:
  assumes "diagnosis_record f r"
  shows "length r = 32" "parse_field default_na_values r 1 = Some (r ! 1)"
    "\<And>i. i < 30 \<Longrightarrow> numeric_field f default_na_values (r ! (2 + i))"
proof -
  show l: "length r = 32" using assms by (simp add: diagnosis_record_def)
  show "parse_field default_na_values r 1 = Some (r ! 1)"
    using assms by (simp add: diagnosis_record_def parse_field_def)
  fix i :: nat assume "i < 30"
  then have "i < length (drop 2 r)" using l by simp
  then have "drop 2 r ! i \<in> set (drop 2 r)" by (rule nth_mem)
  moreover have "drop 2 r ! i = r ! (2 + i)" using l \<open>i < 30\<close> by simp
  ultimately have "r ! (2 + i) \<in> set (drop 2 r)" by simp
  then show "numeric_field f default_na_values (r ! (2 + i))"
    using assms by (simp add: diagnosis_record_def list_all_iff)
qed

lemma map_filter_id_Some: "List.map_filter id (map (\<lambda>r. Some (g r)) xs) = map g xs"
  by (induction xs) simp_all

lemma count_relabelled:
  assumes "a \<noteq> b"
  shows "length (filter (\<lambda>l. l = Some a) (map (\<lambda>r. Some (if g r = c then a else b)) xs))
           = length (filter (\<lambda>r. g r = c) xs)"
    and "length (filter (\<lambda>l. l = Some b) (map (\<lambda>r. Some (if g r = c then a else b)) xs))
           = length (filter (\<lambda>r. g r \<noteq> c) xs)"
  using assms by (induction xs) auto

lemma prognosis_record_fields:
  assumes "prognosis_record f r"
  shows "length r = 35" "parse_field prognosis_na_values r 1 = Some (r ! 1)"
    "\<And>i. i < 31 \<Longrightarrow> numeric_field f prognosis_na_values (r ! (3 + i))"
    "r ! 34 = ''?'' \<or> numeric_field f prognosis_na_values (r ! 34)"
proof -
  show l: "length r = 35" using assms by (simp add: prognosis_record_def)
  show "parse_field prognosis_na_values r 1 = Some (r ! 1)"
    using assms by (simp add: prognosis_record_def parse_field_def)
  show "r ! 34 = ''?'' \<or> numeric_field f prognosis_na_values (r ! 34)"
    using assms by (simp add: prognosis_record_def)
  fix i :: nat assume i: "i < 31"
  then have "i < length (take 31 (drop 3 r))" using l by simp
  then have "take 31 (drop 3 r) ! i \<in> set (take 31 (drop 3 r))" by (rule nth_mem)
  moreover have "take 31 (drop 3 r) ! i = r ! (3 + i)" using l i by simp
  ultimately have "r ! (3 + i) \<in> set (take 31 (drop 3 r))" by simp
  then show "numeric_field f prognosis_na_values (r ! (3 + i))"
    using assms by (simp add: prognosis_record_def list_all_iff)
qed

lemma question_mark_is_na: "''?'' \<in> set prognosis_na_values"
  by (simp add: prognosis_na_values_def)

lemma prognosis_features_nth:
  "prognosis_features ! 30 = ''tumor_size''" "prognosis_features ! 31 = ''lymph_node_status''"
  by (simp_all add: prognosis_features_def nth_append length_image_features)

lemma length_convert_cells [simp]: "length (convert_cells f cells) = length cells"
  by (simp add: convert_cells_def float_cells_def truth_cells_def)

lemma convert_cells_ok: "cells_ok f cells \<Longrightarrow> convert_cells f cells = float_cells f cells"
  by (simp add: convert_cells_def)

lemma length_float_cells [simp]: "length (float_cells f cells) = length cells"
  by (simp add: float_cells_def)

lemma length_column_scalars [simp]: "length (column_scalars c) = column_length c"
  by (cases c) (simp_all add: category_labels_def)

lemma column_length_infer [simp]: "column_length (infer_column f cells) = length cells"
  by (simp add: infer_column_def truth_cells_def)

lemma length_read_index [simp]: "length (read_index f na records) = length records"
  by (simp add: read_index_def)

lemma float_columns_nth:
  "i < length ncs \<Longrightarrow>
   float_columns f ncs ! i = (fst (ncs ! i), Float64 (convert_cells f (snd (ncs ! i))))"
  by (simp add: float_columns_def case_prod_unfold)

lemma length_float_columns [simp]: "length (float_columns f ncs) = length ncs"
  by (simp add: float_columns_def)

lemma all_cells_ok_convertible: "all_cells_ok f ncs \<Longrightarrow> all_convertible f ncs"
  by (auto simp: all_cells_ok_def all_convertible_def convertible_def list_all_iff)

lemma float_columns_nth_ok:
  assumes "all_cells_ok f ncs" "i < length ncs"
  shows "float_columns f ncs ! i = (fst (ncs ! i), Float64 (float_cells f (snd (ncs ! i))))"
proof -
  have "cells_ok f (snd (ncs ! i))"
    using assms by (simp add: all_cells_ok_def list_all_length case_prod_unfold)
  then show ?thesis using assms(2) by (simp add: float_columns_nth convert_cells_ok)
qed

lemma narrow_diagnosis:
  assumes "list_all (\<lambda>r. length r \<le> 32) records"
  shows "readable 32 records"
    "diagnosis_label_cells records = file_column default_na_values records 1"
    "diagnosis_cells records = named_cells default_na_values records 2 image_features"
  using narrow_records [OF assms]
  by (simp_all add: diagnosis_label_cells_def diagnosis_cells_def leading_cells_def)

lemma narrow_prognosis:
  assumes "list_all (\<lambda>r. length r \<le> 35) records"
  shows "readable 35 records"
    "prognosis_label_cells records = file_column prognosis_na_values records 1"
    "prognosis_time_cells records = file_column prognosis_na_values records 2"
    "prognosis_cells records = named_cells prognosis_na_values records 3 prognosis_features"
  using narrow_records [OF assms]
  by (simp_all add: prognosis_label_cells_def prognosis_time_cells_def prognosis_cells_def
      leading_cells_def)

lemma diagnosis_sample_loads:
  "load_wisconsin_breast_cancer_diagnosis decimal
     (one_file default_diagnosis_file diagnosis_sample) default_diagnosis_file
   = Inr (diagnosis_X decimal diagnosis_sample, diagnosis_y decimal diagnosis_sample)"
  by code_simp

lemma prognosis_sample_loads:
  "load_wisconsin_breast_cancer_prognosis decimal
     (one_file default_prognosis_file prognosis_sample) default_prognosis_file
   = Inr (prognosis_X decimal prognosis_sample, prognosis_y decimal prognosis_sample)"
  by code_simp




















lemma labels_relabelled:
  assumes "length (categories_of cells) = 2"
  shows "\<exists>c1 c2. c1 < c2 \<and> categories_of cells = [c1, c2]
     \<and> set (List.map_filter id cells) = {c1, c2}
     \<and> category_labels [a, b] (map (map_option (index_of (categories_of cells))) cells)
         = map (map_option (\<lambda>c. if c = c1 then a else b)) cells"
proof -
  obtain c1 c2 where c: "c1 < c2" "categories_of cells = [c1, c2]"
    "set (List.map_filter id cells) = {c1, c2}"
    using categories_of_length2D [OF assms] by blast
  have "category_labels [a, b] (map (map_option (index_of (categories_of cells))) cells)
         = map (map_option (\<lambda>c. if c = c1 then a else b)) cells"
    by (simp only: c(2) relabel_two [OF c(3)])
  then show ?thesis using c by blast
qed

lemma diagnosis_y_labels:
  "get_labels (sr_values (diagnosis_y f records))
     = category_labels [''benign'', ''malignant'']
         (map (map_option (index_of (categories_of (diagnosis_label_cells records))))
            (diagnosis_label_cells records))"
  by (simp add: diagnosis_y_def diagnosis_codes_def Let_def)

lemma prognosis_y_labels:
  "frame_labels (prognosis_y f records) ''outcome''
     = category_labels [''nonrecurring'', ''recurring'']
         (map (map_option (index_of (categories_of (prognosis_label_cells records))))
            (prognosis_label_cells records))"
  by (simp add: frame_labels_def prognosis_y_def outcome_codes_def Let_def)

lemma diagnosis_indexed_loads:
  "load_wisconsin_breast_cancer_diagnosis decimal
     (one_file default_diagnosis_file diagnosis_indexed) default_diagnosis_file
   = Inr (diagnosis_X decimal diagnosis_indexed, diagnosis_y decimal diagnosis_indexed)"
  by code_simp

lemma readable_width:
  assumes "readable n records" "r \<in> set records"
  shows "length r \<le> n + leading_fields n records"
proof -
  have "n \<le> expected_fields n records" by (simp add: expected_fields_def)
  then have "n + leading_fields n records = expected_fields n records"
    by (simp add: leading_fields_def)
  then show ?thesis using assms by (simp add: readable_def list_all_iff)
qed

lemma named_cells_field:
  assumes "k \<le> j" "j < k + length names"
  shows "(names ! (j - k), file_column na records j) \<in> set (named_cells na records k names)"
proof -
  have "j - k < length (named_cells na records k names)" using assms by simp
  then have "named_cells na records k names ! (j - k) \<in> set (named_cells na records k names)"
    by (rule nth_mem)
  then show ?thesis using assms by (simp add: named_cells_nth)
qed

lemma diagnosis_cells_field:
  assumes "readable 32 records" "0 < j" "j \<noteq> 1 + leading_fields 32 records"
    and "j < 32 + leading_fields 32 records"
  shows "\<exists>n. (n, file_column default_na_values records j) \<in> set (diagnosis_cells records)"
proof (cases "j = 1")
  case True
  then have "leading_fields 32 records = 1"
    using assms(3) leading_cases [OF assms(1)] by auto
  then show ?thesis using True by (auto simp: diagnosis_cells_def leading_cells_def)
next
  case False
  then have "2 + leading_fields 32 records \<le> j"
    using assms(2,3) leading_cases [OF assms(1)] by auto
  moreover have "j < 2 + leading_fields 32 records + length image_features"
    using assms(4) by (simp add: length_image_features)
  ultimately have "(image_features ! (j - (2 + leading_fields 32 records)),
      file_column default_na_values records j)
      \<in> set (named_cells default_na_values records (2 + leading_fields 32 records) image_features)"
    by (rule named_cells_field)
  then show ?thesis unfolding diagnosis_cells_def by auto
qed

lemma question_mark_not_default: "''?'' \<notin> set default_na_values"
  by (simp add: default_na_values_def)

lemma question_mark_column:
  assumes "r \<in> set records" "j < length r" "r ! j = ''?''" "to_float ''?'' = None"
  shows "\<not> convertible to_float (file_column default_na_values records j)"
proof -
  have "parse_field default_na_values r j = Some ''?''"
    using assms(2,3) question_mark_not_default by (simp add: parse_field_def)
  then have m: "Some ''?'' \<in> set (file_column default_na_values records j)"
    using assms(1) by (force simp: file_column_def)
  have "cell_ok to_float (Some ''?'')"
    if "cells_ok to_float (file_column default_na_values records j)"
    using that m unfolding cells_ok_def list_all_iff by blast
  then have "\<not> cells_ok to_float (file_column default_na_values records j)"
    using assms(4) by auto
  moreover have "bool_cell (Some ''?'')"
    if "bool_cells (file_column default_na_values records j)"
    using that m unfolding bool_cells_def list_all_iff by blast
  then have "\<not> bool_cells (file_column default_na_values records j)"
    by (auto simp: true_values_def false_values_def)
  ultimately show ?thesis by (simp add: convertible_def)
qed

lemma diagnosis_question_mark_cells:
  assumes "readable 32 records" "r \<in> set records" "0 < j"
    and "j \<noteq> 1 + leading_fields 32 records" "j < length r" "r ! j = ''?''"
    and "to_float ''?'' = None"
  shows "\<not> all_convertible to_float (diagnosis_cells records)"
proof -
  have "j < 32 + leading_fields 32 records"
    using readable_width [OF assms(1,2)] assms(5) by simp
  then obtain n where "(n, file_column default_na_values records j) \<in> set (diagnosis_cells records)"
    using diagnosis_cells_field [OF assms(1,3,4)] by blast
  moreover have "\<not> convertible to_float (file_column default_na_values records j)"
    by (rule question_mark_column [where r=r and j=j and to_float=to_float, OF assms(2,5,6,7)])
  ultimately show ?thesis by (auto simp: all_convertible_def list_all_iff)
qed

lemma prognosis_cells_nth:
  assumes "readable 35 records" "3 + leading_fields 35 records \<le> j"
    and "j < 35 + leading_fields 35 records"
  shows "j - 3 < length (prognosis_cells records)"
    and "prognosis_cells records ! (j - 3)
           = (prognosis_features ! (j - 3 - leading_fields 35 records),
              file_column prognosis_na_values records j)"
proof -
  consider "leading_fields 35 records = 0" | "leading_fields 35 records = 1"
    using leading_cases [OF assms(1)] by auto
  then have "j - 3 < length (prognosis_cells records)
    \<and> prognosis_cells records ! (j - 3)
           = (prognosis_features ! (j - 3 - leading_fields 35 records),
              file_column prognosis_na_values records j)"
  proof cases
    case 1
    then show ?thesis
      using assms(2,3)
      by (simp add: prognosis_cells_def leading_cells_def named_cells_nth
          length_prognosis_features)
  next
    case 2
    then have j: "4 \<le> j" "j < 36" using assms(2,3) by simp_all
    then have "j - 3 = Suc (j - 4)" by simp
    then show ?thesis
      using 2 j
      by (simp add: prognosis_cells_def leading_cells_def named_cells_nth
          length_prognosis_features)
  qed
  then show "j - 3 < length (prognosis_cells records)"
    and "prognosis_cells records ! (j - 3)
           = (prognosis_features ! (j - 3 - leading_fields 35 records),
              file_column prognosis_na_values records j)"
    by simp_all
qed

lemma missing_cell_converted:
  "i < length cells \<Longrightarrow> cells ! i = None \<Longrightarrow> convert_cells f cells ! i = None"
  by (simp add: convert_cells_def float_cells_def truth_cells_def)

lemma missing_cell_inferred:
  "i < length cells \<Longrightarrow> cells ! i = None \<Longrightarrow> column_isna (infer_column f cells) ! i"
  by (simp add: infer_column_def float_cells_def truth_cells_def)

lemma read_csv_cong:
  assumes "fs p = Some rs" "fs' p = Some rs'"
    and "expected_fields (length names) rs = expected_fields (length names) rs'"
    and "list_ex (\<lambda>r. expected_fields (length names) rs < length r) rs
           = list_ex (\<lambda>r. expected_fields (length names) rs' < length r) rs'"
    and "\<And>j. file_column (default_na_values @ na) rs j = file_column (default_na_values @ na) rs' j"
  shows "read_csv f fs p names cat na = read_csv f fs' p names cat na"
  using assms(1,2,4) unfolding read_csv_def leading_fields_def Let_def
  by (simp add: assms(3,5) split_def)

lemma blank_question_marks_read:
  assumes "fs p = Some records"
  shows "read_csv f fs p names cat [''?'']
           = read_csv f (fs(p \<mapsto> blank_question_marks records)) p names cat [''?'']"
proof (rule read_csv_cong [where fs=fs and p=p and rs=records
      and rs'="blank_question_marks records", OF assms])
  let ?g = "\<lambda>s. if s = ''?'' then '''' else s"
  show "(fs(p \<mapsto> blank_question_marks records)) p = Some (blank_question_marks records)"
    by simp
  show e: "expected_fields (length names) records
        = expected_fields (length names) (blank_question_marks records)"
    by (cases records) (simp_all add: expected_fields_def blank_question_marks_def)
  show "list_ex (\<lambda>r. expected_fields (length names) records < length r) records
        = list_ex (\<lambda>r. expected_fields (length names) (blank_question_marks records) < length r)
            (blank_question_marks records)"
    unfolding e [symmetric] by (simp add: blank_question_marks_def list_ex_iff)
  have "parse_field (default_na_values @ [''?'']) (map ?g r) j
          = parse_field (default_na_values @ [''?'']) r j" for r j
  proof (cases "j < length r")
    case True
    then show ?thesis
      by (cases "r ! j = ''?''") (simp_all add: parse_field_def default_na_values_def)
  next
    case False
    then show ?thesis by (simp add: parse_field_def)
  qed
  then show "file_column (default_na_values @ [''?'']) records j
        = file_column (default_na_values @ [''?'']) (blank_question_marks records) j" for j
    by (simp add: file_column_def blank_question_marks_def)
qed

lemma read_index_entries:
  "read_index f na records =
     (let ids = map (\<lambda>r. parse_field na r 0) records
      in if cells_ok f ids then map (\<lambda>c. map_option Number (Option.bind c f)) ids
         else if bool_cells ids then map (map_option (\<lambda>s. Boolean (s \<in> set true_values))) ids
         else map (map_option Text) ids)"
  by (simp add: read_index_def infer_column_def float_cells_def truth_cells_def
      file_column_def Let_def comp_def option.map_comp)

lemma read_index_missing:
  "map (\<lambda>e. e = None) (read_index f na records)
     = map (\<lambda>r. parse_field na r 0 = None) records"
proof -
  have "(Option.bind c f = None) = (c = None)" if "cell_ok f c" for c
    using that by (cases c) auto
  then have "map (\<lambda>c. Option.bind c f = None) ids = map (\<lambda>c. c = None) ids"
    if "cells_ok f ids" for ids
    using that by (auto simp: cells_ok_def list_all_iff)
  then show ?thesis
    by (simp add: read_index_entries Let_def comp_def)
qed

lemma diagnosis_cells_lengths:
  "list_all (\<lambda>(n, cells). length cells = length records) (diagnosis_cells records)"
  using named_cells_lengths [of records default_na_values]
  by (simp add: diagnosis_cells_def leading_cells_def)

lemma prognosis_cells_lengths:
  "list_all (\<lambda>(n, cells). length cells = length records) (prognosis_cells records)"
  using named_cells_lengths [of records prognosis_na_values]
  by (simp add: prognosis_cells_def leading_cells_def)

lemma parse_field_padded:
  "parse_field (default_na_values @ na) (pad_record n r) j
     = parse_field (default_na_values @ na) r j"
proof (cases "j < length r")
  case True
  then show ?thesis by (simp add: parse_field_def pad_record_def nth_append)
next
  case False
  then show ?thesis
    by (simp add: parse_field_def pad_record_def nth_append default_na_values_def)
qed

lemma padded_read:
  assumes "fs p = Some records" "list_all (\<lambda>r. length r \<le> length names) records"
  shows "read_csv f fs p names cat na
           = read_csv f (fs(p \<mapsto> map (pad_record (length names)) records)) p names cat na"
proof (rule read_csv_cong [where fs=fs and p=p and rs=records
      and rs'="map (pad_record (length names)) records", OF assms(1)])
  let ?n = "length names"
  show "(fs(p \<mapsto> map (pad_record ?n) records)) p = Some (map (pad_record ?n) records)"
    by simp
  have w: "list_all (\<lambda>r. length r \<le> ?n) (map (pad_record ?n) records)"
    using assms(2) by (simp add: list_all_iff pad_record_def)
  have e: "expected_fields ?n records = ?n"
    "expected_fields ?n (map (pad_record ?n) records) = ?n"
    using narrow_records(1) [OF assms(2)] narrow_records(1) [OF w] by simp_all
  show "expected_fields ?n records = expected_fields ?n (map (pad_record ?n) records)"
    by (simp only: e)
  show "list_ex (\<lambda>r. expected_fields ?n records < length r) records
        = list_ex (\<lambda>r. expected_fields ?n (map (pad_record ?n) records) < length r)
            (map (pad_record ?n) records)"
    unfolding e using assms(2) w by (auto simp: list_all_iff list_ex_iff)
  show "file_column (default_na_values @ na) records j
        = file_column (default_na_values @ na) (map (pad_record ?n) records) j" for j
    by (simp add: file_column_def parse_field_padded)
qed

lemma float_columns_whole:
  assumes "list_all (\<lambda>(n, cells). length cells = m) ncs"
  shows "list_all (\<lambda>(n, c). \<exists>vs. c = Float64 vs \<and> length vs = m) (float_columns f ncs)"
  using assms by (auto simp: float_columns_def list_all_iff)

lemma diagnosis_names:
  "map fst (diagnosis_cells records)
     = (if leading_fields 32 records = 1 then ''ID'' # image_features else image_features)"
  by (simp add: diagnosis_cells_def leading_cells_def)

lemma prognosis_names:
  "map fst (prognosis_cells records)
     = (if leading_fields 35 records = 1 then ''ID'' # prognosis_features else prognosis_features)"
  by (simp add: prognosis_cells_def leading_cells_def)

lemma diagnosis_whole:
  "map fst (df_columns (diagnosis_X f records))
     = (if leading_fields 32 records = 1 then ''ID'' # image_features else image_features)"
  "list_all (\<lambda>(n, c). \<exists>vs. c = Float64 vs \<and> length vs = length records)
     (df_columns (diagnosis_X f records))"
  "length (df_index (diagnosis_X f records)) = length records"
  "sr_index (diagnosis_y f records) = df_index (diagnosis_X f records)"
  "length (get_labels (sr_values (diagnosis_y f records))) = length records"
  by (simp_all add: diagnosis_X_def diagnosis_y_def diagnosis_names float_columns_whole
      diagnosis_cells_lengths category_labels_def)

lemma prognosis_whole:
  "map fst (df_columns (prognosis_X f records))
     = (if leading_fields 35 records = 1 then ''ID'' # prognosis_features else prognosis_features)"
  "list_all (\<lambda>(n, c). \<exists>vs. c = Float64 vs \<and> length vs = length records)
     (df_columns (prognosis_X f records))"
  "length (df_index (prognosis_X f records)) = length records"
  "df_index (prognosis_y f records) = df_index (prognosis_X f records)"
  "map fst (df_columns (prognosis_y f records)) = [''outcome'', ''time'']"
  "list_all (\<lambda>(n, c). column_length c = length records) (df_columns (prognosis_y f records))"
  by (simp_all add: prognosis_X_def prognosis_y_def prognosis_names float_columns_whole
      prognosis_cells_lengths prognosis_time_cells_def)

lemma diagnosis_outcome:
  assumes "fs p = Some records"
  shows "if \<not> readable 32 records
         then load_wisconsin_breast_cancer_diagnosis f fs p = Inl ParserError
         else if card (set (List.map_filter id (diagnosis_label_cells records))) \<noteq> 2
         then load_wisconsin_breast_cancer_diagnosis f fs p = Inl CategoriesValueError
         else if \<not> all_convertible f (diagnosis_cells records)
         then \<exists>s. load_wisconsin_breast_cancer_diagnosis f fs p = Inl (FloatValueError s)
         else load_wisconsin_breast_cancer_diagnosis f fs p
                = Inr (diagnosis_X f records, diagnosis_y f records)"
proof (cases "readable 32 records")
  case False
  then show ?thesis
    using load_diagnosis_unreadable [where fs=fs and p=p and to_float=f, OF assms] by simp
next
  case r: True
  show ?thesis
  proof (cases "length (categories_of (diagnosis_label_cells records)) = 2")
    case False
    then show ?thesis
      using r load_diagnosis_categories [where fs=fs and p=p and to_float=f, OF assms r]
      by (simp add: length_categories_of)
  next
    case c: True
    show ?thesis
    proof (cases "all_convertible f (diagnosis_cells records)")
      case True
      then show ?thesis
        using r c load_diagnosis_ok [where fs=fs and p=p and to_float=f, OF assms r c]
        by (simp add: length_categories_of)
    next
      case False
      then show ?thesis
        using r c load_diagnosis_float [where fs=fs and p=p and to_float=f, OF assms r c]
        by (simp add: length_categories_of)
    qed
  qed
qed

lemma prognosis_outcome:
  assumes "fs p = Some records"
  shows "if \<not> readable 35 records
         then load_wisconsin_breast_cancer_prognosis f fs p = Inl ParserError
         else if card (set (List.map_filter id (prognosis_label_cells records))) \<noteq> 2
         then load_wisconsin_breast_cancer_prognosis f fs p = Inl CategoriesValueError
         else if \<not> all_convertible f (prognosis_cells records)
         then \<exists>s. load_wisconsin_breast_cancer_prognosis f fs p = Inl (FloatValueError s)
         else load_wisconsin_breast_cancer_prognosis f fs p
                = Inr (prognosis_X f records, prognosis_y f records)"
proof (cases "readable 35 records")
  case False
  then show ?thesis
    using load_prognosis_unreadable [where fs=fs and p=p and to_float=f, OF assms] by simp
next
  case r: True
  show ?thesis
  proof (cases "length (categories_of (prognosis_label_cells records)) = 2")
    case False
    then show ?thesis
      using r load_prognosis_categories [where fs=fs and p=p and to_float=f, OF assms r]
      by (simp add: length_categories_of)
  next
    case c: True
    show ?thesis
    proof (cases "all_convertible f (prognosis_cells records)")
      case True
      then show ?thesis
        using r c load_prognosis_ok [where fs=fs and p=p and to_float=f, OF assms r c]
        by (simp add: length_categories_of)
    next
      case False
      then show ?thesis
        using r c load_prognosis_float [where fs=fs and p=p and to_float=f, OF assms r c]
        by (simp add: length_categories_of)
    qed
  qed
qed

lemma padded_diagnosis:
  assumes "fs p = Some records" "list_all (\<lambda>r. length r \<le> 32) records"
  shows "load_wisconsin_breast_cancer_diagnosis f fs p
           = load_wisconsin_breast_cancer_diagnosis f
               (fs(p \<mapsto> map (pad_record 32) records)) p"
proof -
  have "read_csv f fs p ([''ID'', ''diagnosis''] @ image_features) [''diagnosis''] []
      = read_csv f (fs(p \<mapsto> map (pad_record 32) records)) p
          ([''ID'', ''diagnosis''] @ image_features) [''diagnosis''] []"
    using padded_read [where fs=fs and p=p and records=records
        and names="[''ID'', ''diagnosis''] @ image_features", OF assms(1)] assms(2)
    by (simp add: length_image_features)
  then show ?thesis
    unfolding load_wisconsin_breast_cancer_diagnosis_def Let_def by (simp only:)
qed

lemma padded_prognosis:
  assumes "fs p = Some records" "list_all (\<lambda>r. length r \<le> 35) records"
  shows "load_wisconsin_breast_cancer_prognosis f fs p
           = load_wisconsin_breast_cancer_prognosis f
               (fs(p \<mapsto> map (pad_record 35) records)) p"
proof -
  have "read_csv f fs p
          (([''ID'', ''outcome'', ''time''] @ image_features) @ [''tumor_size'', ''lymph_node_status''])
          [''outcome''] [''?'']
      = read_csv f (fs(p \<mapsto> map (pad_record 35) records)) p
          (([''ID'', ''outcome'', ''time''] @ image_features) @ [''tumor_size'', ''lymph_node_status''])
          [''outcome''] [''?'']"
    using padded_read [where fs=fs and p=p and records=records
        and names="([''ID'', ''outcome'', ''time''] @ image_features)
                     @ [''tumor_size'', ''lymph_node_status'']", OF assms(1)] assms(2)
    by (simp add: length_image_features)
  then show ?thesis
    unfolding load_wisconsin_breast_cancer_prognosis_def Let_def by (simp only:)
qed

lemma image_features_on_facts:
  "list_at (snd (image_features_on w)) (fst (image_features_on w)) = image_features"
  "files (snd (image_features_on w)) = files w"
  "take (length (heap w)) (heap (snd (image_features_on w))) = heap w"
  "length (heap w) \<le> length (heap (snd (image_features_on w)))"
  by (simp_all add: image_features_on_def image_features_def allocate_def list_extend_def
      list_at_def object_at_def Let_def nth_append)

lemma image_features_on_eq:
  "image_features_on w =
     (Suc (length (heap w)),
      w\<lparr>heap := heap w @
          [ListObject [''radius'', ''texture'', ''perimeter'', ''area'', ''smoothness'',
                       ''compactness'', ''concavity'', ''concave points'', ''symmetry'',
                       ''fractal dimension''],
           ListObject image_features]\<rparr>)"
  by (simp add: image_features_on_def image_features_def allocate_def list_extend_def
      list_at_def object_at_def Let_def nth_append)

lemma load_diagnosis_on_unfold:
  "load_wisconsin_breast_cancer_diagnosis_on f p w =
     (let w3 = w\<lparr>heap := heap w @
                  [ListObject ([''ID'', ''diagnosis''] @ image_features),
                   ListObject [''radius'', ''texture'', ''perimeter'', ''area'', ''smoothness'',
                               ''compactness'', ''concavity'', ''concave points'', ''symmetry'',
                               ''fractal dimension''],
                   ListObject image_features]\<rparr>
      in case read_csv f (files w) p ([''ID'', ''diagnosis''] @ image_features) [''diagnosis''] [] of
           Inl e \<Rightarrow> (Inl e, w3)
         | Inr data_table \<Rightarrow>
        (let w4 = w3\<lparr>heap := heap w3 @ [FrameObject data_table]\<rparr>
         in case get_column data_table ''diagnosis'' of
           Inl e \<Rightarrow> (Inl e, w4)
         | Inr diagnosis \<Rightarrow>
        (case rename_categories diagnosis [''benign'', ''malignant''] of
           Inl e \<Rightarrow> (Inl e, w4)
         | Inr renamed \<Rightarrow>
        (let w5 = w4\<lparr>heap := heap w4 @ [SeriesObject \<lparr> sr_index = df_index data_table,
                                               sr_values = renamed \<rparr>]\<rparr>
         in case drop_columns data_table [''diagnosis''] of
           Inl e \<Rightarrow> (Inl e, w5)
         | Inr dropped_table \<Rightarrow>
        (let w6 = w5\<lparr>heap := heap w5 @ [FrameObject dropped_table]\<rparr>
         in case astype_float f dropped_table of
           Inl e \<Rightarrow> (Inl e, w6)
         | Inr X_table \<Rightarrow>
             (Inr (length (heap w6), length (heap w4)),
              w6\<lparr>heap := heap w6 @ [FrameObject X_table]\<rparr>))))))"
  unfolding load_wisconsin_breast_cancer_diagnosis_on_def
  by (simp add: image_features_on_eq allocate_def list_extend_def
      list_at_def object_at_def Let_def nth_append cong: sum.case_cong)

lemma load_diagnosis_on_outputs:
  "diagnosis_outputs (load_wisconsin_breast_cancer_diagnosis_on f p w)
     = Some (load_wisconsin_breast_cancer_diagnosis f (files w) p)"
  unfolding load_diagnosis_on_unfold load_wisconsin_breast_cancer_diagnosis_def
    diagnosis_outputs_def
  by (simp add: object_at_def nth_append Let_def split: sum.splits)

lemma load_diagnosis_on_frame:
  "files (snd (load_wisconsin_breast_cancer_diagnosis_on f p w)) = files w"
  "take (length (heap w)) (heap (snd (load_wisconsin_breast_cancer_diagnosis_on f p w))) = heap w"
  unfolding load_diagnosis_on_unfold
  by (simp_all add: Let_def split: sum.splits)

lemma load_prognosis_on_unfold:
  "load_wisconsin_breast_cancer_prognosis_on f p w =
     (let w3 = w\<lparr>heap := heap w @
                  [ListObject (([''ID'', ''outcome'', ''time''] @ image_features)
                                 @ [''tumor_size'', ''lymph_node_status'']),
                   ListObject [''outcome'', ''time''],
                   ListObject [''tumor_size'', ''lymph_node_status''],
                   ListObject [''radius'', ''texture'', ''perimeter'', ''area'', ''smoothness'',
                               ''compactness'', ''concavity'', ''concave points'', ''symmetry'',
                               ''fractal dimension''],
                   ListObject image_features]\<rparr>
      in case read_csv f (files w) p
                (([''ID'', ''outcome'', ''time''] @ image_features)
                   @ [''tumor_size'', ''lymph_node_status'']) [''outcome''] [''?''] of
           Inl e \<Rightarrow> (Inl e, w3)
         | Inr data_table \<Rightarrow>
        (let w4 = w3\<lparr>heap := heap w3 @ [FrameObject data_table]\<rparr>
         in case loc_columns data_table [''outcome'', ''time''] of
           Inl e \<Rightarrow> (Inl e, w4)
         | Inr y_table \<Rightarrow>
        (let w5 = w4\<lparr>heap := heap w4 @ [FrameObject y_table]\<rparr>
         in case get_column y_table ''outcome'' of
           Inl e \<Rightarrow> (Inl e, w5)
         | Inr outcome \<Rightarrow>
        (case rename_categories outcome [''nonrecurring'', ''recurring''] of
           Inl e \<Rightarrow> (Inl e, w5)
         | Inr renamed \<Rightarrow>
        (let w6 = w4\<lparr>heap := heap w4
                      @ [FrameObject (set_column y_table ''outcome'' renamed)]\<rparr>
         in case drop_columns data_table [''outcome'', ''time''] of
           Inl e \<Rightarrow> (Inl e, w6)
         | Inr dropped_table \<Rightarrow>
        (let w7 = w6\<lparr>heap := heap w6 @ [FrameObject dropped_table]\<rparr>
         in case astype_float f dropped_table of
           Inl e \<Rightarrow> (Inl e, w7)
         | Inr X_table \<Rightarrow>
             (Inr (length (heap w7), length (heap w4)),
              w7\<lparr>heap := heap w7 @ [FrameObject X_table]\<rparr>)))))))"
  unfolding load_wisconsin_breast_cancer_prognosis_on_def
  by (simp add: image_features_on_eq allocate_def list_extend_def
      list_at_def object_at_def Let_def nth_append cong: sum.case_cong)

lemma load_prognosis_on_outputs:
  "prognosis_outputs (load_wisconsin_breast_cancer_prognosis_on f p w)
     = Some (load_wisconsin_breast_cancer_prognosis f (files w) p)"
  unfolding load_prognosis_on_unfold load_wisconsin_breast_cancer_prognosis_def
    prognosis_outputs_def
  by (simp add: object_at_def nth_append Let_def split: sum.splits)

lemma load_prognosis_on_frame:
  "files (snd (load_wisconsin_breast_cancer_prognosis_on f p w)) = files w"
  "take (length (heap w)) (heap (snd (load_wisconsin_breast_cancer_prognosis_on f p w))) = heap w"
  unfolding load_prognosis_on_unfold
  by (simp_all add: Let_def split: sum.splits)

lemma load_reads_one_file:
  assumes "fs1 p = fs2 p"
  shows "load_wisconsin_breast_cancer_diagnosis f fs1 p
           = load_wisconsin_breast_cancer_diagnosis f fs2 p"
    and "load_wisconsin_breast_cancer_prognosis f fs1 p
           = load_wisconsin_breast_cancer_prognosis f fs2 p"
  using assms
  by (simp_all add: load_wisconsin_breast_cancer_diagnosis_def
      load_wisconsin_breast_cancer_prognosis_def read_csv_def)

section \<open>Properties of the schema and of the loaders\<close>

text \<open>
  C5. \<open>image_features\<close> is one fixed list of exactly 30 names: the ten base names prefixed
  with \<^verbatim>\<open>mean_\<close>, then the same ten prefixed with \<^verbatim>\<open>se_\<close>, then with \<^verbatim>\<open>worst_\<close>, each group
  in the order of the base names. For \<^verbatim>\<open>radius\<close> the three names stand first in their groups,
  at positions 0, 10 and 20. No name occurs twice.
\<close>

theorem image_features_schema:
  "image_features =
     [''mean_radius'', ''mean_texture'', ''mean_perimeter'', ''mean_area'', ''mean_smoothness'',
      ''mean_compactness'', ''mean_concavity'', ''mean_concave points'', ''mean_symmetry'',
      ''mean_fractal dimension'',
      ''se_radius'', ''se_texture'', ''se_perimeter'', ''se_area'', ''se_smoothness'',
      ''se_compactness'', ''se_concavity'', ''se_concave points'', ''se_symmetry'',
      ''se_fractal dimension'',
      ''worst_radius'', ''worst_texture'', ''worst_perimeter'', ''worst_area'',
      ''worst_smoothness'', ''worst_compactness'', ''worst_concavity'', ''worst_concave points'',
      ''worst_symmetry'', ''worst_fractal dimension'']
   \<and> length image_features = 30
   \<and> image_features ! 0 = ''mean_radius''
   \<and> image_features ! 10 = ''se_radius''
   \<and> image_features ! 20 = ''worst_radius''
   \<and> distinct image_features"
  by (simp add: image_features_def)

text \<open>
  C1, as the code has it. Take a diagnosis file in which every record has 32 fields, a
  label field that is not a missing-value token and 30 feature fields that are numbers,
  and whose label column holds exactly two distinct codes, \<open>b\<close> sorting before \<open>m\<close>. With
  \<open>N\<close> records, the loader returns a features table with \<open>N\<close> rows and the 30 columns of
  the schema, every cell a number, and a label series with \<open>N\<close> entries: \<^verbatim>\<open>benign\<close> for the
  records coded \<open>b\<close> and \<^verbatim>\<open>malignant\<close> for those coded \<open>m\<close>, so that the label counts are
  the counts of the two codes. (A file with a single code among its labels, or with no
  record, is refused by the relabelling: see the counterexample.)
\<close>

theorem diagnosis_tables_of_two_code_file:
  assumes "fs local_file = Some records"
    and "list_all (diagnosis_record to_float) records"
    and "set (map (\<lambda>r. r ! 1) records) = {b, m}" and "b < m"
  shows "\<exists>X y. load_wisconsin_breast_cancer_diagnosis to_float fs local_file = Inr (X, y)
      \<and> length (df_index X) = length records
      \<and> map fst (df_columns X) = image_features
      \<and> length (df_columns X) = 30
      \<and> list_all (\<lambda>(n, c). \<exists>vs. c = Float64 vs \<and> length vs = length records \<and> None \<notin> set vs)
            (df_columns X)
      \<and> get_labels (sr_values y)
          = map (\<lambda>r. Some (if r ! 1 = b then ''benign'' else ''malignant'')) records
      \<and> length (filter (\<lambda>l. l = Some ''benign'') (get_labels (sr_values y)))
          = length (filter (\<lambda>r. r ! 1 = b) records)
      \<and> length (filter (\<lambda>l. l = Some ''malignant'') (get_labels (sr_values y)))
          = length (filter (\<lambda>r. r ! 1 = m) records)"
proof -
  let ?lab = "file_column default_na_values records 1"
  let ?X = "diagnosis_X to_float records" and ?y = "diagnosis_y to_float records"
  have rec: "diagnosis_record to_float r" if "r \<in> set records" for r
    using assms(2) that by (simp add: list_all_iff)
  have lab: "?lab = map (\<lambda>r. Some (r ! 1)) records"
    unfolding file_column_def
    by (rule map_cong [OF refl]) (rule diagnosis_record_fields(2) [OF rec])
  have texts: "set (List.map_filter id ?lab) = {b, m}"
    using assms(3) by (simp only: lab map_filter_id_Some)
  have cats: "categories_of ?lab = [b, m]"
    by (rule categories_two [OF texts assms(4)])
  have w: "list_all (\<lambda>r. length r \<le> 32) records"
    using diagnosis_record_fields(1) [OF rec] by (simp add: list_all_iff)
  have field: "parse_field default_na_values r (2 + i) = Some (r ! (2 + i))
                 \<and> to_float (r ! (2 + i)) \<noteq> None"
    if "r \<in> set records" "i < 30" for r i
  proof -
    have d: "diagnosis_record to_float r" using assms(2) that(1) by (simp add: list_all_iff)
    have "numeric_field to_float default_na_values (r ! (2 + i))"
      by (rule diagnosis_record_fields(3) [OF d that(2)])
    moreover have "2 + i < length r"
      using diagnosis_record_fields(1) [OF d] that(2) by simp
    ultimately show ?thesis by (simp add: parse_field_def numeric_field_def)
  qed
  note nr = narrow_diagnosis [OF w]
  have ok: "all_cells_ok to_float (diagnosis_cells records)"
    unfolding nr(3) all_cells_ok_iff using field
    by (simp add: length_image_features)
  have load: "load_wisconsin_breast_cancer_diagnosis to_float fs local_file = Inr (?X, ?y)"
    by (rule load_diagnosis_ok [where fs=fs and p=local_file, OF assms(1) nr(1) _
          all_cells_ok_convertible [OF ok]])
      (simp only: nr(2) cats, simp)
  have rows: "length (df_index ?X) = length records"
    by (simp add: diagnosis_X_def)
  have names: "map fst (df_columns ?X) = image_features"
    by (simp add: diagnosis_X_def nr(3))
  have n30: "length (df_columns ?X) = 30"
    by (simp add: diagnosis_X_def nr(3) length_image_features)
  have cells: "list_all (\<lambda>(n, c). \<exists>vs. c = Float64 vs \<and> length vs = length records \<and> None \<notin> set vs)
            (df_columns ?X)"
  proof -
    have "\<exists>vs. snd (df_columns ?X ! i) = Float64 vs \<and> length vs = length records \<and> None \<notin> set vs"
      if "i < 30" for i
    proof -
      have "snd (df_columns ?X ! i)
              = Float64 (float_cells to_float (file_column default_na_values records (2 + i)))"
        using that float_columns_nth_ok [OF ok, of i]
        by (simp add: diagnosis_X_def nr(3) named_cells_nth length_image_features)
      moreover have "None \<notin> set (float_cells to_float (file_column default_na_values records (2 + i)))"
      proof
        assume "None \<in> set (float_cells to_float (file_column default_na_values records (2 + i)))"
        then obtain r where "r \<in> set records"
          "Option.bind (parse_field default_na_values r (2 + i)) to_float = None"
          by (auto simp: float_cells_def file_column_def)
        then show False using field [OF _ that, of r] by simp
      qed
      ultimately show ?thesis by (simp add: float_cells_def)
    qed
    then show ?thesis using n30 by (simp add: list_all_length case_prod_unfold)
  qed
  have codes: "diagnosis_codes records = map (map_option (index_of [b, m])) ?lab"
    unfolding diagnosis_codes_def Let_def nr(2) by (simp only: cats)
  have labels: "get_labels (sr_values ?y)
          = map (\<lambda>r. Some (if r ! 1 = b then ''benign'' else ''malignant'')) records"
    unfolding diagnosis_y_def
    by (simp only: series.simps get_labels.simps codes relabel_two [OF texts])
      (simp only: lab, simp add: comp_def)
  have bm: "r ! 1 \<noteq> b \<longleftrightarrow> r ! 1 = m" if "r \<in> set records" for r
    using assms(3,4) that by auto
  have nb: "length (filter (\<lambda>l. l = Some ''benign'') (get_labels (sr_values ?y)))
          = length (filter (\<lambda>r. r ! 1 = b) records)"
    unfolding labels by (rule count_relabelled(1)) simp
  have "length (filter (\<lambda>l. l = Some ''malignant'') (get_labels (sr_values ?y)))
          = length (filter (\<lambda>r. r ! 1 \<noteq> b) records)"
    unfolding labels by (rule count_relabelled(2)) simp
  also have "\<dots> = length (filter (\<lambda>r. r ! 1 = m) records)"
    using bm by (metis (mono_tags, lifting) filter_cong)
  finally have nm: "length (filter (\<lambda>l. l = Some ''malignant'') (get_labels (sr_values ?y)))
          = length (filter (\<lambda>r. r ! 1 = m) records)" .
  show ?thesis
    using load rows names n30 cells labels nb nm by blast
qed

theorem diagnosis_tables_of_two_code_file_witness:
  "load_wisconsin_breast_cancer_diagnosis decimal
      (one_file default_diagnosis_file diagnosis_sample) default_diagnosis_file
     = Inr (diagnosis_X decimal diagnosis_sample, diagnosis_y decimal diagnosis_sample)
   \<and> length (df_index (diagnosis_X decimal diagnosis_sample)) = 5
   \<and> length (df_columns (diagnosis_X decimal diagnosis_sample)) = 30
   \<and> length (filter (\<lambda>l. l = Some ''benign'')
         (get_labels (sr_values (diagnosis_y decimal diagnosis_sample)))) = 3
   \<and> length (filter (\<lambda>l. l = Some ''malignant'')
         (get_labels (sr_values (diagnosis_y decimal diagnosis_sample)))) = 2"
proof -
  have h1: "one_file default_diagnosis_file diagnosis_sample default_diagnosis_file
              = Some diagnosis_sample"
    by (simp add: one_file_def)
  have h2: "list_all (diagnosis_record decimal) diagnosis_sample"
    by code_simp
  have h3: "set (map (\<lambda>r. r ! 1) diagnosis_sample) = {''B'', ''M''}"
    by (auto simp: diagnosis_sample_def)
  have h4: "(''B'' :: string) < ''M''"
    by simp
  have n: "length diagnosis_sample = 5"
    "length (filter (\<lambda>r. r ! 1 = ''B'') diagnosis_sample) = 3"
    "length (filter (\<lambda>r. r ! 1 = ''M'') diagnosis_sample) = 2"
    by code_simp+
  obtain X y where
    "load_wisconsin_breast_cancer_diagnosis decimal
       (one_file default_diagnosis_file diagnosis_sample) default_diagnosis_file = Inr (X, y)"
    "length (df_index X) = length diagnosis_sample"
    "length (df_columns X) = 30"
    "length (filter (\<lambda>l. l = Some ''benign'') (get_labels (sr_values y)))
       = length (filter (\<lambda>r. r ! 1 = ''B'') diagnosis_sample)"
    "length (filter (\<lambda>l. l = Some ''malignant'') (get_labels (sr_values y)))
       = length (filter (\<lambda>r. r ! 1 = ''M'') diagnosis_sample)"
    using diagnosis_tables_of_two_code_file
      [where fs = "one_file default_diagnosis_file diagnosis_sample"
         and local_file = default_diagnosis_file and to_float = decimal, OF h1 h2 h3 h4]
    by blast
  then show ?thesis
    using diagnosis_sample_loads n by simp
qed

text \<open>
  C1 as stated fails on a file of one record: the record follows the schema, but its
  label column has one category, and \<^verbatim>\<open>rename_categories\<close> with two names raises.
\<close>

theorem single_code_diagnosis_file_counterexample:
  "list_all (diagnosis_record decimal) [''842302'' # ''M'' # replicate 30 ''17.99'']
   \<and> load_wisconsin_breast_cancer_diagnosis decimal
        (one_file default_diagnosis_file [''842302'' # ''M'' # replicate 30 ''17.99''])
        default_diagnosis_file
       = (Inl CategoriesValueError :: error + string dataframe \<times> string series)"
  by code_simp

text \<open>
  C2, as the code has it. Take a prognosis file in which every record has 35 fields, a
  label field that is not a missing-value token, numbers in the 30 image-feature fields
  and in \<^verbatim>\<open>tumor_size\<close>, and a number or the token \<^verbatim>\<open>?\<close> in \<^verbatim>\<open>lymph_node_status\<close>, and
  whose label column holds exactly two distinct codes. With \<open>M\<close> records, the loader
  returns a features table with \<open>M\<close> rows and exactly 32 columns: the 30 image features,
  then \<^verbatim>\<open>tumor_size\<close>, then \<^verbatim>\<open>lymph_node_status\<close>. In the last column the cell of a record
  whose field is \<^verbatim>\<open>?\<close> is the missing marker, and every other cell is the number read from
  the field. (A file with a single code among its labels is refused by the relabelling:
  see the counterexample.)
\<close>

theorem prognosis_tables_of_two_code_file:
  assumes "fs local_file = Some records"
    and "list_all (prognosis_record to_float) records"
    and "set (map (\<lambda>r. r ! 1) records) = {c1, c2}" and "c1 < c2"
  shows "\<exists>X y. load_wisconsin_breast_cancer_prognosis to_float fs local_file = Inr (X, y)
      \<and> length (df_index X) = length records
      \<and> map fst (df_columns X) = image_features @ [''tumor_size'', ''lymph_node_status'']
      \<and> length (df_columns X) = 32
      \<and> list_all (\<lambda>(n, c). column_length c = length records) (df_columns X)
      \<and> df_columns X ! 31
          = (''lymph_node_status'',
             Float64 (map (\<lambda>r. if r ! 34 = ''?'' then None else to_float (r ! 34)) records))"
proof -
  let ?lab = "file_column prognosis_na_values records 1"
  let ?X = "prognosis_X to_float records" and ?y = "prognosis_y to_float records"
  have rec: "prognosis_record to_float r" if "r \<in> set records" for r
    using assms(2) that by (simp add: list_all_iff)
  have lab: "?lab = map (\<lambda>r. Some (r ! 1)) records"
    unfolding file_column_def
    by (rule map_cong [OF refl]) (rule prognosis_record_fields(2) [OF rec])
  have texts: "set (List.map_filter id ?lab) = {c1, c2}"
    using assms(3) by (simp only: lab map_filter_id_Some)
  have cats: "categories_of ?lab = [c1, c2]"
    by (rule categories_two [OF texts assms(4)])
  have w: "list_all (\<lambda>r. length r \<le> 35) records"
    using prognosis_record_fields(1) [OF rec] by (simp add: list_all_iff)
  have last_field: "parse_field prognosis_na_values r 34
                      = (if r ! 34 = ''?'' then None else Some (r ! 34))
                    \<and> (r ! 34 \<noteq> ''?'' \<longrightarrow> to_float (r ! 34) \<noteq> None)"
    if "r \<in> set records" for r
    using prognosis_record_fields(1,4) [OF rec [OF that]] question_mark_is_na
    by (auto simp: parse_field_def numeric_field_def)
  have field: "cell_ok to_float (parse_field prognosis_na_values r (3 + i))"
    if "r \<in> set records" "i < 32" for r i
  proof (cases "i = 31")
    case True
    then show ?thesis using last_field [OF that(1)] by auto
  next
    case False
    then have i: "i < 31" using that(2) by simp
    have "numeric_field to_float prognosis_na_values (r ! (3 + i))"
      by (rule prognosis_record_fields(3) [OF rec [OF that(1)] i])
    moreover have "3 + i < length r"
      using prognosis_record_fields(1) [OF rec [OF that(1)]] i by simp
    ultimately show ?thesis by (simp add: parse_field_def numeric_field_def)
  qed
  note nr = narrow_prognosis [OF w]
  have ok: "all_cells_ok to_float (prognosis_cells records)"
    unfolding nr(4) all_cells_ok_iff using field
    by (simp add: length_prognosis_features)
  have load: "load_wisconsin_breast_cancer_prognosis to_float fs local_file = Inr (?X, ?y)"
    by (rule load_prognosis_ok [where fs=fs and p=local_file, OF assms(1) nr(1) _
          all_cells_ok_convertible [OF ok]])
      (simp only: nr(2) cats, simp)
  have rows: "length (df_index ?X) = length records"
    by (simp add: prognosis_X_def)
  have names: "map fst (df_columns ?X) = image_features @ [''tumor_size'', ''lymph_node_status'']"
    by (simp add: prognosis_X_def nr(4) prognosis_features_def)
  have n32: "length (df_columns ?X) = 32"
    by (simp add: prognosis_X_def nr(4) length_prognosis_features)
  have lens: "list_all (\<lambda>(n, c). column_length c = length records) (df_columns ?X)"
    by (simp add: prognosis_X_def nr(4) float_columns_lengths named_cells_lengths)
  have "float_cells to_float (file_column prognosis_na_values records 34)
          = map (\<lambda>r. if r ! 34 = ''?'' then None else to_float (r ! 34)) records"
    unfolding float_cells_def file_column_def map_map
    by (rule map_cong [OF refl]) (use last_field in auto)
  then have lymph: "df_columns ?X ! 31
          = (''lymph_node_status'',
             Float64 (map (\<lambda>r. if r ! 34 = ''?'' then None else to_float (r ! 34)) records))"
    using float_columns_nth_ok [OF ok, of 31]
    by (simp add: prognosis_X_def nr(4) named_cells_nth
        length_prognosis_features prognosis_features_nth)
  show ?thesis
    using load rows names n32 lens lymph by blast
qed

theorem prognosis_tables_of_two_code_file_witness:
  "load_wisconsin_breast_cancer_prognosis decimal
      (one_file default_prognosis_file prognosis_sample) default_prognosis_file
     = Inr (prognosis_X decimal prognosis_sample, prognosis_y decimal prognosis_sample)
   \<and> length (df_index (prognosis_X decimal prognosis_sample)) = 3
   \<and> length (df_columns (prognosis_X decimal prognosis_sample)) = 32
   \<and> df_columns (prognosis_X decimal prognosis_sample) ! 31
       = (''lymph_node_status'', Float64 [Some ''5'', None, Some ''0''])"
proof -
  have h1: "one_file default_prognosis_file prognosis_sample default_prognosis_file
              = Some prognosis_sample"
    by (simp add: one_file_def)
  have h2: "list_all (prognosis_record decimal) prognosis_sample"
    by code_simp
  have h3: "set (map (\<lambda>r. r ! 1) prognosis_sample) = {''N'', ''R''}"
    by (auto simp: prognosis_sample_def)
  have h4: "(''N'' :: string) < ''R''"
    by simp
  have n: "length prognosis_sample = 3"
    "map (\<lambda>r. if r ! 34 = ''?'' then None else decimal (r ! 34)) prognosis_sample
       = [Some ''5'', None, Some ''0'']"
    by code_simp+
  obtain X y where
    "load_wisconsin_breast_cancer_prognosis decimal
       (one_file default_prognosis_file prognosis_sample) default_prognosis_file = Inr (X, y)"
    "length (df_index X) = length prognosis_sample"
    "length (df_columns X) = 32"
    "df_columns X ! 31
       = (''lymph_node_status'',
          Float64 (map (\<lambda>r. if r ! 34 = ''?'' then None else decimal (r ! 34)) prognosis_sample))"
    using prognosis_tables_of_two_code_file
      [where fs = "one_file default_prognosis_file prognosis_sample"
         and local_file = default_prognosis_file and to_float = decimal, OF h1 h2 h3 h4]
    by blast
  then show ?thesis
    using prognosis_sample_loads n by simp
qed

text \<open>
  C2 as stated fails on a file of one record: the record follows the schema and has \<^verbatim>\<open>?\<close>
  as its \<^verbatim>\<open>lymph_node_status\<close>, but the outcome column has one category and the load fails.
\<close>

theorem single_code_prognosis_file_counterexample:
  "list_all (prognosis_record decimal)
      [''8423'' # ''R'' # ''61'' # replicate 30 ''17.99'' @ [''3'', ''?'']]
   \<and> load_wisconsin_breast_cancer_prognosis decimal
        (one_file default_prognosis_file
           [''8423'' # ''R'' # ''61'' # replicate 30 ''17.99'' @ [''3'', ''?'']])
        default_prognosis_file
       = (Inl CategoriesValueError :: error + string dataframe \<times> string dataframe)"
  by code_simp





text \<open>
  C3, as the code has it. The relabelling goes by position over the sorted codes of the
  label column, where a missing-value token is not a code. The label column is the column
  the parser names \<^verbatim>\<open>diagnosis\<close> or \<^verbatim>\<open>outcome\<close>: field 1 of the records, or field 2 when the
  records carry one leading field more than the schema. If that column does not hold
  exactly two distinct codes (a third code, or only one), the load fails: in
  \<^verbatim>\<open>rename_categories\<close> when the parser reads the file, in the parser otherwise; and
  \<^verbatim>\<open>rename_categories\<close> fails in no other case. Whenever
  the load returns, the label column held exactly two codes \<open>c1 < c2\<close>, every label of a
  record coded \<open>c1\<close> is the first target name and every label of a record coded \<open>c2\<close> is
  the second (\<^verbatim>\<open>benign\<close>, \<^verbatim>\<open>malignant\<close>; \<^verbatim>\<open>nonrecurring\<close>, \<^verbatim>\<open>recurring\<close>), and the label of a
  record whose label field is a missing-value token (for the prognosis file also \<^verbatim>\<open>?\<close>) is
  the missing marker: such a field does not make the load fail.
\<close>

theorem relabelling_is_positional:
  assumes "fs local_file = Some records"
  shows "(card (set (List.map_filter id (diagnosis_label_cells records))) \<noteq> 2 \<longrightarrow>
            load_wisconsin_breast_cancer_diagnosis to_float fs local_file
              = Inl (if readable 32 records then CategoriesValueError else ParserError))
       \<and> (card (set (List.map_filter id (diagnosis_label_cells records))) = 2 \<longrightarrow>
            load_wisconsin_breast_cancer_diagnosis to_float fs local_file
              \<noteq> Inl CategoriesValueError)
       \<and> (load_wisconsin_breast_cancer_diagnosis to_float fs local_file = Inr (X, y) \<longrightarrow>
            (\<exists>c1 c2. c1 < c2
               \<and> categories_of (diagnosis_label_cells records) = [c1, c2]
               \<and> set (List.map_filter id (diagnosis_label_cells records)) = {c1, c2}
               \<and> get_labels (sr_values y)
                   = map (map_option (\<lambda>c. if c = c1 then ''benign'' else ''malignant''))
                       (diagnosis_label_cells records)))
       \<and> (card (set (List.map_filter id (prognosis_label_cells records))) \<noteq> 2 \<longrightarrow>
            load_wisconsin_breast_cancer_prognosis to_float fs local_file
              = Inl (if readable 35 records then CategoriesValueError else ParserError))
       \<and> (card (set (List.map_filter id (prognosis_label_cells records))) = 2 \<longrightarrow>
            load_wisconsin_breast_cancer_prognosis to_float fs local_file
              \<noteq> Inl CategoriesValueError)
       \<and> (load_wisconsin_breast_cancer_prognosis to_float fs local_file = Inr (X', y') \<longrightarrow>
            (\<exists>c1 c2. c1 < c2
               \<and> categories_of (prognosis_label_cells records) = [c1, c2]
               \<and> set (List.map_filter id (prognosis_label_cells records)) = {c1, c2}
               \<and> frame_labels y' ''outcome''
                   = map (map_option (\<lambda>c. if c = c1 then ''nonrecurring'' else ''recurring''))
                       (prognosis_label_cells records)))"
proof (intro conjI impI)
  assume a: "card (set (List.map_filter id (diagnosis_label_cells records))) \<noteq> 2"
  show "load_wisconsin_breast_cancer_diagnosis to_float fs local_file
          = Inl (if readable 32 records then CategoriesValueError else ParserError)"
  proof (cases "readable 32 records")
    case True
    then show ?thesis
      using a load_diagnosis_categories [where fs=fs and p=local_file and to_float=to_float,
          OF assms True]
      by (simp add: length_categories_of)
  next
    case False
    then show ?thesis
      using load_diagnosis_unreadable [where fs=fs and p=local_file and to_float=to_float,
          OF assms False]
      by simp
  qed
next
  assume "card (set (List.map_filter id (diagnosis_label_cells records))) = 2"
  then show "load_wisconsin_breast_cancer_diagnosis to_float fs local_file
              \<noteq> Inl CategoriesValueError"
    using diagnosis_outcome [where fs=fs and p=local_file and f=to_float, OF assms]
    by (auto split: if_splits)
next
  assume "load_wisconsin_breast_cancer_diagnosis to_float fs local_file = Inr (X, y)"
  then have "length (categories_of (diagnosis_label_cells records)) = 2"
    and "y = diagnosis_y to_float records"
    using load_diagnosis_InrD [of to_float fs local_file X y] assms by auto
  then show "\<exists>c1 c2. c1 < c2
               \<and> categories_of (diagnosis_label_cells records) = [c1, c2]
               \<and> set (List.map_filter id (diagnosis_label_cells records)) = {c1, c2}
               \<and> get_labels (sr_values y)
                   = map (map_option (\<lambda>c. if c = c1 then ''benign'' else ''malignant''))
                       (diagnosis_label_cells records)"
    using labels_relabelled [of "diagnosis_label_cells records" "''benign''" "''malignant''"]
    by (simp only: diagnosis_y_labels)
next
  assume a: "card (set (List.map_filter id (prognosis_label_cells records))) \<noteq> 2"
  show "load_wisconsin_breast_cancer_prognosis to_float fs local_file
          = Inl (if readable 35 records then CategoriesValueError else ParserError)"
  proof (cases "readable 35 records")
    case True
    then show ?thesis
      using a load_prognosis_categories [where fs=fs and p=local_file and to_float=to_float,
          OF assms True]
      by (simp add: length_categories_of)
  next
    case False
    then show ?thesis
      using load_prognosis_unreadable [where fs=fs and p=local_file and to_float=to_float,
          OF assms False]
      by simp
  qed
next
  assume "card (set (List.map_filter id (prognosis_label_cells records))) = 2"
  then show "load_wisconsin_breast_cancer_prognosis to_float fs local_file
              \<noteq> Inl CategoriesValueError"
    using prognosis_outcome [where fs=fs and p=local_file and f=to_float, OF assms]
    by (auto split: if_splits)
next
  assume "load_wisconsin_breast_cancer_prognosis to_float fs local_file = Inr (X', y')"
  then have "length (categories_of (prognosis_label_cells records)) = 2"
    and "y' = prognosis_y to_float records"
    using load_prognosis_InrD [of to_float fs local_file X' y'] assms by auto
  then show "\<exists>c1 c2. c1 < c2
               \<and> categories_of (prognosis_label_cells records) = [c1, c2]
               \<and> set (List.map_filter id (prognosis_label_cells records)) = {c1, c2}
               \<and> frame_labels y' ''outcome''
                   = map (map_option (\<lambda>c. if c = c1 then ''nonrecurring'' else ''recurring''))
                       (prognosis_label_cells records)"
    using labels_relabelled [of "prognosis_label_cells records" "''nonrecurring''" "''recurring''"]
    by (simp only: prognosis_y_labels)
qed

theorem relabelling_is_positional_witness:
  "load_wisconsin_breast_cancer_diagnosis decimal
       (one_file default_diagnosis_file diagnosis_three_codes) default_diagnosis_file
     = (Inl CategoriesValueError :: error + string dataframe \<times> string series)
   \<and> (\<exists>X y. load_wisconsin_breast_cancer_diagnosis decimal
                (one_file default_diagnosis_file diagnosis_sample) default_diagnosis_file
              = Inr (X, y)
        \<and> get_labels (sr_values y)
            = [Some ''malignant'', Some ''benign'', Some ''benign'', Some ''malignant'',
               Some ''benign''])
   \<and> (\<exists>X y. load_wisconsin_breast_cancer_diagnosis decimal
                (one_file default_diagnosis_file diagnosis_indexed) default_diagnosis_file
              = Inr (X, y)
        \<and> get_labels (sr_values y) = [Some ''malignant'', Some ''benign''])
   \<and> (\<exists>X y. load_wisconsin_breast_cancer_prognosis decimal
                (one_file default_prognosis_file prognosis_sample) default_prognosis_file
              = Inr (X, y)
        \<and> frame_labels y ''outcome''
            = [Some ''nonrecurring'', Some ''recurring'', Some ''nonrecurring''])"
proof (intro conjI)
  have three: "one_file default_diagnosis_file diagnosis_three_codes default_diagnosis_file
                 = Some diagnosis_three_codes"
    by (simp add: one_file_def)
  have r: "readable 32 diagnosis_three_codes"
    by code_simp
  have "diagnosis_label_cells diagnosis_three_codes = [Some ''M'', Some ''B'', Some ''X'']"
    by code_simp
  then have c: "card (set (List.map_filter id (diagnosis_label_cells diagnosis_three_codes))) \<noteq> 2"
    by (simp add: List.map_filter_def)
  show "load_wisconsin_breast_cancer_diagnosis decimal
       (one_file default_diagnosis_file diagnosis_three_codes) default_diagnosis_file
     = (Inl CategoriesValueError :: error + string dataframe \<times> string series)"
    using relabelling_is_positional
        [where fs = "one_file default_diagnosis_file diagnosis_three_codes"
           and local_file = default_diagnosis_file and to_float = decimal, OF three] r c
    by simp
next
  let ?y = "diagnosis_y decimal diagnosis_sample"
  have d: "one_file default_diagnosis_file diagnosis_sample default_diagnosis_file
                 = Some diagnosis_sample"
    by (simp add: one_file_def)
  obtain c1 c2 where c: "categories_of (diagnosis_label_cells diagnosis_sample) = [c1, c2]"
    and l: "get_labels (sr_values ?y)
        = map (map_option (\<lambda>c. if c = c1 then ''benign'' else ''malignant''))
            (diagnosis_label_cells diagnosis_sample)"
    using relabelling_is_positional
        [where fs = "one_file default_diagnosis_file diagnosis_sample"
           and local_file = default_diagnosis_file and to_float = decimal
           and X = "diagnosis_X decimal diagnosis_sample" and y = ?y, OF d]
      diagnosis_sample_loads
    by blast
  have k: "categories_of (diagnosis_label_cells diagnosis_sample) = [''B'', ''M'']"
    "diagnosis_label_cells diagnosis_sample
       = [Some ''M'', Some ''B'', Some ''B'', Some ''M'', Some ''B'']"
    by code_simp+
  have cc: "c1 = ''B''"
    using c k(1) by simp
  have "get_labels (sr_values ?y)
            = [Some ''malignant'', Some ''benign'', Some ''benign'', Some ''malignant'',
               Some ''benign'']"
    unfolding l cc k(2) by simp
  then show "\<exists>X y. load_wisconsin_breast_cancer_diagnosis decimal
                (one_file default_diagnosis_file diagnosis_sample) default_diagnosis_file
              = Inr (X, y)
        \<and> get_labels (sr_values y)
            = [Some ''malignant'', Some ''benign'', Some ''benign'', Some ''malignant'',
               Some ''benign'']"
    using diagnosis_sample_loads by blast
next
  let ?y = "diagnosis_y decimal diagnosis_indexed"
  have d: "one_file default_diagnosis_file diagnosis_indexed default_diagnosis_file
                 = Some diagnosis_indexed"
    by (simp add: one_file_def)
  obtain c1 c2 where c: "categories_of (diagnosis_label_cells diagnosis_indexed) = [c1, c2]"
    and l: "get_labels (sr_values ?y)
        = map (map_option (\<lambda>c. if c = c1 then ''benign'' else ''malignant''))
            (diagnosis_label_cells diagnosis_indexed)"
    using relabelling_is_positional
        [where fs = "one_file default_diagnosis_file diagnosis_indexed"
           and local_file = default_diagnosis_file and to_float = decimal
           and X = "diagnosis_X decimal diagnosis_indexed" and y = ?y, OF d]
      diagnosis_indexed_loads
    by blast
  have k: "categories_of (diagnosis_label_cells diagnosis_indexed) = [''B'', ''M'']"
    "diagnosis_label_cells diagnosis_indexed
       = [Some ''M'', Some ''B'']"
    by code_simp+
  have cc: "c1 = ''B''"
    using c k(1) by simp
  have "get_labels (sr_values ?y) = [Some ''malignant'', Some ''benign'']"
    unfolding l cc k(2) by simp
  then show "\<exists>X y. load_wisconsin_breast_cancer_diagnosis decimal
                (one_file default_diagnosis_file diagnosis_indexed) default_diagnosis_file
              = Inr (X, y)
        \<and> get_labels (sr_values y) = [Some ''malignant'', Some ''benign'']"
    using diagnosis_indexed_loads by blast
next
  let ?y = "prognosis_y decimal prognosis_sample"
  have p: "one_file default_prognosis_file prognosis_sample default_prognosis_file
                 = Some prognosis_sample"
    by (simp add: one_file_def)
  obtain c1 c2 where c: "categories_of (prognosis_label_cells prognosis_sample) = [c1, c2]"
    and l: "frame_labels ?y ''outcome''
        = map (map_option (\<lambda>c. if c = c1 then ''nonrecurring'' else ''recurring''))
            (prognosis_label_cells prognosis_sample)"
    using relabelling_is_positional
        [where fs = "one_file default_prognosis_file prognosis_sample"
           and local_file = default_prognosis_file and to_float = decimal
           and X' = "prognosis_X decimal prognosis_sample" and y' = ?y, OF p]
      prognosis_sample_loads
    by blast
  have k: "categories_of (prognosis_label_cells prognosis_sample) = [''N'', ''R'']"
    "prognosis_label_cells prognosis_sample
       = [Some ''N'', Some ''R'', Some ''N'']"
    by code_simp+
  have cc: "c1 = ''N''"
    using c k(1) by simp
  have "frame_labels ?y ''outcome''
            = [Some ''nonrecurring'', Some ''recurring'', Some ''nonrecurring'']"
    unfolding l cc k(2) by simp
  then show "\<exists>X y. load_wisconsin_breast_cancer_prognosis decimal
                (one_file default_prognosis_file prognosis_sample) default_prognosis_file
              = Inr (X, y)
        \<and> frame_labels y ''outcome''
            = [Some ''nonrecurring'', Some ''recurring'', Some ''nonrecurring'']"
    using prognosis_sample_loads by blast
qed

text \<open>
  C3 as stated fails on a prognosis file whose outcome column holds \<^verbatim>\<open>N\<close>, \<^verbatim>\<open>R\<close> and \<^verbatim>\<open>?\<close>:
  the third value is read as missing, two categories remain, and the load returns, with
  a missing label for the third record.
\<close>

theorem missing_outcome_counterexample:
  "load_wisconsin_breast_cancer_prognosis decimal
       (one_file default_prognosis_file prognosis_unknown_outcome) default_prognosis_file
     = Inr (prognosis_X decimal prognosis_unknown_outcome,
            prognosis_y decimal prognosis_unknown_outcome)
   \<and> file_column [] prognosis_unknown_outcome 1 = [Some ''N'', Some ''R'', Some ''?'']
   \<and> frame_labels (prognosis_y decimal prognosis_unknown_outcome) ''outcome''
       = [Some ''nonrecurring'', Some ''recurring'', None]"
  by code_simp

text \<open>
  C4, as the code has it. The diagnosis loader passes no missing-value token of its own,
  so (where \<^verbatim>\<open>float('?')\<close> raises) a \<^verbatim>\<open>?\<close> in a field that the loader converts to a number
  (any field but the first and the label field) makes the load fail: in the parser when
  the parser does not read the file, in the relabelling when the label column does not
  hold exactly two codes, and with the type-coercion error otherwise. The prognosis loader
  passes \<^verbatim>\<open>?\<close> as a missing-value token for the whole file, not for \<^verbatim>\<open>lymph_node_status\<close>
  alone: a file loads exactly as it does with every \<^verbatim>\<open>?\<close> field emptied, and whenever the
  load returns, a \<^verbatim>\<open>?\<close> in a feature field of a record is the missing marker in that cell
  of the features table, and a \<^verbatim>\<open>?\<close> in the time field is the missing marker in the
  \<^verbatim>\<open>time\<close> column of the labels table. (With \<open>l\<close> leading fields, 0 or 1, the time field is
  field \<open>2 + l\<close> and the feature fields are the fields from \<open>3 + l\<close> on; field \<open>k\<close> of these
  is column \<open>k - 3\<close> of the features table.)
\<close>

theorem question_mark_is_missing_not_an_error:
  assumes "fs local_file = Some records"
  shows "(to_float ''?'' = None \<and> r \<in> set records \<and> 0 < j
            \<and> j \<noteq> 1 + leading_fields 32 records \<and> j < length r \<and> r ! j = ''?'' \<longrightarrow>
          (if readable 32 records
           then if card (set (List.map_filter id (diagnosis_label_cells records))) = 2
                then \<exists>s. load_wisconsin_breast_cancer_diagnosis to_float fs local_file
                           = Inl (FloatValueError s)
                else load_wisconsin_breast_cancer_diagnosis to_float fs local_file
                       = Inl CategoriesValueError
           else load_wisconsin_breast_cancer_diagnosis to_float fs local_file
                  = Inl ParserError))
       \<and> (load_wisconsin_breast_cancer_prognosis to_float fs local_file = Inr (X, y)
            \<and> i < length records \<and> k < length (records ! i) \<and> records ! i ! k = ''?''
            \<and> 3 + leading_fields 35 records \<le> k \<longrightarrow>
          fst (df_columns X ! (k - 3)) = prognosis_features ! (k - 3 - leading_fields 35 records)
          \<and> column_isna (snd (df_columns X ! (k - 3))) ! i)
       \<and> (load_wisconsin_breast_cancer_prognosis to_float fs local_file = Inr (X, y)
            \<and> i < length records \<and> k < length (records ! i) \<and> records ! i ! k = ''?''
            \<and> k = 2 + leading_fields 35 records \<longrightarrow>
          fst (df_columns y ! 1) = ''time'' \<and> column_isna (snd (df_columns y ! 1)) ! i)
       \<and> load_wisconsin_breast_cancer_prognosis to_float fs local_file
           = load_wisconsin_breast_cancer_prognosis to_float
               (fs(local_file \<mapsto> blank_question_marks records)) local_file"
proof -
  have p1: "to_float ''?'' = None \<and> r \<in> set records \<and> 0 < j
            \<and> j \<noteq> 1 + leading_fields 32 records \<and> j < length r \<and> r ! j = ''?'' \<longrightarrow>
          (if readable 32 records
           then if card (set (List.map_filter id (diagnosis_label_cells records))) = 2
                then \<exists>s. load_wisconsin_breast_cancer_diagnosis to_float fs local_file
                           = Inl (FloatValueError s)
                else load_wisconsin_breast_cancer_diagnosis to_float fs local_file
                       = Inl CategoriesValueError
           else load_wisconsin_breast_cancer_diagnosis to_float fs local_file
                  = Inl ParserError)"
  proof (intro impI)
    assume a: "to_float ''?'' = None \<and> r \<in> set records \<and> 0 < j
              \<and> j \<noteq> 1 + leading_fields 32 records \<and> j < length r \<and> r ! j = ''?''"
    show "if readable 32 records
             then if card (set (List.map_filter id (diagnosis_label_cells records))) = 2
                  then \<exists>s. load_wisconsin_breast_cancer_diagnosis to_float fs local_file
                             = Inl (FloatValueError s)
                  else load_wisconsin_breast_cancer_diagnosis to_float fs local_file
                         = Inl CategoriesValueError
             else load_wisconsin_breast_cancer_diagnosis to_float fs local_file
                    = Inl ParserError"
    proof (cases "readable 32 records")
      case False
      then show ?thesis
        using load_diagnosis_unreadable [where fs=fs and p=local_file and to_float=to_float,
            OF assms False]
        by simp
    next
      case True
      have bad: "\<not> all_convertible to_float (diagnosis_cells records)"
        by (rule diagnosis_question_mark_cells [where r=r and j=j]) (use a True in simp_all)
      show ?thesis
      proof (cases "card (set (List.map_filter id (diagnosis_label_cells records))) = 2")
        case c: True
        then have "length (categories_of (diagnosis_label_cells records)) = 2"
          by (simp add: length_categories_of)
        then show ?thesis
          using load_diagnosis_float [where fs=fs and p=local_file and to_float=to_float,
              OF assms True _ bad] True c
          by simp
      next
        case c: False
        then have "length (categories_of (diagnosis_label_cells records)) \<noteq> 2"
          by (simp add: length_categories_of)
        then show ?thesis
          using load_diagnosis_categories [where fs=fs and p=local_file and to_float=to_float,
              OF assms True] True c
          by simp
      qed
    qed
  qed
  have p2: "load_wisconsin_breast_cancer_prognosis to_float fs local_file = Inr (X, y)
            \<and> i < length records \<and> k < length (records ! i) \<and> records ! i ! k = ''?''
            \<and> 3 + leading_fields 35 records \<le> k \<longrightarrow>
          fst (df_columns X ! (k - 3)) = prognosis_features ! (k - 3 - leading_fields 35 records)
          \<and> column_isna (snd (df_columns X ! (k - 3))) ! i"
  proof (intro impI)
    assume a: "load_wisconsin_breast_cancer_prognosis to_float fs local_file = Inr (X, y)
              \<and> i < length records \<and> k < length (records ! i) \<and> records ! i ! k = ''?''
              \<and> 3 + leading_fields 35 records \<le> k"
    then have X: "X = prognosis_X to_float records" and w: "readable 35 records"
      using load_prognosis_InrD [of to_float fs local_file X y] assms by auto
    have "length (records ! i) \<le> 35 + leading_fields 35 records"
      by (rule readable_width [OF w]) (use a in simp)
    then have k: "k < 35 + leading_fields 35 records" using a by simp
    note n = prognosis_cells_nth [OF w _ k]
    have "parse_field prognosis_na_values (records ! i) k = None"
      using a question_mark_is_na by (simp add: parse_field_def)
    then have "file_column prognosis_na_values records k ! i = None"
      using a by (simp add: file_column_def)
    then have "convert_cells to_float (file_column prognosis_na_values records k) ! i = None"
      using a by (simp add: missing_cell_converted)
    then show "fst (df_columns X ! (k - 3))
             = prognosis_features ! (k - 3 - leading_fields 35 records)
            \<and> column_isna (snd (df_columns X ! (k - 3))) ! i"
      using a n by (simp add: X prognosis_X_def float_columns_nth)
  qed
  have p3: "load_wisconsin_breast_cancer_prognosis to_float fs local_file = Inr (X, y)
            \<and> i < length records \<and> k < length (records ! i) \<and> records ! i ! k = ''?''
            \<and> k = 2 + leading_fields 35 records \<longrightarrow>
          fst (df_columns y ! 1) = ''time'' \<and> column_isna (snd (df_columns y ! 1)) ! i"
  proof (intro impI)
    assume a: "load_wisconsin_breast_cancer_prognosis to_float fs local_file = Inr (X, y)
              \<and> i < length records \<and> k < length (records ! i) \<and> records ! i ! k = ''?''
              \<and> k = 2 + leading_fields 35 records"
    then have y: "y = prognosis_y to_float records"
      using load_prognosis_InrD [of to_float fs local_file X y] assms by auto
    from a have q: "k < length (records ! i)" "records ! i ! k = ''?''"
      and t: "2 + leading_fields 35 records = k"
      by auto
    have "parse_field prognosis_na_values (records ! i) k = None"
      using q question_mark_is_na by (simp add: parse_field_def)
    then have "prognosis_time_cells records ! i = None"
      unfolding prognosis_time_cells_def t using a by (simp add: file_column_def)
    then have "column_isna (infer_column to_float (prognosis_time_cells records)) ! i"
      using a by (simp add: missing_cell_inferred prognosis_time_cells_def)
    then show "fst (df_columns y ! 1) = ''time'' \<and> column_isna (snd (df_columns y ! 1)) ! i"
      by (simp add: y prognosis_y_def)
  qed
  have p4: "load_wisconsin_breast_cancer_prognosis to_float fs local_file
           = load_wisconsin_breast_cancer_prognosis to_float
               (fs(local_file \<mapsto> blank_question_marks records)) local_file"
    unfolding load_wisconsin_breast_cancer_prognosis_def Let_def
    by (simp only: blank_question_marks_read
        [where fs=fs and p=local_file and records=records, OF assms, symmetric])
  show ?thesis
    using p1 p2 p3 p4 by (intro conjI)
qed

theorem question_mark_is_missing_not_an_error_witness:
  "load_wisconsin_breast_cancer_diagnosis decimal
       (one_file default_diagnosis_file diagnosis_question_mark) default_diagnosis_file
     = (Inl (FloatValueError ''?'') :: error + string dataframe \<times> string series)
   \<and> (\<exists>X y. load_wisconsin_breast_cancer_prognosis decimal
                (one_file default_prognosis_file prognosis_missing_elsewhere)
                default_prognosis_file
              = Inr (X, y)
        \<and> fst (df_columns X ! 30) = ''tumor_size'' \<and> column_isna (snd (df_columns X ! 30)) ! 0
        \<and> fst (df_columns X ! 0) = ''mean_radius'' \<and> column_isna (snd (df_columns X ! 0)) ! 1
        \<and> fst (df_columns y ! 1) = ''time'' \<and> column_isna (snd (df_columns y ! 1)) ! 1)
   \<and> (\<exists>X y. load_wisconsin_breast_cancer_prognosis decimal
                (one_file default_prognosis_file prognosis_indexed) default_prognosis_file
              = Inr (X, y)
        \<and> fst (df_columns X ! 32) = ''lymph_node_status''
        \<and> column_isna (snd (df_columns X ! 32)) ! 1
        \<and> fst (df_columns y ! 1) = ''time'' \<and> column_isna (snd (df_columns y ! 1)) ! 1)
   \<and> load_wisconsin_breast_cancer_prognosis decimal
         (one_file default_prognosis_file prognosis_missing_elsewhere) default_prognosis_file
       = load_wisconsin_breast_cancer_prognosis decimal
           (one_file default_prognosis_file (blank_question_marks prognosis_missing_elsewhere))
           default_prognosis_file"
proof (intro conjI)
  have d: "one_file default_diagnosis_file diagnosis_question_mark default_diagnosis_file
             = Some diagnosis_question_mark"
    by (simp add: one_file_def)
  have hd: "decimal ''?'' = None"
    "diagnosis_question_mark ! 1 \<in> set diagnosis_question_mark"
    "(3 :: nat) \<noteq> 1 + leading_fields 32 diagnosis_question_mark"
    "(3 :: nat) < length (diagnosis_question_mark ! 1)"
    "diagnosis_question_mark ! 1 ! 3 = ''?''"
    "readable 32 diagnosis_question_mark"
    by code_simp+
  have "diagnosis_label_cells diagnosis_question_mark = [Some ''M'', Some ''B'']"
    by code_simp
  then have c: "card (set (List.map_filter id (diagnosis_label_cells diagnosis_question_mark))) = 2"
    by (simp add: List.map_filter_def)
  obtain s where "load_wisconsin_breast_cancer_diagnosis decimal
       (one_file default_diagnosis_file diagnosis_question_mark) default_diagnosis_file
     = (Inl (FloatValueError s) :: error + string dataframe \<times> string series)"
    using question_mark_is_missing_not_an_error
        [where fs = "one_file default_diagnosis_file diagnosis_question_mark"
           and local_file = default_diagnosis_file and to_float = decimal
           and r = "diagnosis_question_mark ! 1" and j = 3, OF d, THEN conjunct1] hd c
    by auto
  moreover have "load_wisconsin_breast_cancer_diagnosis decimal
       (one_file default_diagnosis_file diagnosis_question_mark) default_diagnosis_file
     = (Inl (FloatValueError ''?'') :: error + string dataframe \<times> string series)"
    by code_simp
  ultimately show "load_wisconsin_breast_cancer_diagnosis decimal
       (one_file default_diagnosis_file diagnosis_question_mark) default_diagnosis_file
     = (Inl (FloatValueError ''?'') :: error + string dataframe \<times> string series)"
    by simp
next
  let ?f = "one_file default_prognosis_file prognosis_missing_elsewhere"
  let ?X = "prognosis_X decimal prognosis_missing_elsewhere"
  let ?y = "prognosis_y decimal prognosis_missing_elsewhere"
  have q: "?f default_prognosis_file = Some prognosis_missing_elsewhere"
    by (simp add: one_file_def)
  have l: "load_wisconsin_breast_cancer_prognosis decimal ?f default_prognosis_file
             = Inr (?X, ?y)"
    by code_simp
  have h: "leading_fields 35 prognosis_missing_elsewhere = 0"
    "length prognosis_missing_elsewhere = 2"
    "length (prognosis_missing_elsewhere ! 0) = 35"
    "length (prognosis_missing_elsewhere ! 1) = 35"
    "prognosis_missing_elsewhere ! 0 ! 33 = ''?''"
    "prognosis_missing_elsewhere ! 1 ! 3 = ''?''"
    "prognosis_missing_elsewhere ! 1 ! 2 = ''?''"
    "prognosis_features ! 30 = ''tumor_size''" "prognosis_features ! 0 = ''mean_radius''"
    by code_simp+
  have "fst (df_columns ?X ! 30) = ''tumor_size'' \<and> column_isna (snd (df_columns ?X ! 30)) ! 0"
    using question_mark_is_missing_not_an_error
        [where fs = ?f and local_file = default_prognosis_file and to_float = decimal
           and X = ?X and y = ?y and i = 0 and k = 33, OF q] l h
    by simp
  moreover
  have "fst (df_columns ?X ! 0) = ''mean_radius'' \<and> column_isna (snd (df_columns ?X ! 0)) ! 1"
    using question_mark_is_missing_not_an_error
        [where fs = ?f and local_file = default_prognosis_file and to_float = decimal
           and X = ?X and y = ?y and i = 1 and k = 3, OF q] l h
    by simp
  moreover
  have "fst (df_columns ?y ! 1) = ''time'' \<and> column_isna (snd (df_columns ?y ! 1)) ! 1"
    using question_mark_is_missing_not_an_error
        [where fs = ?f and local_file = default_prognosis_file and to_float = decimal
           and X = ?X and y = ?y and i = 1 and k = 2, OF q] l h
    by simp
  ultimately show "\<exists>X y. load_wisconsin_breast_cancer_prognosis decimal ?f default_prognosis_file
              = Inr (X, y)
        \<and> fst (df_columns X ! 30) = ''tumor_size'' \<and> column_isna (snd (df_columns X ! 30)) ! 0
        \<and> fst (df_columns X ! 0) = ''mean_radius'' \<and> column_isna (snd (df_columns X ! 0)) ! 1
        \<and> fst (df_columns y ! 1) = ''time'' \<and> column_isna (snd (df_columns y ! 1)) ! 1"
    using l by blast
next
  let ?f = "one_file default_prognosis_file prognosis_indexed"
  let ?X = "prognosis_X decimal prognosis_indexed"
  let ?y = "prognosis_y decimal prognosis_indexed"
  have q: "?f default_prognosis_file = Some prognosis_indexed"
    by (simp add: one_file_def)
  have l: "load_wisconsin_breast_cancer_prognosis decimal ?f default_prognosis_file
             = Inr (?X, ?y)"
    by code_simp
  have h: "leading_fields 35 prognosis_indexed = 1"
    "length prognosis_indexed = 2"
    "length (prognosis_indexed ! 1) = 36"
    "prognosis_indexed ! 1 ! 35 = ''?''"
    "prognosis_indexed ! 1 ! 3 = ''?''"
    "prognosis_features ! 31 = ''lymph_node_status''"
    by code_simp+
  have "fst (df_columns ?X ! 32) = ''lymph_node_status''
      \<and> column_isna (snd (df_columns ?X ! 32)) ! 1"
    using question_mark_is_missing_not_an_error
        [where fs = ?f and local_file = default_prognosis_file and to_float = decimal
           and X = ?X and y = ?y and i = 1 and k = 35, OF q] l h
    by simp
  moreover
  have "fst (df_columns ?y ! 1) = ''time'' \<and> column_isna (snd (df_columns ?y ! 1)) ! 1"
    using question_mark_is_missing_not_an_error
        [where fs = ?f and local_file = default_prognosis_file and to_float = decimal
           and X = ?X and y = ?y and i = 1 and k = 3, OF q] l h
    by simp
  ultimately show "\<exists>X y. load_wisconsin_breast_cancer_prognosis decimal ?f default_prognosis_file
              = Inr (X, y)
        \<and> fst (df_columns X ! 32) = ''lymph_node_status''
        \<and> column_isna (snd (df_columns X ! 32)) ! 1
        \<and> fst (df_columns y ! 1) = ''time'' \<and> column_isna (snd (df_columns y ! 1)) ! 1"
    using l by blast
next
  let ?f = "one_file default_prognosis_file prognosis_missing_elsewhere"
  have q: "?f default_prognosis_file = Some prognosis_missing_elsewhere"
    by (simp add: one_file_def)
  have "?f(default_prognosis_file \<mapsto> blank_question_marks prognosis_missing_elsewhere)
          = one_file default_prognosis_file (blank_question_marks prognosis_missing_elsewhere)"
    by (simp add: one_file_def fun_eq_iff)
  then show "load_wisconsin_breast_cancer_prognosis decimal ?f default_prognosis_file
       = load_wisconsin_breast_cancer_prognosis decimal
           (one_file default_prognosis_file (blank_question_marks prognosis_missing_elsewhere))
           default_prognosis_file"
    using question_mark_is_missing_not_an_error
        [where fs = ?f and local_file = default_prognosis_file and to_float = decimal, OF q,
          THEN conjunct2, THEN conjunct2, THEN conjunct2]
    by simp
qed

text \<open>
  C4 as stated fails on a diagnosis file of one record with \<^verbatim>\<open>?\<close> in a feature field: the
  load fails in the relabelling, not with the type-coercion error; and on a diagnosis file
  whose second record has \<^verbatim>\<open>?\<close> in a feature field and a field more than the first: the
  load fails in the parser. It fails on a prognosis file with \<^verbatim>\<open>?\<close> as the \<^verbatim>\<open>tumor_size\<close>
  of its first record (field 33) and as the \<^verbatim>\<open>mean_radius\<close> of its second (field 3): the
  load returns, with missing markers in these two cells.
\<close>

theorem question_mark_outside_lymph_node_status_counterexample:
  "load_wisconsin_breast_cancer_diagnosis decimal
       (one_file default_diagnosis_file [''842302'' # ''M'' # ''?'' # replicate 29 ''17.99''])
       default_diagnosis_file
     = (Inl CategoriesValueError :: error + string dataframe \<times> string series)
   \<and> load_wisconsin_breast_cancer_diagnosis decimal
       (one_file default_diagnosis_file
          [''842302'' # ''M'' # replicate 30 ''17.99'',
           ''8510426'' # ''B'' # ''?'' # replicate 30 ''13.54''])
       default_diagnosis_file
     = (Inl ParserError :: error + string dataframe \<times> string series)
   \<and> file_column [] prognosis_missing_elsewhere 33 = [Some ''?'', Some ''3'']
   \<and> file_column [] prognosis_missing_elsewhere 3 = [Some ''18.02'', Some ''?'']
   \<and> load_wisconsin_breast_cancer_prognosis decimal
       (one_file default_prognosis_file prognosis_missing_elsewhere) default_prognosis_file
     = Inr (prognosis_X decimal prognosis_missing_elsewhere,
            prognosis_y decimal prognosis_missing_elsewhere)
   \<and> df_columns (prognosis_X decimal prognosis_missing_elsewhere) ! 30
       = (''tumor_size'', Float64 [None, Some ''3''])
   \<and> df_columns (prognosis_X decimal prognosis_missing_elsewhere) ! 0
       = (''mean_radius'', Float64 [Some ''18.02'', None])"
  by code_simp

text \<open>
  C6, as the code has it. Whenever a loader returns, the features table and the labels
  output have the very same row index, with one entry for every record of the file, in
  the order of the file, and every features column and every labels column has as many
  rows. The entry of a record is not the text of its identifier but what the parser reads
  in it, the identifiers being read like any column: the entry is missing when the
  identifier is a missing-value token (or the record is empty); the other entries are
  numbers when every identifier is a number, truth values when every identifier is a token
  for true or false, and the texts of the identifiers otherwise. (The identifiers are the
  first field of the records.)
\<close>

theorem identifiers_round_trip:
  "(fs local_file = Some records
      \<and> load_wisconsin_breast_cancer_diagnosis to_float fs local_file = Inr (X, y) \<longrightarrow>
        sr_index y = df_index X
      \<and> df_index X =
          (let ids = map (\<lambda>r. parse_field default_na_values r 0) records
           in if cells_ok to_float ids
              then map (\<lambda>c. map_option Number (Option.bind c to_float)) ids
              else if bool_cells ids
              then map (map_option (\<lambda>s. Boolean (s \<in> set true_values))) ids
              else map (map_option Text) ids)
      \<and> map (\<lambda>e. e = None) (df_index X)
          = map (\<lambda>r. parse_field default_na_values r 0 = None) records
      \<and> length (df_index X) = length records
      \<and> list_all (\<lambda>(n, c). column_length c = length records) (df_columns X)
      \<and> column_length (sr_values y) = length records)
   \<and> (fs' local_file' = Some records'
      \<and> load_wisconsin_breast_cancer_prognosis to_float fs' local_file' = Inr (X', y') \<longrightarrow>
        df_index y' = df_index X'
      \<and> df_index X' =
          (let ids = map (\<lambda>r. parse_field prognosis_na_values r 0) records'
           in if cells_ok to_float ids
              then map (\<lambda>c. map_option Number (Option.bind c to_float)) ids
              else if bool_cells ids
              then map (map_option (\<lambda>s. Boolean (s \<in> set true_values))) ids
              else map (map_option Text) ids)
      \<and> map (\<lambda>e. e = None) (df_index X')
          = map (\<lambda>r. parse_field prognosis_na_values r 0 = None) records'
      \<and> length (df_index X') = length records'
      \<and> list_all (\<lambda>(n, c). column_length c = length records') (df_columns X')
      \<and> list_all (\<lambda>(n, c). column_length c = length records') (df_columns y'))"
proof -
  have d: "sr_index y = df_index X
      \<and> df_index X =
          (let ids = map (\<lambda>r. parse_field default_na_values r 0) records
           in if cells_ok to_float ids
              then map (\<lambda>c. map_option Number (Option.bind c to_float)) ids
              else if bool_cells ids
              then map (map_option (\<lambda>s. Boolean (s \<in> set true_values))) ids
              else map (map_option Text) ids)
      \<and> map (\<lambda>e. e = None) (df_index X)
          = map (\<lambda>r. parse_field default_na_values r 0 = None) records
      \<and> length (df_index X) = length records
      \<and> list_all (\<lambda>(n, c). column_length c = length records) (df_columns X)
      \<and> column_length (sr_values y) = length records"
    if a: "fs local_file = Some records
      \<and> load_wisconsin_breast_cancer_diagnosis to_float fs local_file = Inr (X, y)"
  proof -
    from a have X: "X = diagnosis_X to_float records" and y: "y = diagnosis_y to_float records"
      using load_diagnosis_InrD [of to_float fs local_file X y] by auto
    have "sr_index y = df_index X"
      by (simp add: X y diagnosis_X_def diagnosis_y_def)
    moreover have "df_index X = read_index to_float default_na_values records"
      by (simp add: X diagnosis_X_def)
    moreover have "list_all (\<lambda>(n, c). column_length c = length records) (df_columns X)"
      by (simp add: X diagnosis_X_def float_columns_lengths diagnosis_cells_lengths)
    moreover have "column_length (sr_values y) = length records"
      by (simp add: y diagnosis_y_def)
    ultimately show ?thesis
      by (simp only: read_index_entries [symmetric] read_index_missing length_read_index simp_thms)
  qed
  have p: "df_index y' = df_index X'
      \<and> df_index X' =
          (let ids = map (\<lambda>r. parse_field prognosis_na_values r 0) records'
           in if cells_ok to_float ids
              then map (\<lambda>c. map_option Number (Option.bind c to_float)) ids
              else if bool_cells ids
              then map (map_option (\<lambda>s. Boolean (s \<in> set true_values))) ids
              else map (map_option Text) ids)
      \<and> map (\<lambda>e. e = None) (df_index X')
          = map (\<lambda>r. parse_field prognosis_na_values r 0 = None) records'
      \<and> length (df_index X') = length records'
      \<and> list_all (\<lambda>(n, c). column_length c = length records') (df_columns X')
      \<and> list_all (\<lambda>(n, c). column_length c = length records') (df_columns y')"
    if a: "fs' local_file' = Some records'
      \<and> load_wisconsin_breast_cancer_prognosis to_float fs' local_file' = Inr (X', y')"
  proof -
    from a have X: "X' = prognosis_X to_float records'" and y: "y' = prognosis_y to_float records'"
      using load_prognosis_InrD [of to_float fs' local_file' X' y'] by auto
    have "df_index y' = df_index X'"
      by (simp add: X y prognosis_X_def prognosis_y_def)
    moreover have "df_index X' = read_index to_float prognosis_na_values records'"
      by (simp add: X prognosis_X_def)
    moreover have "list_all (\<lambda>(n, c). column_length c = length records') (df_columns X')"
      by (simp add: X prognosis_X_def float_columns_lengths prognosis_cells_lengths)
    moreover have "list_all (\<lambda>(n, c). column_length c = length records') (df_columns y')"
      by (simp add: y prognosis_y_def prognosis_time_cells_def)
    ultimately show ?thesis
      by (simp only: read_index_entries [symmetric] read_index_missing length_read_index simp_thms)
  qed
  show ?thesis using d p by blast
qed

theorem identifiers_round_trip_witness:
  "(\<exists>X y. load_wisconsin_breast_cancer_diagnosis decimal
             (one_file default_diagnosis_file diagnosis_sample) default_diagnosis_file
           = Inr (X, y)
      \<and> df_index X = [Some (Number ''842302''), Some (Number ''8510426''),
            Some (Number ''8510653''), Some (Number ''842517''), Some (Number ''8510824'')]
      \<and> sr_index y = [Some (Number ''842302''), Some (Number ''8510426''),
            Some (Number ''8510653''), Some (Number ''842517''), Some (Number ''8510824'')]
      \<and> list_all (\<lambda>(n, c). column_length c = 5) (df_columns X)
      \<and> column_length (sr_values y) = 5)
   \<and> (\<exists>X y. load_wisconsin_breast_cancer_prognosis decimal
             (one_file default_prognosis_file prognosis_sample) default_prognosis_file
           = Inr (X, y)
      \<and> df_index X = [Some (Number ''119513''), Some (Number ''8423''), Some (Number ''842517'')]
      \<and> df_index y = [Some (Number ''119513''), Some (Number ''8423''), Some (Number ''842517'')]
      \<and> list_all (\<lambda>(n, c). column_length c = 3) (df_columns X)
      \<and> list_all (\<lambda>(n, c). column_length c = 3) (df_columns y))"
proof -
  have d: "one_file default_diagnosis_file diagnosis_sample default_diagnosis_file
             = Some diagnosis_sample"
    and p: "one_file default_prognosis_file prognosis_sample default_prognosis_file
             = Some prognosis_sample"
    by (simp_all add: one_file_def)
  have ids: "(let ids = map (\<lambda>r. parse_field default_na_values r 0) diagnosis_sample
           in if cells_ok decimal ids
              then map (\<lambda>c. map_option Number (Option.bind c decimal)) ids
              else if bool_cells ids
              then map (map_option (\<lambda>s. Boolean (s \<in> set true_values))) ids
              else map (map_option Text) ids)
       = [Some (Number ''842302''), Some (Number ''8510426''),
            Some (Number ''8510653''), Some (Number ''842517''), Some (Number ''8510824'')]"
    "(let ids = map (\<lambda>r. parse_field prognosis_na_values r 0) prognosis_sample
           in if cells_ok decimal ids
              then map (\<lambda>c. map_option Number (Option.bind c decimal)) ids
              else if bool_cells ids
              then map (map_option (\<lambda>s. Boolean (s \<in> set true_values))) ids
              else map (map_option Text) ids)
       = [Some (Number ''119513''), Some (Number ''8423''), Some (Number ''842517'')]"
    "length diagnosis_sample = 5" "length prognosis_sample = 3"
    by code_simp+
  note t = identifiers_round_trip
      [of "one_file default_diagnosis_file diagnosis_sample" default_diagnosis_file
          diagnosis_sample decimal "diagnosis_X decimal diagnosis_sample"
          "diagnosis_y decimal diagnosis_sample"
          "one_file default_prognosis_file prognosis_sample" default_prognosis_file
          prognosis_sample "prognosis_X decimal prognosis_sample"
          "prognosis_y decimal prognosis_sample"]
  have "df_index (diagnosis_X decimal diagnosis_sample)
          = [Some (Number ''842302''), Some (Number ''8510426''),
            Some (Number ''8510653''), Some (Number ''842517''), Some (Number ''8510824'')]
      \<and> sr_index (diagnosis_y decimal diagnosis_sample)
          = [Some (Number ''842302''), Some (Number ''8510426''),
            Some (Number ''8510653''), Some (Number ''842517''), Some (Number ''8510824'')]
      \<and> list_all (\<lambda>(n, c). column_length c = 5) (df_columns (diagnosis_X decimal diagnosis_sample))
      \<and> column_length (sr_values (diagnosis_y decimal diagnosis_sample)) = 5"
    using t d diagnosis_sample_loads ids(1,3) by simp
  moreover have "df_index (prognosis_X decimal prognosis_sample)
          = [Some (Number ''119513''), Some (Number ''8423''), Some (Number ''842517'')]
      \<and> df_index (prognosis_y decimal prognosis_sample)
          = [Some (Number ''119513''), Some (Number ''8423''), Some (Number ''842517'')]
      \<and> list_all (\<lambda>(n, c). column_length c = 3) (df_columns (prognosis_X decimal prognosis_sample))
      \<and> list_all (\<lambda>(n, c). column_length c = 3) (df_columns (prognosis_y decimal prognosis_sample))"
    using t p prognosis_sample_loads ids(2,4) by simp
  ultimately show ?thesis
    using diagnosis_sample_loads prognosis_sample_loads by blast
qed

text \<open>
  C6 as stated fails on a diagnosis file whose identifiers are \<^verbatim>\<open>NA\<close>, \<^verbatim>\<open>NULL\<close> and the
  empty field: the file loads, and the row index of both outputs is three missing
  entries, not the identifier column. It fails too, where the reader of numbers gives the
  number, on the identifiers \<^verbatim>\<open>007\<close> and \<^verbatim>\<open>7\<close>: both index entries are the number 7.
\<close>

theorem missing_identifiers_counterexample:
  "map hd diagnosis_missing_ids = [''NA'', ''NULL'', '''']
   \<and> load_wisconsin_breast_cancer_diagnosis decimal
        (one_file default_diagnosis_file diagnosis_missing_ids) default_diagnosis_file
       = Inr (diagnosis_X decimal diagnosis_missing_ids,
              diagnosis_y decimal diagnosis_missing_ids)
   \<and> df_index (diagnosis_X decimal diagnosis_missing_ids) = [None, None, None]
   \<and> sr_index (diagnosis_y decimal diagnosis_missing_ids) = [None, None, None]
   \<and> map hd diagnosis_zero_ids = [''007'', ''7'']
   \<and> load_wisconsin_breast_cancer_diagnosis natural
        (one_file default_diagnosis_file diagnosis_zero_ids) default_diagnosis_file
       = Inr (diagnosis_X natural diagnosis_zero_ids, diagnosis_y natural diagnosis_zero_ids)
   \<and> df_index (diagnosis_X natural diagnosis_zero_ids) = [Some (Number 7), Some (Number 7)]
   \<and> sr_index (diagnosis_y natural diagnosis_zero_ids) = [Some (Number 7), Some (Number 7)]"
  by code_simp

text \<open>
  C7, as the code has it. What a load gives is decided in this order. The path names no
  file: the file-not-found error. The parser does not read the file: the parse error;
  that is when a record has more fields than the first record and the schema allow, or
  when the records carry two or more fields beyond the schema. The label column does not
  hold exactly two codes: the error of the relabelling. Some column of the features table
  is neither made of numbers and missing cells nor of tokens for true and false and
  missing cells: the type-coercion error. Otherwise both tables are returned. A record
  with fewer fields than the schema is no error: the file loads as it does with these
  records padded with empty fields, which are read as missing markers. A file whose
  records all carry one field more than the schema is no error either: that field is the
  row index, and the column named \<^verbatim>\<open>ID\<close> is a column of the features table. A load returns
  an error or both tables whole: every features column converted to numbers (a column of
  truth values to 1 and 0), and labels for every row, all as long as the file.
\<close>

theorem load_fails_or_returns_whole_tables:
  "(fs local_file = None \<longrightarrow>
      load_wisconsin_breast_cancer_diagnosis to_float fs local_file = Inl FileNotFoundError
      \<and> load_wisconsin_breast_cancer_prognosis to_float fs local_file = Inl FileNotFoundError)
   \<and> (fs local_file = Some records \<longrightarrow>
        (if \<not> readable 32 records
         then load_wisconsin_breast_cancer_diagnosis to_float fs local_file = Inl ParserError
         else if card (set (List.map_filter id (diagnosis_label_cells records))) \<noteq> 2
         then load_wisconsin_breast_cancer_diagnosis to_float fs local_file
                = Inl CategoriesValueError
         else if \<not> all_convertible to_float (diagnosis_cells records)
         then \<exists>s. load_wisconsin_breast_cancer_diagnosis to_float fs local_file
                    = Inl (FloatValueError s)
         else \<exists>X y. load_wisconsin_breast_cancer_diagnosis to_float fs local_file
                      = Inr (X, y)))
   \<and> (fs local_file = Some records \<longrightarrow>
        (if \<not> readable 35 records
         then load_wisconsin_breast_cancer_prognosis to_float fs local_file = Inl ParserError
         else if card (set (List.map_filter id (prognosis_label_cells records))) \<noteq> 2
         then load_wisconsin_breast_cancer_prognosis to_float fs local_file
                = Inl CategoriesValueError
         else if \<not> all_convertible to_float (prognosis_cells records)
         then \<exists>s. load_wisconsin_breast_cancer_prognosis to_float fs local_file
                    = Inl (FloatValueError s)
         else \<exists>X y. load_wisconsin_breast_cancer_prognosis to_float fs local_file
                      = Inr (X, y)))
   \<and> (fs local_file = Some records \<and> list_all (\<lambda>r. length r \<le> 32) records \<longrightarrow>
        readable 32 records
        \<and> load_wisconsin_breast_cancer_diagnosis to_float fs local_file
            = load_wisconsin_breast_cancer_diagnosis to_float
                (fs(local_file \<mapsto> map (pad_record 32) records)) local_file)
   \<and> (fs local_file = Some records \<and> list_all (\<lambda>r. length r \<le> 35) records \<longrightarrow>
        readable 35 records
        \<and> load_wisconsin_breast_cancer_prognosis to_float fs local_file
            = load_wisconsin_breast_cancer_prognosis to_float
                (fs(local_file \<mapsto> map (pad_record 35) records)) local_file)
   \<and> (fs local_file = Some records
        \<and> load_wisconsin_breast_cancer_diagnosis to_float fs local_file = Inr (X, y) \<longrightarrow>
        map fst (df_columns X)
          = (if leading_fields 32 records = 1 then ''ID'' # image_features else image_features)
        \<and> list_all (\<lambda>(n, c). \<exists>vs. c = Float64 vs \<and> length vs = length records) (df_columns X)
        \<and> length (df_index X) = length records
        \<and> sr_index y = df_index X
        \<and> length (get_labels (sr_values y)) = length records)
   \<and> (fs local_file = Some records
        \<and> load_wisconsin_breast_cancer_prognosis to_float fs local_file = Inr (X', y') \<longrightarrow>
        map fst (df_columns X')
          = (if leading_fields 35 records = 1 then ''ID'' # prognosis_features
             else prognosis_features)
        \<and> list_all (\<lambda>(n, c). \<exists>vs. c = Float64 vs \<and> length vs = length records) (df_columns X')
        \<and> length (df_index X') = length records
        \<and> df_index y' = df_index X'
        \<and> map fst (df_columns y') = [''outcome'', ''time'']
        \<and> list_all (\<lambda>(n, c). column_length c = length records) (df_columns y'))"
proof -
  have t1: "fs local_file = None \<longrightarrow>
      load_wisconsin_breast_cancer_diagnosis to_float fs local_file = Inl FileNotFoundError
      \<and> load_wisconsin_breast_cancer_prognosis to_float fs local_file = Inl FileNotFoundError"
    by (simp add: load_diagnosis_absent load_prognosis_absent)
  have t2: "fs local_file = Some records \<longrightarrow>
        (if \<not> readable 32 records
         then load_wisconsin_breast_cancer_diagnosis to_float fs local_file = Inl ParserError
         else if card (set (List.map_filter id (diagnosis_label_cells records))) \<noteq> 2
         then load_wisconsin_breast_cancer_diagnosis to_float fs local_file
                = Inl CategoriesValueError
         else if \<not> all_convertible to_float (diagnosis_cells records)
         then \<exists>s. load_wisconsin_breast_cancer_diagnosis to_float fs local_file
                    = Inl (FloatValueError s)
         else \<exists>X y. load_wisconsin_breast_cancer_diagnosis to_float fs local_file
                      = Inr (X, y))"
    using diagnosis_outcome [where fs=fs and p=local_file and f=to_float and records=records]
    by (auto split: if_splits)
  have t3: "fs local_file = Some records \<longrightarrow>
        (if \<not> readable 35 records
         then load_wisconsin_breast_cancer_prognosis to_float fs local_file = Inl ParserError
         else if card (set (List.map_filter id (prognosis_label_cells records))) \<noteq> 2
         then load_wisconsin_breast_cancer_prognosis to_float fs local_file
                = Inl CategoriesValueError
         else if \<not> all_convertible to_float (prognosis_cells records)
         then \<exists>s. load_wisconsin_breast_cancer_prognosis to_float fs local_file
                    = Inl (FloatValueError s)
         else \<exists>X y. load_wisconsin_breast_cancer_prognosis to_float fs local_file
                      = Inr (X, y))"
    using prognosis_outcome [where fs=fs and p=local_file and f=to_float and records=records]
    by (auto split: if_splits)
  have t4: "fs local_file = Some records \<and> list_all (\<lambda>r. length r \<le> 32) records \<longrightarrow>
        readable 32 records
        \<and> load_wisconsin_breast_cancer_diagnosis to_float fs local_file
            = load_wisconsin_breast_cancer_diagnosis to_float
                (fs(local_file \<mapsto> map (pad_record 32) records)) local_file"
    using padded_diagnosis [where fs=fs and p=local_file and f=to_float and records=records]
      narrow_records(3) [of 32 records]
    by blast
  have t5: "fs local_file = Some records \<and> list_all (\<lambda>r. length r \<le> 35) records \<longrightarrow>
        readable 35 records
        \<and> load_wisconsin_breast_cancer_prognosis to_float fs local_file
            = load_wisconsin_breast_cancer_prognosis to_float
                (fs(local_file \<mapsto> map (pad_record 35) records)) local_file"
    using padded_prognosis [where fs=fs and p=local_file and f=to_float and records=records]
      narrow_records(3) [of 35 records]
    by blast
  have t6: "fs local_file = Some records
        \<and> load_wisconsin_breast_cancer_diagnosis to_float fs local_file = Inr (X, y) \<longrightarrow>
        map fst (df_columns X)
          = (if leading_fields 32 records = 1 then ''ID'' # image_features else image_features)
        \<and> list_all (\<lambda>(n, c). \<exists>vs. c = Float64 vs \<and> length vs = length records) (df_columns X)
        \<and> length (df_index X) = length records
        \<and> sr_index y = df_index X
        \<and> length (get_labels (sr_values y)) = length records"
  proof (intro impI)
    assume "fs local_file = Some records
        \<and> load_wisconsin_breast_cancer_diagnosis to_float fs local_file = Inr (X, y)"
    then have "X = diagnosis_X to_float records" "y = diagnosis_y to_float records"
      using load_diagnosis_InrD [of to_float fs local_file X y] by auto
    then show "map fst (df_columns X)
          = (if leading_fields 32 records = 1 then ''ID'' # image_features else image_features)
        \<and> list_all (\<lambda>(n, c). \<exists>vs. c = Float64 vs \<and> length vs = length records) (df_columns X)
        \<and> length (df_index X) = length records
        \<and> sr_index y = df_index X
        \<and> length (get_labels (sr_values y)) = length records"
      using diagnosis_whole [where f=to_float and records=records] by simp
  qed
  have t7: "fs local_file = Some records
        \<and> load_wisconsin_breast_cancer_prognosis to_float fs local_file = Inr (X', y') \<longrightarrow>
        map fst (df_columns X')
          = (if leading_fields 35 records = 1 then ''ID'' # prognosis_features
             else prognosis_features)
        \<and> list_all (\<lambda>(n, c). \<exists>vs. c = Float64 vs \<and> length vs = length records) (df_columns X')
        \<and> length (df_index X') = length records
        \<and> df_index y' = df_index X'
        \<and> map fst (df_columns y') = [''outcome'', ''time'']
        \<and> list_all (\<lambda>(n, c). column_length c = length records) (df_columns y')"
  proof (intro impI)
    assume "fs local_file = Some records
        \<and> load_wisconsin_breast_cancer_prognosis to_float fs local_file = Inr (X', y')"
    then have "X' = prognosis_X to_float records" "y' = prognosis_y to_float records"
      using load_prognosis_InrD [of to_float fs local_file X' y'] by auto
    then show "map fst (df_columns X')
          = (if leading_fields 35 records = 1 then ''ID'' # prognosis_features
             else prognosis_features)
        \<and> list_all (\<lambda>(n, c). \<exists>vs. c = Float64 vs \<and> length vs = length records) (df_columns X')
        \<and> length (df_index X') = length records
        \<and> df_index y' = df_index X'
        \<and> map fst (df_columns y') = [''outcome'', ''time'']
        \<and> list_all (\<lambda>(n, c). column_length c = length records) (df_columns y')"
      using prognosis_whole [where f=to_float and records=records] by simp
  qed
  show ?thesis
    using t1 t2 t3 t4 t5 t6 t7 by (intro conjI)
qed

theorem load_fails_or_returns_whole_tables_witness:
  "load_wisconsin_breast_cancer_diagnosis decimal
       (one_file default_diagnosis_file diagnosis_sample) default_prognosis_file
     = (Inl FileNotFoundError :: error + string dataframe \<times> string series)
   \<and> load_wisconsin_breast_cancer_prognosis decimal
       (one_file default_diagnosis_file diagnosis_sample) default_prognosis_file
     = (Inl FileNotFoundError :: error + string dataframe \<times> string dataframe)
   \<and> load_wisconsin_breast_cancer_diagnosis decimal
       (one_file default_diagnosis_file diagnosis_ragged) default_diagnosis_file
     = (Inl ParserError :: error + string dataframe \<times> string series)
   \<and> load_wisconsin_breast_cancer_diagnosis decimal
       (one_file default_diagnosis_file diagnosis_two_leading) default_diagnosis_file
     = (Inl ParserError :: error + string dataframe \<times> string series)
   \<and> (\<exists>s. load_wisconsin_breast_cancer_prognosis decimal
           (one_file default_prognosis_file prognosis_bad_number) default_prognosis_file
         = (Inl (FloatValueError s) :: error + string dataframe \<times> string dataframe))
   \<and> (\<exists>X y. load_wisconsin_breast_cancer_diagnosis decimal
           (one_file default_diagnosis_file diagnosis_truth) default_diagnosis_file
         = Inr (X, y))
   \<and> load_wisconsin_breast_cancer_diagnosis decimal
         (one_file default_diagnosis_file diagnosis_short) default_diagnosis_file
       = load_wisconsin_breast_cancer_diagnosis decimal
           (one_file default_diagnosis_file (map (pad_record 32) diagnosis_short))
           default_diagnosis_file
   \<and> (\<exists>X y. load_wisconsin_breast_cancer_diagnosis decimal
           (one_file default_diagnosis_file diagnosis_indexed) default_diagnosis_file
         = Inr (X, y)
        \<and> map fst (df_columns X) = ''ID'' # image_features
        \<and> list_all (\<lambda>(n, c). \<exists>vs. c = Float64 vs \<and> length vs = 2) (df_columns X)
        \<and> length (df_index X) = 2 \<and> sr_index y = df_index X
        \<and> length (get_labels (sr_values y)) = 2)
   \<and> (\<exists>X y. load_wisconsin_breast_cancer_prognosis decimal
           (one_file default_prognosis_file prognosis_sample) default_prognosis_file
         = Inr (X, y)
        \<and> map fst (df_columns X) = prognosis_features
        \<and> list_all (\<lambda>(n, c). \<exists>vs. c = Float64 vs \<and> length vs = 3) (df_columns X)
        \<and> length (df_index X) = 3 \<and> df_index y = df_index X
        \<and> map fst (df_columns y) = [''outcome'', ''time'']
        \<and> list_all (\<lambda>(n, c). column_length c = 3) (df_columns y))"
proof (intro conjI)
  have absent: "one_file default_diagnosis_file diagnosis_sample default_prognosis_file = None"
    by (simp add: one_file_def default_diagnosis_file_def default_prognosis_file_def)
  note t = load_fails_or_returns_whole_tables
      [where fs = "one_file default_diagnosis_file diagnosis_sample"
         and local_file = default_prognosis_file and to_float = decimal, THEN conjunct1]
  show "load_wisconsin_breast_cancer_diagnosis decimal
       (one_file default_diagnosis_file diagnosis_sample) default_prognosis_file
     = (Inl FileNotFoundError :: error + string dataframe \<times> string series)"
    and "load_wisconsin_breast_cancer_prognosis decimal
       (one_file default_diagnosis_file diagnosis_sample) default_prognosis_file
     = (Inl FileNotFoundError :: error + string dataframe \<times> string dataframe)"
    using t absent by simp_all
next
  have f: "one_file default_diagnosis_file diagnosis_ragged default_diagnosis_file
             = Some diagnosis_ragged"
    by (simp add: one_file_def)
  have r: "\<not> readable 32 diagnosis_ragged"
    by code_simp
  show "load_wisconsin_breast_cancer_diagnosis decimal
       (one_file default_diagnosis_file diagnosis_ragged) default_diagnosis_file
     = (Inl ParserError :: error + string dataframe \<times> string series)"
    using load_fails_or_returns_whole_tables
      [where fs = "one_file default_diagnosis_file diagnosis_ragged"
         and local_file = default_diagnosis_file and to_float = decimal
         and records = diagnosis_ragged, THEN conjunct2, THEN conjunct1] f r
    by simp
next
  have f: "one_file default_diagnosis_file diagnosis_two_leading default_diagnosis_file
             = Some diagnosis_two_leading"
    by (simp add: one_file_def)
  have r: "\<not> readable 32 diagnosis_two_leading"
    by code_simp
  show "load_wisconsin_breast_cancer_diagnosis decimal
       (one_file default_diagnosis_file diagnosis_two_leading) default_diagnosis_file
     = (Inl ParserError :: error + string dataframe \<times> string series)"
    using load_fails_or_returns_whole_tables
      [where fs = "one_file default_diagnosis_file diagnosis_two_leading"
         and local_file = default_diagnosis_file and to_float = decimal
         and records = diagnosis_two_leading, THEN conjunct2, THEN conjunct1] f r
    by simp
next
  have f: "one_file default_prognosis_file prognosis_bad_number default_prognosis_file
             = Some prognosis_bad_number"
    by (simp add: one_file_def)
  have r: "readable 35 prognosis_bad_number"
    "\<not> all_convertible decimal (prognosis_cells prognosis_bad_number)"
    by code_simp+
  have "prognosis_label_cells prognosis_bad_number = [Some ''N'', Some ''R'']"
    by code_simp
  then have c: "card (set (List.map_filter id (prognosis_label_cells prognosis_bad_number))) = 2"
    by (simp add: List.map_filter_def)
  show "\<exists>s. load_wisconsin_breast_cancer_prognosis decimal
           (one_file default_prognosis_file prognosis_bad_number) default_prognosis_file
         = (Inl (FloatValueError s) :: error + string dataframe \<times> string dataframe)"
    using load_fails_or_returns_whole_tables
      [where fs = "one_file default_prognosis_file prognosis_bad_number"
         and local_file = default_prognosis_file and to_float = decimal
         and records = prognosis_bad_number, THEN conjunct2, THEN conjunct2, THEN conjunct1]
      f r c
    by simp
next
  have f: "one_file default_diagnosis_file diagnosis_truth default_diagnosis_file
             = Some diagnosis_truth"
    by (simp add: one_file_def)
  have r: "readable 32 diagnosis_truth"
    "all_convertible decimal (diagnosis_cells diagnosis_truth)"
    by code_simp+
  have "diagnosis_label_cells diagnosis_truth = [Some ''M'', Some ''B'']"
    by code_simp
  then have c: "card (set (List.map_filter id (diagnosis_label_cells diagnosis_truth))) = 2"
    by (simp add: List.map_filter_def)
  show "\<exists>X y. load_wisconsin_breast_cancer_diagnosis decimal
           (one_file default_diagnosis_file diagnosis_truth) default_diagnosis_file
         = Inr (X, y)"
    using load_fails_or_returns_whole_tables
      [where fs = "one_file default_diagnosis_file diagnosis_truth"
         and local_file = default_diagnosis_file and to_float = decimal
         and records = diagnosis_truth, THEN conjunct2, THEN conjunct1]
      f r c
    by simp
next
  let ?f = "one_file default_diagnosis_file diagnosis_short"
  have f: "?f default_diagnosis_file = Some diagnosis_short"
    by (simp add: one_file_def)
  have w: "list_all (\<lambda>r. length r \<le> 32) diagnosis_short"
    by code_simp
  have "?f(default_diagnosis_file \<mapsto> map (pad_record 32) diagnosis_short)
          = one_file default_diagnosis_file (map (pad_record 32) diagnosis_short)"
    by (simp add: one_file_def fun_eq_iff)
  then show "load_wisconsin_breast_cancer_diagnosis decimal ?f default_diagnosis_file
       = load_wisconsin_breast_cancer_diagnosis decimal
           (one_file default_diagnosis_file (map (pad_record 32) diagnosis_short))
           default_diagnosis_file"
    using load_fails_or_returns_whole_tables
      [where fs = ?f and local_file = default_diagnosis_file and to_float = decimal
         and records = diagnosis_short, THEN conjunct2, THEN conjunct2, THEN conjunct2,
         THEN conjunct1]
      f w
    by simp
next
  let ?f = "one_file default_diagnosis_file diagnosis_indexed"
  let ?X = "diagnosis_X decimal diagnosis_indexed"
  let ?y = "diagnosis_y decimal diagnosis_indexed"
  have f: "?f default_diagnosis_file = Some diagnosis_indexed"
    by (simp add: one_file_def)
  have h: "leading_fields 32 diagnosis_indexed = 1" "length diagnosis_indexed = 2"
    by code_simp+
  have "map fst (df_columns ?X) = ''ID'' # image_features
        \<and> list_all (\<lambda>(n, c). \<exists>vs. c = Float64 vs \<and> length vs = 2) (df_columns ?X)
        \<and> length (df_index ?X) = 2 \<and> sr_index ?y = df_index ?X
        \<and> length (get_labels (sr_values ?y)) = 2"
    using load_fails_or_returns_whole_tables
      [where fs = ?f and local_file = default_diagnosis_file and to_float = decimal
         and records = diagnosis_indexed and X = ?X and y = ?y,
         THEN conjunct2, THEN conjunct2, THEN conjunct2, THEN conjunct2, THEN conjunct2,
         THEN conjunct1]
      f h diagnosis_indexed_loads
    by simp
  then show "\<exists>X y. load_wisconsin_breast_cancer_diagnosis decimal ?f default_diagnosis_file
         = Inr (X, y)
        \<and> map fst (df_columns X) = ''ID'' # image_features
        \<and> list_all (\<lambda>(n, c). \<exists>vs. c = Float64 vs \<and> length vs = 2) (df_columns X)
        \<and> length (df_index X) = 2 \<and> sr_index y = df_index X
        \<and> length (get_labels (sr_values y)) = 2"
    by (intro exI [where x = ?X] exI [where x = ?y]) (simp add: diagnosis_indexed_loads)
next
  let ?f = "one_file default_prognosis_file prognosis_sample"
  let ?X = "prognosis_X decimal prognosis_sample"
  let ?y = "prognosis_y decimal prognosis_sample"
  have f: "?f default_prognosis_file = Some prognosis_sample"
    by (simp add: one_file_def)
  have h: "leading_fields 35 prognosis_sample = 0" "length prognosis_sample = 3"
    by code_simp+
  have "map fst (df_columns ?X) = prognosis_features
        \<and> list_all (\<lambda>(n, c). \<exists>vs. c = Float64 vs \<and> length vs = 3) (df_columns ?X)
        \<and> length (df_index ?X) = 3 \<and> df_index ?y = df_index ?X
        \<and> map fst (df_columns ?y) = [''outcome'', ''time'']
        \<and> list_all (\<lambda>(n, c). column_length c = 3) (df_columns ?y)"
    using load_fails_or_returns_whole_tables
      [where fs = ?f and local_file = default_prognosis_file and to_float = decimal
         and records = prognosis_sample and X' = ?X and y' = ?y,
         THEN conjunct2, THEN conjunct2, THEN conjunct2, THEN conjunct2, THEN conjunct2,
         THEN conjunct2]
      f h prognosis_sample_loads
    by simp
  then show "\<exists>X y. load_wisconsin_breast_cancer_prognosis decimal ?f default_prognosis_file
         = Inr (X, y)
        \<and> map fst (df_columns X) = prognosis_features
        \<and> list_all (\<lambda>(n, c). \<exists>vs. c = Float64 vs \<and> length vs = 3) (df_columns X)
        \<and> length (df_index X) = 3 \<and> df_index y = df_index X
        \<and> map fst (df_columns y) = [''outcome'', ''time'']
        \<and> list_all (\<lambda>(n, c). column_length c = 3) (df_columns y)"
    by (intro exI [where x = ?X] exI [where x = ?y]) (simp add: prognosis_sample_loads)
qed

text \<open>
  C7 as stated fails on a path that names no file: the error is the file-not-found error,
  not a parse error. It fails on three diagnosis files whose loads return. The two records
  of the first have 31 fields instead of 32: the last features column holds missing markers.
  The two records of the second have 33 fields: the first field is the row index and the
  features table has 31 columns, the first named \<^verbatim>\<open>ID\<close>. The \<^verbatim>\<open>mean_radius\<close> cells of the
  third are \<^verbatim>\<open>True\<close> and \<^verbatim>\<open>false\<close>, which are no numbers: the column is converted to 1 and 0.
\<close>

theorem schema_mismatch_counterexample:
  "load_wisconsin_breast_cancer_diagnosis decimal
       (one_file default_diagnosis_file diagnosis_sample) default_prognosis_file
     = (Inl FileNotFoundError :: error + string dataframe \<times> string series)
   \<and> map length diagnosis_short = [31, 31]
   \<and> load_wisconsin_breast_cancer_diagnosis decimal
       (one_file default_diagnosis_file diagnosis_short) default_diagnosis_file
     = Inr (diagnosis_X decimal diagnosis_short, diagnosis_y decimal diagnosis_short)
   \<and> df_columns (diagnosis_X decimal diagnosis_short) ! 29
       = (''worst_fractal dimension'', Float64 [None, None])
   \<and> map length diagnosis_indexed = [33, 33]
   \<and> load_wisconsin_breast_cancer_diagnosis decimal
       (one_file default_diagnosis_file diagnosis_indexed) default_diagnosis_file
     = Inr (diagnosis_X decimal diagnosis_indexed, diagnosis_y decimal diagnosis_indexed)
   \<and> length (df_columns (diagnosis_X decimal diagnosis_indexed)) = 31
   \<and> df_columns (diagnosis_X decimal diagnosis_indexed) ! 0
       = (''ID'', Float64 [Some ''842302'', Some ''8510426''])
   \<and> df_index (diagnosis_X decimal diagnosis_indexed) = [Some (Text ''r1''), Some (Text ''r2'')]
   \<and> file_column [] diagnosis_truth 2 = [Some ''True'', Some ''false'']
   \<and> decimal ''True'' = None
   \<and> load_wisconsin_breast_cancer_diagnosis decimal
       (one_file default_diagnosis_file diagnosis_truth) default_diagnosis_file
     = Inr (diagnosis_X decimal diagnosis_truth, diagnosis_y decimal diagnosis_truth)
   \<and> df_columns (diagnosis_X decimal diagnosis_truth) ! 0
       = (''mean_radius'', Float64 [Some ''1'', Some ''0''])"
  by code_simp

text \<open>
  C9. A call of a loader reads the file at the given path and changes nothing that was
  there before it. Run in any world, it returns what the loader computes from the file
  system of that world (the error, or references to the two tables); the world it leaves
  has the same file system, so no file is created or modified; every object of the heap
  that existed before the call is still there, unchanged: what the call writes, the
  in-place \<^verbatim>\<open>extend\<close> and \<^verbatim>\<open>rename_categories\<close> included, are objects it has created itself.
  So a second call, in the world the first one leaves, returns equal outputs: nothing is
  cached; and so does a call in any other world that holds the same file at the path,
  whatever else that world holds.
\<close>

theorem loads_read_the_file_and_change_nothing:
  "diagnosis_outputs (load_wisconsin_breast_cancer_diagnosis_on to_float local_file w)
     = Some (load_wisconsin_breast_cancer_diagnosis to_float (files w) local_file)
   \<and> files (snd (load_wisconsin_breast_cancer_diagnosis_on to_float local_file w)) = files w
   \<and> take (length (heap w))
        (heap (snd (load_wisconsin_breast_cancer_diagnosis_on to_float local_file w))) = heap w
   \<and> diagnosis_outputs (load_wisconsin_breast_cancer_diagnosis_on to_float local_file
          (snd (load_wisconsin_breast_cancer_diagnosis_on to_float local_file w)))
       = diagnosis_outputs (load_wisconsin_breast_cancer_diagnosis_on to_float local_file w)
   \<and> (files w' local_file = files w local_file \<longrightarrow>
        diagnosis_outputs (load_wisconsin_breast_cancer_diagnosis_on to_float local_file w')
          = diagnosis_outputs (load_wisconsin_breast_cancer_diagnosis_on to_float local_file w))
   \<and> prognosis_outputs (load_wisconsin_breast_cancer_prognosis_on to_float local_file w)
       = Some (load_wisconsin_breast_cancer_prognosis to_float (files w) local_file)
   \<and> files (snd (load_wisconsin_breast_cancer_prognosis_on to_float local_file w)) = files w
   \<and> take (length (heap w))
        (heap (snd (load_wisconsin_breast_cancer_prognosis_on to_float local_file w))) = heap w
   \<and> prognosis_outputs (load_wisconsin_breast_cancer_prognosis_on to_float local_file
          (snd (load_wisconsin_breast_cancer_prognosis_on to_float local_file w)))
       = prognosis_outputs (load_wisconsin_breast_cancer_prognosis_on to_float local_file w)
   \<and> (files w' local_file = files w local_file \<longrightarrow>
        prognosis_outputs (load_wisconsin_breast_cancer_prognosis_on to_float local_file w')
          = prognosis_outputs (load_wisconsin_breast_cancer_prognosis_on to_float local_file w))"
proof -
  have "load_wisconsin_breast_cancer_diagnosis to_float (files w') local_file
          = load_wisconsin_breast_cancer_diagnosis to_float (files w) local_file"
    and "load_wisconsin_breast_cancer_prognosis to_float (files w') local_file
          = load_wisconsin_breast_cancer_prognosis to_float (files w) local_file"
    if "files w' local_file = files w local_file"
    using load_reads_one_file [where ?fs1.0="files w'" and ?fs2.0="files w" and p=local_file
        and f=to_float, OF that]
    by simp_all
  then show ?thesis
    by (simp add: load_diagnosis_on_outputs load_diagnosis_on_frame
        load_prognosis_on_outputs load_prognosis_on_frame)
qed

theorem loads_read_the_file_and_change_nothing_witness:
  "diagnosis_outputs
       (load_wisconsin_breast_cancer_diagnosis_on decimal default_diagnosis_file busy_world)
     = Some (Inr (diagnosis_X decimal diagnosis_sample, diagnosis_y decimal diagnosis_sample))
   \<and> files (snd (load_wisconsin_breast_cancer_diagnosis_on decimal default_diagnosis_file
         busy_world)) = other_files
   \<and> take 1 (heap (snd (load_wisconsin_breast_cancer_diagnosis_on decimal
         default_diagnosis_file busy_world))) = [ListObject [''kept'']]
   \<and> diagnosis_outputs
       (load_wisconsin_breast_cancer_diagnosis_on decimal default_diagnosis_file
          (snd (load_wisconsin_breast_cancer_diagnosis_on decimal default_diagnosis_file
             busy_world)))
     = Some (Inr (diagnosis_X decimal diagnosis_sample, diagnosis_y decimal diagnosis_sample))
   \<and> diagnosis_outputs
       (load_wisconsin_breast_cancer_diagnosis_on decimal default_diagnosis_file bare_world)
     = Some (Inr (diagnosis_X decimal diagnosis_sample, diagnosis_y decimal diagnosis_sample))
   \<and> prognosis_outputs
       (load_wisconsin_breast_cancer_prognosis_on decimal default_prognosis_file busy_world)
     = Some (Inr (prognosis_X decimal prognosis_sample, prognosis_y decimal prognosis_sample))
   \<and> take 1 (heap (snd (load_wisconsin_breast_cancer_prognosis_on decimal
         default_prognosis_file busy_world))) = [ListObject [''kept'']]"
proof -
  have w: "files busy_world = other_files" "heap busy_world = [ListObject [''kept'']]"
    "length (heap busy_world) = 1"
    by (simp_all add: busy_world_def)
  have same: "files bare_world default_diagnosis_file = files busy_world default_diagnosis_file"
    by (simp add: bare_world_def busy_world_def one_file_def other_files_def)
  have d: "load_wisconsin_breast_cancer_diagnosis decimal other_files default_diagnosis_file
       = Inr (diagnosis_X decimal diagnosis_sample, diagnosis_y decimal diagnosis_sample)"
    using load_reads_one_file(1)
      [of other_files default_diagnosis_file
          "one_file default_diagnosis_file diagnosis_sample" decimal]
      diagnosis_sample_loads
    by (simp add: one_file_def other_files_def)
  have p: "load_wisconsin_breast_cancer_prognosis decimal other_files default_prognosis_file
       = Inr (prognosis_X decimal prognosis_sample, prognosis_y decimal prognosis_sample)"
    using load_reads_one_file(2)
      [of other_files default_prognosis_file
          "one_file default_prognosis_file prognosis_sample" decimal]
      prognosis_sample_loads
    by (simp add: one_file_def other_files_def default_diagnosis_file_def
        default_prognosis_file_def)
  show ?thesis
    using loads_read_the_file_and_change_nothing
        [where w = busy_world and w' = bare_world and to_float = decimal
           and local_file = default_diagnosis_file]
      loads_read_the_file_and_change_nothing
        [where w = busy_world and to_float = decimal and local_file = default_prognosis_file]
      same d p
    by (simp add: w)
qed

end
